(* ===== verification/Prelude.thy ===== *)
theory Prelude
  imports Complex_Main "HOL-Library.AList"
begin

text \<open>
  Shared vocabulary of the ZEO development: the lemma collections the component
  theories feed, the names of the model's basic types, and the few JavaScript
  primitives the sources lean on (template-literal printing of a millisecond
  timestamp, \<open>String.prototype.startsWith\<close>, truthiness of an optional string,
  \<open>parseInt\<close> on a decimal prefix). JavaScript \<open>Map\<close>s, which keep insertion order
  and overwrite in place on \<open>set\<close>, are association lists of HOL-Library.AList:
  \<open>AList.update\<close> is \<open>Map.prototype.set\<close>, \<open>AList.delete\<close> is \<open>Map.prototype.delete\<close>,
  \<open>map_of\<close> is \<open>Map.prototype.get\<close>.
\<close>

named_theorems js_simps "evaluation rules of the JavaScript primitives"
named_theorems inv_intros "one-step preservation lemmas of the component invariants"

type_synonym timestamp = nat \<comment> \<open>\<open>Date.now()\<close>, milliseconds\<close>

text \<open>
  JSON values as they arrive in request bodies and are handed to the external agent
  library. Objects are association lists in key order. Numbers are integers
  (\<open>JNum\<close>) or the decimal literals the sources write (\<open>JDec m e\<close> is
  \<open>m \<cdot> 10\<^sup>-\<^sup>e\<close>, e.g. \<open>temperature: 0.25\<close>).
\<close>

datatype json = JNull | JBool bool | JNum int | JDec int nat | JStr string | JArr "json list"
  | JObj "(string \<times> json) list"

text \<open>
  The outcome of a call into an external library the sources only call (the MCP agent,
  the xAI endpoint): it returns a value or throws an error with a message.
\<close>

datatype 'a outcome = Returns 'a | Throws string

subsection \<open>Decimal printing and reading of naturals\<close>

definition digit_char :: "nat \<Rightarrow> char" where
  "digit_char d = char_of (48 + d)"

definition is_digit :: "char \<Rightarrow> bool" where
  "is_digit c \<longleftrightarrow> (48::nat) \<le> of_char c \<and> of_char c \<le> (57::nat)"

definition digit_val :: "char \<Rightarrow> nat" where
  "digit_val c = of_char c - 48"

text \<open>\<open>`${n}`\<close> for a non-negative integer \<open>n\<close>.\<close>

fun string_of_nat :: "nat \<Rightarrow> string" where
  "string_of_nat n =
     (if n < 10 then [digit_char n] else string_of_nat (n div 10) @ [digit_char (n mod 10)])"

declare string_of_nat.simps [simp del]

definition nat_of_digits :: "string \<Rightarrow> nat" where
  "nat_of_digits s = foldl (\<lambda>acc c. 10 * acc + digit_val c) 0 s"

text \<open>\<open>String.prototype.startsWith\<close>.\<close>

definition starts_with :: "string \<Rightarrow> string \<Rightarrow> bool" where
  "starts_with s p \<longleftrightarrow> take (length p) s = p"

text \<open>
  Truthiness of a field that may be \<open>undefined\<close>/\<open>null\<close> (\<open>None\<close>) or a string:
  the empty string is falsy.
\<close>

fun js_truthy_str :: "string option \<Rightarrow> bool" where
  "js_truthy_str None = False"
| "js_truthy_str (Some s) = (s \<noteq> [])"

text \<open>Truthiness of an array: every array is truthy, the empty one included.\<close>

definition js_truthy_array :: "'a list \<Rightarrow> bool" where
  "js_truthy_array xs = True"

text \<open>\<open>a || b\<close> where \<open>a\<close> is an optional string (an environment variable) and \<open>b\<close> a default.\<close>

fun js_or_str :: "string option \<Rightarrow> string \<Rightarrow> string" where
  "js_or_str v d = (if js_truthy_str v then the v else d)"

text \<open>\<open>String.prototype.replace(pat, rep)\<close> with a string pattern: the first occurrence only.\<close>

fun replace_first :: "string \<Rightarrow> string \<Rightarrow> string \<Rightarrow> string" where
  "replace_first pat rep [] = (if pat = [] then rep else [])"
| "replace_first pat rep (c # cs) =
     (if take (length pat) (c # cs) = pat then rep @ drop (length pat) (c # cs)
      else c # replace_first pat rep cs)"

definition is_js_space :: "char \<Rightarrow> bool" where
  "is_js_space c \<longleftrightarrow> c \<in> set [CHR '' '', CHR 0x09, CHR 0x0A, CHR 0x0B, CHR 0x0C, CHR 0x0D]"

definition is_hex_digit :: "char \<Rightarrow> bool" where
  "is_hex_digit c \<longleftrightarrow> is_digit c \<or> c \<in> set ''abcdefABCDEF''"

definition hex_val :: "char \<Rightarrow> nat" where
  "hex_val c = (if is_digit c then digit_val c
                else if c \<in> set ''abcdef'' then of_char c - 87 else of_char c - 55)"

text \<open>
  \<open>parseInt(s)\<close> without radix: leading white space, an optional sign, a \<open>0x\<close>
  prefix for hexadecimal, then the longest run of digits; \<open>None\<close> is \<open>NaN\<close>
  (no digit at all).
\<close>

definition js_parseInt :: "string \<Rightarrow> int option" where
  "js_parseInt s =
     (let s1 = dropWhile is_js_space s;
          (sgn, s2) = (case s1 of
                         c # r \<Rightarrow> if c = CHR ''-'' then (-1, r) else if c = CHR ''+'' then (1, r) else (1, s1)
                       | [] \<Rightarrow> (1, []))
      in if take 2 s2 = ''0x'' \<or> take 2 s2 = ''0X''
         then (let ds = takeWhile is_hex_digit (drop 2 s2) in
               if ds = [] then None
               else Some (sgn * int (foldl (\<lambda>acc c. 16 * acc + hex_val c) 0 ds)))
         else (let ds = takeWhile is_digit s2 in
               if ds = [] then None else Some (sgn * int (nat_of_digits ds))))"

text \<open>
  One property of an object spread \<open>{...a, ...b}\<close>: \<open>b\<close>'s value when \<open>b\<close> has the
  property, \<open>a\<close>'s otherwise.
\<close>

fun spread_opt :: "'a option \<Rightarrow> 'a option \<Rightarrow> 'a option" where
  "spread_opt a None = a"
| "spread_opt a (Some v) = Some v"

text \<open>\<open>Array.prototype.findIndex\<close>: the first index whose element satisfies \<open>p\<close>, or \<open>-1\<close>.\<close>

fun findIndex :: "('a \<Rightarrow> bool) \<Rightarrow> 'a list \<Rightarrow> int" where
  "findIndex p [] = -1"
| "findIndex p (x # xs) = (if p x then 0 else (let i = findIndex p xs in if i < 0 then -1 else i + 1))"

subsection \<open>JSON values as JavaScript reads them\<close>

text \<open>
  Property access \<open>v.k\<close> on a value that \<open>JSON.parse\<close> produced or the sources built:
  \<open>None\<close> is \<open>undefined\<close>. An object answers the last binding of the key (the one
  \<open>JSON.parse\<close> keeps); for the property names the sources read, arrays, strings,
  numbers and booleans have none.
\<close>

fun json_get :: "json \<Rightarrow> string \<Rightarrow> json option" where
  "json_get (JObj kvs) k = map_of (rev kvs) k"
| "json_get _ k = None"

text \<open>\<open>v.k\<close> where \<open>v\<close> may itself be \<open>undefined\<close> or \<open>null\<close>: a \<open>TypeError\<close>.\<close>

definition type_error_msg :: "string \<Rightarrow> string" where
  "type_error_msg k = ''Cannot read properties of undefined (reading '' @ [CHR 0x27] @ k @ [CHR 0x27] @ '')''"

fun js_access :: "json option \<Rightarrow> string \<Rightarrow> json option outcome" where
  "js_access None k = Throws (type_error_msg k)"
| "js_access (Some JNull) k = Throws (type_error_msg k)"
| "js_access (Some v) k = Returns (json_get v k)"

text \<open>\<open>v[i]\<close> on an array.\<close>

fun js_index :: "json option \<Rightarrow> nat \<Rightarrow> json option outcome" where
  "js_index None i = Throws (type_error_msg (string_of_nat i))"
| "js_index (Some JNull) i = Throws (type_error_msg (string_of_nat i))"
| "js_index (Some (JArr xs)) i = Returns (if i < length xs then Some (xs ! i) else None)"
| "js_index (Some v) i = Returns None"

fun js_truthy :: "json option \<Rightarrow> bool" where
  "js_truthy None = False"
| "js_truthy (Some JNull) = False"
| "js_truthy (Some (JBool b)) = b"
| "js_truthy (Some (JNum n)) = (n \<noteq> 0)"
| "js_truthy (Some (JDec m e)) = (m \<noteq> 0)"
| "js_truthy (Some (JStr s)) = (s \<noteq> [])"
| "js_truthy (Some (JArr xs)) = True"
| "js_truthy (Some (JObj kvs)) = True"

definition string_of_int :: "int \<Rightarrow> string" where
  "string_of_int i = (if i < 0 then ''-'' @ string_of_nat (nat (- i)) else string_of_nat (nat i))"

text \<open>\<open>xs.join(sep)\<close> on strings.\<close>

fun js_join :: "string \<Rightarrow> string list \<Rightarrow> string" where
  "js_join sep [] = []"
| "js_join sep [x] = x"
| "js_join sep (x # y # zs) = x @ sep @ js_join sep (y # zs)"

text \<open>
  The shortest decimal form of \<open>m \<cdot> 10\<^sup>-\<^sup>e\<close>, as \<open>Number.prototype.toString\<close> prints
  the decimal literals of the sources (no exponent form).
\<close>

definition dec_string :: "int \<Rightarrow> nat \<Rightarrow> string" where
  "dec_string m e =
     (let a = nat \<bar>m\<bar>; q = a div 10 ^ e; r = a mod 10 ^ e;
          ds = string_of_nat r;
          frac = rev (dropWhile (\<lambda>c. c = CHR ''0'') (rev (replicate (e - length ds) (CHR ''0'') @ ds)))
      in (if m < 0 then ''-'' else []) @ string_of_nat q @ (if r = 0 then [] else ''.'' @ frac))"

text \<open>\<open>String(v)\<close>, the conversion of a template literal \<open>`${v}`\<close>.\<close>

fun json_to_js_string :: "json \<Rightarrow> string" where
  "json_to_js_string JNull = ''null''"
| "json_to_js_string (JBool b) = (if b then ''true'' else ''false'')"
| "json_to_js_string (JNum n) = string_of_int n"
| "json_to_js_string (JDec m e) = dec_string m e"
| "json_to_js_string (JStr s) = s"
| "json_to_js_string (JArr xs) =
     js_join '','' (map (\<lambda>x. if x = JNull then [] else json_to_js_string x) xs)"
| "json_to_js_string (JObj kvs) = ''[object Object]''"

fun js_to_string :: "json option \<Rightarrow> string" where
  "js_to_string None = ''undefined''"
| "js_to_string (Some v) = json_to_js_string v"

text \<open>Assigning to \<open>textContent\<close>: \<open>null\<close> and \<open>undefined\<close> give the empty string.\<close>

fun text_content :: "json option \<Rightarrow> string" where
  "text_content None = []"
| "text_content (Some JNull) = []"
| "text_content (Some v) = json_to_js_string v"

text \<open>\<open>JSON.stringify\<close>: strings quoted with the escapes of ECMA-262 \<open>QuoteJSONString\<close>.\<close>

definition hex_digit_lower :: "nat \<Rightarrow> char" where
  "hex_digit_lower d = (if d < 10 then digit_char d else char_of (87 + d))"

definition json_escape_char :: "char \<Rightarrow> string" where
  "json_escape_char c =
     (if c = CHR 0x22 then [CHR 0x5C, CHR 0x22]
      else if c = CHR 0x5C then [CHR 0x5C, CHR 0x5C]
      else if c = CHR 0x08 then [CHR 0x5C, CHR ''b'']
      else if c = CHR 0x0C then [CHR 0x5C, CHR ''f'']
      else if c = CHR 0x0A then [CHR 0x5C, CHR ''n'']
      else if c = CHR 0x0D then [CHR 0x5C, CHR ''r'']
      else if c = CHR 0x09 then [CHR 0x5C, CHR ''t'']
      else if of_char c < (32::nat)
        then [CHR 0x5C, CHR ''u'', CHR ''0'', CHR ''0'',
              hex_digit_lower (of_char c div 16), hex_digit_lower (of_char c mod 16)]
      else [c])"

definition json_quote :: "string \<Rightarrow> string" where
  "json_quote s = [CHR 0x22] @ concat (map json_escape_char s) @ [CHR 0x22]"

fun json_stringify :: "json \<Rightarrow> string" where
  "json_stringify JNull = ''null''"
| "json_stringify (JBool b) = (if b then ''true'' else ''false'')"
| "json_stringify (JNum n) = string_of_int n"
| "json_stringify (JDec m e) = dec_string m e"
| "json_stringify (JStr s) = json_quote s"
| "json_stringify (JArr xs) = ''['' @ js_join '','' (map json_stringify xs) @ '']''"
| "json_stringify (JObj kvs) =
     ''{'' @ js_join '','' (map (\<lambda>kv. json_quote (fst kv) @ '':'' @ json_stringify (snd kv)) kvs) @ ''}''"

subsection \<open>Strings\<close>

text \<open>\<open>String.prototype.trim\<close> (white space of the ASCII range).\<close>

definition js_trim :: "string \<Rightarrow> string" where
  "js_trim s = rev (dropWhile is_js_space (rev (dropWhile is_js_space s)))"

text \<open>\<open>s.split(c)\<close> with a one-character separator: the fields, empty ones included.\<close>

fun split_on :: "char \<Rightarrow> string \<Rightarrow> string list" where
  "split_on c [] = [[]]"
| "split_on c (x # xs) =
     (if x = c then [] # split_on c xs
      else (case split_on c xs of w # ws \<Rightarrow> (x # w) # ws | [] \<Rightarrow> [[x]]))"

text \<open>\<open>toUpperCase\<close> on ASCII letters.\<close>

definition js_upper :: "string \<Rightarrow> string" where
  "js_upper s =
     map (\<lambda>c. if (97::nat) \<le> of_char c \<and> of_char c \<le> (122::nat) then char_of (of_char c - (32::nat)) else c) s"

subsection \<open>Pools of handles\<close>

text \<open>
  Timers of \<open>setInterval\<close> and media recorders are handles: a list of live ones, the
  one a field names (\<open>this.pollingInterval\<close>, \<open>this.mediaRecorder\<close>), and the next
  fresh number. Creating one makes it live and current; releasing stops the current
  one only; forgetting clears the field. A live handle the field does not name is an
  orphan: nothing can release it any more.
\<close>

type_synonym pool = "nat list \<times> nat option \<times> nat"

fun pool_alloc :: "pool \<Rightarrow> pool" where
  "pool_alloc (live, cur, n) = (live @ [n], Some n, Suc n)"

fun pool_release :: "pool \<Rightarrow> pool" where
  "pool_release (live, None, n) = (live, None, n)"
| "pool_release (live, Some k, n) = (removeAll k live, Some k, n)"

fun pool_forget :: "pool \<Rightarrow> pool" where
  "pool_forget (live, cur, n) = (live, None, n)"

fun pool_ok :: "pool \<Rightarrow> bool" where
  "pool_ok (live, cur, n) \<longleftrightarrow> (\<forall>k \<in> set live. k < n) \<and> (\<forall>k. cur = Some k \<longrightarrow> k < n)"

fun pool_orphan :: "nat \<Rightarrow> pool \<Rightarrow> bool" where
  "pool_orphan k (live, cur, n) \<longleftrightarrow> k \<in> set live \<and> cur \<noteq> Some k"

definition pool_step :: "pool \<Rightarrow> pool \<Rightarrow> bool" where
  "pool_step p p' \<longleftrightarrow> pool_ok p \<longrightarrow> pool_ok p' \<and> (\<forall>k. pool_orphan k p \<longrightarrow> pool_orphan k p')"

subsection \<open>Lemmas\<close>

lemma findIndex_range: "-1 \<le> findIndex p xs \<and> findIndex p xs < int (length xs)"
  by (induction xs) (auto simp: Let_def)

lemma findIndex_neg_iff [simp]: "findIndex p xs < 0 \<longleftrightarrow> (\<forall>x \<in> set xs. \<not> p x)"
  by (induction xs) (auto simp: Let_def)

lemma findIndex_nonneg_iff [simp]: "0 \<le> findIndex p xs \<longleftrightarrow> (\<exists>x \<in> set xs. p x)"
  by (metis findIndex_neg_iff not_le)

lemma findIndex_found:
  "0 \<le> findIndex p xs \<Longrightarrow>
     nat (findIndex p xs) < length xs \<and> p (xs ! nat (findIndex p xs)) \<and>
     find p xs = Some (xs ! nat (findIndex p xs))"
proof (induction xs)
  case Nil
  then show ?case by simp
next
  case (Cons x xs)
  show ?case
  proof (cases "p x")
    case True
    then show ?thesis by simp
  next
    case False
    with Cons.prems have "\<not> (\<forall>y \<in> set xs. \<not> p y)"
      by (auto simp: Let_def split: if_splits)
    then have "0 \<le> findIndex p xs"
      by (metis findIndex_neg_iff not_less)
    with Cons.IH False show ?thesis
      by (auto simp: Let_def nat_add_distrib)
  qed
qed

lemma find_update_first:
  "i < length xs \<Longrightarrow> p y \<Longrightarrow> \<forall>j < i. \<not> p (xs ! j) \<Longrightarrow> find p (xs[i := y]) = Some y"
proof (induction xs arbitrary: i)
  case Nil
  then show ?case by simp
next
  case (Cons x xs)
  show ?case
  proof (cases i)
    case 0
    with Cons.prems show ?thesis by simp
  next
    case (Suc n)
    with Cons.prems have "\<not> p x" and "\<forall>j < n. \<not> p (xs ! j)" and "n < length xs"
      by (auto dest: spec [of _ 0] spec [of _ "Suc _"])
    with Cons.IH Cons.prems(2) Suc show ?thesis by simp
  qed
qed

lemma find_append_none: "\<forall>x \<in> set xs. \<not> p x \<Longrightarrow> find p (xs @ ys) = find p ys"
  by (induction xs) auto

lemma findIndex_first:
  "0 \<le> findIndex p xs \<Longrightarrow> j < nat (findIndex p xs) \<Longrightarrow> \<not> p (xs ! j)"
proof (induction xs arbitrary: j)
  case Nil
  then show ?case by simp
next
  case (Cons x xs)
  then show ?case
    by (cases j) (auto simp: Let_def split: if_splits)
qed

lemma digit_char_digit [simp]: "d < 10 \<Longrightarrow> is_digit (digit_char d)"
  by (simp add: digit_char_def is_digit_def)

lemma digit_val_digit_char [simp]: "d < 10 \<Longrightarrow> digit_val (digit_char d) = d"
  by (simp add: digit_char_def digit_val_def)

lemma nat_of_digits_snoc [simp]:
  "nat_of_digits (s @ [c]) = 10 * nat_of_digits s + digit_val c"
  by (simp add: nat_of_digits_def)

lemma string_of_nat_digits: "\<forall>c \<in> set (string_of_nat n). is_digit c"
proof (induction n rule: string_of_nat.induct)
  case (1 n)
  then show ?case
    by (subst string_of_nat.simps) auto
qed
text \<open>Reading back what was printed gives the number: the print/parse round trip.\<close>

lemma nat_of_digits_string_of_nat [simp]: "nat_of_digits (string_of_nat n) = n"
proof (induction n rule: string_of_nat.induct)
  case (1 n)
  show ?case
  proof (cases "n < 10")
    case True
    then show ?thesis
      by (subst string_of_nat.simps) (simp add: nat_of_digits_def)
  next
    case False
    with "1.IH" show ?thesis
      by (subst string_of_nat.simps) simp
  qed
qed

lemma string_of_nat_inj [simp]: "string_of_nat m = string_of_nat n \<longleftrightarrow> m = n"
  by (metis nat_of_digits_string_of_nat)

lemma starts_with_append [simp]: "starts_with (p @ s) p"
  by (simp add: starts_with_def)

lemma js_truthy_str_iff: "js_truthy_str v \<longleftrightarrow> (\<exists>s. v = Some s \<and> s \<noteq> [])"
  by (cases v) auto

lemma map_of_update_eq [simp]: "map_of (AList.update k v al) k = Some v"
  by (simp add: update_conv')

lemma map_of_update_other [simp]: "k' \<noteq> k \<Longrightarrow> map_of (AList.update k v al) k' = map_of al k'"
  by (simp add: update_conv')

lemma distinct_keys_update [simp, intro]:
  "distinct (map fst al) \<Longrightarrow> distinct (map fst (AList.update k v al))"
  by (rule distinct_update)

lemma pool_step_refl [simp]: "pool_step p p"
  by (simp add: pool_step_def)

lemma pool_step_alloc [simp]: "pool_step p (pool_alloc p)"
  by (cases p) (auto simp: pool_step_def)

lemma pool_step_release [simp]: "pool_step p (pool_release p)"
  by (cases p rule: pool_release.cases) (auto simp: pool_step_def)

lemma pool_step_forget_release [simp]: "pool_step p (pool_forget (pool_release p))"
  by (cases p rule: pool_release.cases) (auto simp: pool_step_def)

lemma pool_step_trans: "pool_step p p' \<Longrightarrow> pool_step p' p'' \<Longrightarrow> pool_step p p''"
  by (simp add: pool_step_def)

lemma pool_step_if [simp]: "pool_step p (if b then p1 else p2) \<longleftrightarrow> (b \<longrightarrow> pool_step p p1) \<and> (\<not> b \<longrightarrow> pool_step p p2)"
  by simp


lemma string_of_nat_nonempty [simp]: "string_of_nat n \<noteq> []"
  by (subst string_of_nat.simps) simp

lemma json_stringify_nonempty [simp]: "json_stringify v \<noteq> []"
  by (cases v) (simp_all add: string_of_int_def dec_string_def Let_def json_quote_def)

end
