(* ===== verification/Server_Config.thy ===== *)
theory Server_Config
  imports Prelude
begin

text \<open>
  The MCP server configuration registry of \<open>src/mcp-servers.config.js\<close>: the
  module-level array \<open>MCP_SERVERS\<close> and its four functions \<open>getEnabledServers\<close>,
  \<open>getServerConfig\<close>, \<open>addServerConfig\<close> (validate, then merge into an existing entry
  of the same name or append with defaults) and \<open>toggleServer\<close>. A configuration
  object is a record whose properties may be absent (\<open>None\<close>); the array is a list,
  mutated by returning the new list. Thrown \<open>Error\<close>s are the \<open>Inl\<close> branch.
\<close>

record server_config =
  cfg_name :: "string option"
  cfg_transport :: "string option"
  cfg_command :: "string option"
  cfg_args :: "string list option"
  cfg_env :: "(string \<times> string) list option"
  cfg_endpoint :: "string option"
  cfg_apiKey :: "string option"
  cfg_enabled :: "bool option"
  cfg_description :: "string option"

datatype config_error = Missing_Name | Stdio_Requires_Command | Requires_Endpoint string

fun config_error_message :: "config_error \<Rightarrow> string" where
  "config_error_message Missing_Name = ''Server config must have name''"
| "config_error_message Stdio_Requires_Command = ''stdio transport requires command''"
| "config_error_message (Requires_Endpoint t) = t @ '' transport requires endpoint''"

text \<open>The shipped array. \<open>penv\<close> is \<open>process.env\<close>.\<close>

definition MCP_SERVERS_init :: "(string \<Rightarrow> string option) \<Rightarrow> server_config list" where
  "MCP_SERVERS_init penv = [
     \<lparr>cfg_name = Some ''transcription'', cfg_transport = Some ''stdio'', cfg_command = Some ''node'',
      cfg_args = Some [''../transcription-server/mcp-server.js''],
      cfg_env = Some [(''TRANSCRIPTION_MODEL'', ''whisper-large-v3''), (''LANGUAGE'', ''pt-BR'')],
      cfg_endpoint = None, cfg_apiKey = None, cfg_enabled = Some False,
      cfg_description = Some ''Audio transcription using workers''\<rparr>,
     \<lparr>cfg_name = Some ''zeo-composable'', cfg_transport = Some ''http'', cfg_command = None,
      cfg_args = None, cfg_env = None,
      cfg_endpoint = Some (js_or_str (penv ''ZEO_COMPOSABLE_ENDPOINT'') ''https://your-worker.workers.dev''),
      cfg_apiKey = penv ''ZEO_COMPOSABLE_API_KEY'', cfg_enabled = Some False,
      cfg_description = Some ''9 AI tools composable platform on Cloudflare Workers''\<rparr>,
     \<lparr>cfg_name = Some ''clinical-analysis'', cfg_transport = Some ''stdio'', cfg_command = Some ''python'',
      cfg_args = Some [''-m'', ''clinical_analyzer'', ''--mcp''],
      cfg_env = Some [(''MODEL'', ''clinical-llm-v2'')],
      cfg_endpoint = None, cfg_apiKey = None, cfg_enabled = Some False,
      cfg_description = Some ''Clinical text analysis and insights''\<rparr>,
     \<lparr>cfg_name = Some ''documents'', cfg_transport = Some ''stdio'', cfg_command = Some ''node'',
      cfg_args = Some [''../document-server/mcp-server.js''],
      cfg_env = Some [(''STORAGE_PATH'', ''./documents''), (''FORMAT'', ''pdf'')],
      cfg_endpoint = None, cfg_apiKey = None, cfg_enabled = Some False,
      cfg_description = Some ''Document storage and retrieval''\<rparr>,
     \<lparr>cfg_name = Some ''realtime-data'', cfg_transport = Some ''websocket'', cfg_command = None,
      cfg_args = None, cfg_env = None, cfg_endpoint = Some ''ws://localhost:8081/mcp'',
      cfg_apiKey = None, cfg_enabled = Some False,
      cfg_description = Some ''Real-time data streaming via WebSocket''\<rparr>]"

definition getEnabledServers :: "server_config list \<Rightarrow> server_config list" where
  "getEnabledServers servers = filter (\<lambda>s. cfg_enabled s = Some True) servers"

definition getServerConfig :: "server_config list \<Rightarrow> string \<Rightarrow> server_config option" where
  "getServerConfig servers nm = find (\<lambda>s. cfg_name s = Some nm) servers"

text \<open>\<open>{...a, ...b}\<close> on two configuration objects.\<close>

definition spread_config :: "server_config \<Rightarrow> server_config \<Rightarrow> server_config" where
  "spread_config a b =
     \<lparr>cfg_name = spread_opt (cfg_name a) (cfg_name b),
      cfg_transport = spread_opt (cfg_transport a) (cfg_transport b),
      cfg_command = spread_opt (cfg_command a) (cfg_command b),
      cfg_args = spread_opt (cfg_args a) (cfg_args b),
      cfg_env = spread_opt (cfg_env a) (cfg_env b),
      cfg_endpoint = spread_opt (cfg_endpoint a) (cfg_endpoint b),
      cfg_apiKey = spread_opt (cfg_apiKey a) (cfg_apiKey b),
      cfg_enabled = spread_opt (cfg_enabled a) (cfg_enabled b),
      cfg_description = spread_opt (cfg_description a) (cfg_description b)\<rparr>"

text \<open>The defaults object of the append branch of \<open>addServerConfig\<close>.\<close>

definition config_defaults :: server_config where
  "config_defaults =
     \<lparr>cfg_name = None, cfg_transport = Some ''stdio'', cfg_command = None, cfg_args = Some [],
      cfg_env = Some [], cfg_endpoint = None, cfg_apiKey = None, cfg_enabled = Some False,
      cfg_description = Some []\<rparr>"

definition config_transport :: "server_config \<Rightarrow> string" where
  "config_transport config = (case cfg_transport config of None \<Rightarrow> ''stdio'' | Some t \<Rightarrow> t)"

definition addServerConfig ::
  "server_config list \<Rightarrow> server_config \<Rightarrow> config_error + server_config list" where
  "addServerConfig servers config =
     (let transport = config_transport config in
      if \<not> js_truthy_str (cfg_name config) then Inl Missing_Name
      else if transport = ''stdio'' \<and> \<not> js_truthy_str (cfg_command config)
        then Inl Stdio_Requires_Command
      else if transport \<in> set [''http'', ''websocket''] \<and> \<not> js_truthy_str (cfg_endpoint config)
        then Inl (Requires_Endpoint transport)
      else
        (let existingIndex = findIndex (\<lambda>s. cfg_name s = cfg_name config) servers in
         if 0 \<le> existingIndex
         then Inr (servers[nat existingIndex := spread_config (servers ! nat existingIndex) config])
         else Inr (servers @ [spread_config config_defaults config])))"

text \<open>
  \<open>toggleServer\<close> mutates the object \<open>getServerConfig\<close> found, the first entry of
  that name; the list model updates that index. The result is the returned boolean
  and the array afterwards.
\<close>

definition toggleServer ::
  "server_config list \<Rightarrow> string \<Rightarrow> bool \<Rightarrow> bool \<times> server_config list" where
  "toggleServer servers nm en =
     (let i = findIndex (\<lambda>s. cfg_name s = Some nm) servers in
      if 0 \<le> i then (True, servers[nat i := (servers ! nat i)\<lparr>cfg_enabled := Some en\<rparr>])
      else (False, servers))"

text \<open>Well-formedness of the array: every entry is named, and names are unique.\<close>

definition config_wf :: "server_config list \<Rightarrow> bool" where
  "config_wf servers \<longleftrightarrow>
     (\<forall>s \<in> set servers. js_truthy_str (cfg_name s)) \<and> distinct (map cfg_name servers)"

text \<open>A configuration the concrete examples below use: an enabled stdio server.\<close>

definition sample_config :: server_config where
  "sample_config =
     \<lparr>cfg_name = Some ''scribe'', cfg_transport = None, cfg_command = Some ''node'', cfg_args = None,
      cfg_env = None, cfg_endpoint = None, cfg_apiKey = None, cfg_enabled = Some True,
      cfg_description = None\<rparr>"

subsection \<open>Lemmas\<close>

lemma spread_config_name [simp]: "cfg_name config = Some n \<Longrightarrow> cfg_name (spread_config a config) = Some n"
  by (simp add: spread_config_def)

lemma addServerConfig_Inr:
  assumes "addServerConfig servers config = Inr servers'"
  shows "js_truthy_str (cfg_name config) \<and>
    servers' = (let i = findIndex (\<lambda>s. cfg_name s = cfg_name config) servers in
      if 0 \<le> i then servers[nat i := spread_config (servers ! nat i) config]
      else servers @ [spread_config config_defaults config])"
  using assms by (auto simp: addServerConfig_def Let_def split: if_splits)

text \<open>C11: after a successful \<open>addServerConfig\<close>, \<open>getServerConfig\<close> of the
  name returns the spread of the previous entry of that name (or of the defaults) with
  the new object: the insert/lookup round trip of the registry.\<close>

lemma addServerConfig_lookup:
  assumes add: "addServerConfig servers config = Inr servers'" and nm: "cfg_name config = Some n"
  shows "getServerConfig servers' n =
    Some (spread_config (case getServerConfig servers n of None \<Rightarrow> config_defaults | Some old \<Rightarrow> old) config)"
proof -
  let ?p = "\<lambda>s. cfg_name s = Some n"
  let ?i = "findIndex ?p servers"
  from addServerConfig_Inr [OF add] nm
  have s': "servers' = (if 0 \<le> ?i then servers[nat ?i := spread_config (servers ! nat ?i) config]
      else servers @ [spread_config config_defaults config])"
    by (simp add: Let_def)
  show ?thesis
  proof (cases "0 \<le> ?i")
    case True
    define i where "i = nat ?i"
    from findIndex_found [OF True] have i: "i < length servers" "?p (servers ! i)"
      "find ?p servers = Some (servers ! i)"
      by (simp_all add: i_def)
    from findIndex_first [OF True] have "\<forall>j < i. \<not> ?p (servers ! j)"
      by (simp add: i_def)
    with i(1) nm have "find ?p (servers[i := spread_config (servers ! i) config]) =
        Some (spread_config (servers ! i) config)"
      by (intro find_update_first) simp_all
    moreover from True s' have "servers' = servers[i := spread_config (servers ! i) config]"
      by (simp add: i_def)
    moreover from i(3) have "getServerConfig servers n = Some (servers ! i)"
      by (simp add: getServerConfig_def)
    ultimately show ?thesis
      by (simp add: getServerConfig_def)
  next
    case False
    then have "\<forall>x \<in> set servers. \<not> ?p x" by simp
    then have none: "getServerConfig servers n = None"
      by (simp add: getServerConfig_def find_None_iff)
    from False s' have "servers' = servers @ [spread_config config_defaults config]"
      by simp
    with none nm \<open>\<forall>x \<in> set servers. \<not> ?p x\<close> show ?thesis
      by (simp add: getServerConfig_def find_append_none)
  qed
qed

lemma addServerConfig_lookup_witness:
  "getServerConfig [spread_config config_defaults sample_config] ''scribe'' =
     Some (spread_config config_defaults sample_config)"
proof -
  have h1: "addServerConfig [] sample_config = Inr [spread_config config_defaults sample_config]"
    by (simp add: addServerConfig_def sample_config_def config_transport_def)
  have h2: "cfg_name sample_config = Some ''scribe''" by (simp add: sample_config_def)
  from addServerConfig_lookup [OF h1 h2] show ?thesis by (simp add: getServerConfig_def)
qed

lemma map_cfg_name_update_same:
  "i < length xs \<Longrightarrow> cfg_name y = cfg_name (xs ! i) \<Longrightarrow> map cfg_name (xs[i := y]) = map cfg_name xs"
  by (metis list_update_id map_update)

text \<open>C12: a successful \<open>addServerConfig\<close> keeps every entry named and the
  names unique.\<close>

lemma addServerConfig_wf:
  assumes wf: "config_wf servers" and add: "addServerConfig servers config = Inr servers'"
  shows "config_wf servers'"
proof -
  from addServerConfig_Inr [OF add] obtain n where nm: "cfg_name config = Some n" and n: "n \<noteq> []"
    and s': "servers' = (let i = findIndex (\<lambda>s. cfg_name s = cfg_name config) servers in
      if 0 \<le> i then servers[nat i := spread_config (servers ! nat i) config]
      else servers @ [spread_config config_defaults config])"
    by (auto simp: js_truthy_str_iff)
  let ?p = "\<lambda>s. cfg_name s = Some n"
  show ?thesis
  proof (cases "0 \<le> findIndex ?p servers")
    case True
    define i where "i = nat (findIndex ?p servers)"
    from findIndex_found [OF True] have i: "i < length servers" "?p (servers ! i)"
      by (simp_all add: i_def)
    from True s' nm have eq: "servers' = servers[i := spread_config (servers ! i) config]"
      by (simp add: i_def Let_def)
    have "set servers' \<subseteq> insert (spread_config (servers ! i) config) (set servers)"
      unfolding eq by (rule set_update_subset_insert)
    with wf nm n i eq show ?thesis
      by (auto simp: config_wf_def map_cfg_name_update_same)
  next
    case False
    then have "\<forall>x \<in> set servers. \<not> ?p x" by simp
    with wf nm n s' False show ?thesis
      by (auto simp: config_wf_def)
  qed
qed

lemma addServerConfig_wf_witness:
  "config_wf (MCP_SERVERS_init (\<lambda>_. None) @ [spread_config config_defaults sample_config])"
proof -
  have h1: "config_wf (MCP_SERVERS_init (\<lambda>_. None))"
    by (simp add: config_wf_def MCP_SERVERS_init_def)
  have h2: "addServerConfig (MCP_SERVERS_init (\<lambda>_. None)) sample_config =
      Inr (MCP_SERVERS_init (\<lambda>_. None) @ [spread_config config_defaults sample_config])"
    by (simp add: addServerConfig_def sample_config_def config_transport_def MCP_SERVERS_init_def Let_def)
  from addServerConfig_wf [OF h1 h2] show ?thesis .
qed

lemma toggleServer_wf:
  assumes wf: "config_wf servers" and tg: "toggleServer servers nm en = (b, servers')"
  shows "config_wf servers'"
proof (cases "0 \<le> findIndex (\<lambda>s. cfg_name s = Some nm) servers")
  case True
  define i where "i = nat (findIndex (\<lambda>s. cfg_name s = Some nm) servers)"
  from findIndex_found [OF True] have i: "i < length servers"
    by (simp add: i_def)
  let ?c = "(servers ! i)\<lparr>cfg_enabled := Some en\<rparr>"
  from tg True have eq: "servers' = servers[i := ?c]"
    by (simp add: toggleServer_def Let_def i_def)
  have "set servers' \<subseteq> insert ?c (set servers)"
    unfolding eq by (rule set_update_subset_insert)
  moreover from i wf have "js_truthy_str (cfg_name ?c)"
    by (simp add: config_wf_def)
  ultimately show ?thesis
    using wf i eq by (auto simp: config_wf_def map_cfg_name_update_same)
next
  case False
  with tg wf show ?thesis
    by (simp add: toggleServer_def Let_def del: findIndex_nonneg_iff)
qed

text \<open>When \<open>toggleServer name true\<close> returns true, the entry of that name
  is among \<open>getEnabledServers\<close> afterwards.\<close>

lemma toggleServer_enables:
  assumes "toggleServer servers nm True = (True, servers')"
  shows "\<exists>c. getServerConfig servers' nm = Some c \<and> c \<in> set (getEnabledServers servers')"
proof -
  let ?p = "\<lambda>s. cfg_name s = Some nm"
  from assms have found: "0 \<le> findIndex ?p servers"
    by (simp add: toggleServer_def Let_def split: if_splits)
  define i where "i = nat (findIndex ?p servers)"
  from findIndex_found [OF found] have i: "i < length servers" "?p (servers ! i)"
    by (simp_all add: i_def)
  from findIndex_first [OF found] have first: "\<forall>j < i. \<not> ?p (servers ! j)"
    by (simp add: i_def)
  let ?c = "(servers ! i)\<lparr>cfg_enabled := Some True\<rparr>"
  from assms found have eq: "servers' = servers[i := ?c]"
    by (simp add: toggleServer_def Let_def i_def)
  from i first have "find ?p (servers[i := ?c]) = Some ?c"
    by (intro find_update_first) simp_all
  moreover from i have "?c \<in> set (servers[i := ?c])"
    by (simp add: set_update_memI)
  ultimately show ?thesis
    by (simp add: eq getServerConfig_def getEnabledServers_def)
qed

lemma toggleServer_enables_witness:
  "\<exists>c. getServerConfig (snd (toggleServer (MCP_SERVERS_init (\<lambda>_. None)) ''documents'' True)) ''documents'' = Some c \<and>
     c \<in> set (getEnabledServers (snd (toggleServer (MCP_SERVERS_init (\<lambda>_. None)) ''documents'' True)))"
proof -
  have h: "toggleServer (MCP_SERVERS_init (\<lambda>_. None)) ''documents'' True =
      (True, snd (toggleServer (MCP_SERVERS_init (\<lambda>_. None)) ''documents'' True))"
    by (simp add: toggleServer_def MCP_SERVERS_init_def)
  from toggleServer_enables [OF h] show ?thesis .
qed

lemma toggleServer_absent:
  "fst (toggleServer servers nm en) \<longleftrightarrow> getServerConfig servers nm \<noteq> None"
  by (auto simp: toggleServer_def Let_def getServerConfig_def find_None_iff)

lemma shipped_none_enabled: "getEnabledServers (MCP_SERVERS_init penv) = []"
  by (simp add: getEnabledServers_def MCP_SERVERS_init_def)

lemma shipped_wf: "config_wf (MCP_SERVERS_init penv)"
  by (simp add: config_wf_def MCP_SERVERS_init_def)

text \<open>\<open>addServerConfig\<close> validates the new object alone: enabling the
  shipped \<open>transcription\<close> server by passing \<open>{name, enabled: true}\<close> throws
  \<open>stdio transport requires command\<close>, although the stored entry has a command.\<close>

lemma enable_by_add_rejected:
  "addServerConfig (MCP_SERVERS_init penv)
     \<lparr>cfg_name = Some ''transcription'', cfg_transport = None, cfg_command = None, cfg_args = None,
      cfg_env = None, cfg_endpoint = None, cfg_apiKey = None, cfg_enabled = Some True,
      cfg_description = None\<rparr> = Inl Stdio_Requires_Command"
  by (simp add: addServerConfig_def config_transport_def)

end
