(* ===== verification/MCP_Client.thy ===== *)
theory MCP_Client
  imports Prelude Server_Config
begin

text \<open>
  The class \<open>ZeoMCPClient\<close> of \<open>src/mcp-config.js\<close>: a wrapper around the external
  \<open>mcp-agent\<close> library. Its state is the record \<open>mcp_client\<close> (the six fields the
  constructor sets; the four \<open>Map\<close>s are association lists in insertion order). Every
  method is a function of the state and of what the agent answers; the agent is the
  interface record \<open>agent_api\<close>, whose calls return or throw (\<open>outcome\<close>), and whose
  optional-chained methods (\<open>agent.getResource?.(...)\<close>) may be absent (\<open>None\<close>).
  A method that throws is the \<open>Inl\<close> branch of its result. Methods are atomic here:
  each runs to completion before another request is served.
\<close>

subsection \<open>Data\<close>

text \<open>What a tool call of the agent resolves to: the properties the client reads.\<close>

record tool_result =
  tr_content :: "string option"
  tr_confidence :: "rat option"
  tr_summary :: "string option"
  tr_keywords :: "string list option"

record health =
  h_status :: string
  h_error :: "string option"
  h_lastPing :: "timestamp option"

record capability_set =
  cap_tools :: "string list"
  cap_resources :: "string list"
  cap_prompts :: "string list"

text \<open>The connection object \<open>connectToServer\<close> hands to \<open>agent.addServer\<close>.\<close>

datatype conn_config =
    Stdio_Conn "string option" "string list" "(string \<times> string) list"
  | Remote_Conn "string option" string

datatype tool_call_result = Tool_Ok tool_result | Tool_Failed string

record history_entry =
  he_tool :: string
  he_args :: "(string \<times> json) list"
  he_result :: tool_call_result
  he_timestamp :: timestamp

record session =
  s_id :: string
  s_context :: json
  s_history :: "history_entry list"
  s_createdAt :: timestamp
  s_lastActivity :: timestamp

text \<open>Server names are Map keys; a configuration without a name is keyed by \<open>undefined\<close> (\<open>None\<close>).\<close>

record mcp_client =
  agent :: bool \<comment> \<open>\<open>this.agent !== null\<close>\<close>
  connected :: bool
  servers :: "(string option \<times> server_config) list"
  sessions :: "(string \<times> session) list"
  capabilities :: "(string option \<times> capability_set) list"
  connectionHealth :: "(string option \<times> health) list"

record agent_api =
  api_addServer :: "string option \<Rightarrow> conn_config \<Rightarrow> unit outcome"
  api_getAvailableTools :: "string option \<Rightarrow> string list outcome"
  api_getAvailableResources :: "(string option \<Rightarrow> string list option outcome) option"
  api_getAvailablePrompts :: "(string option \<Rightarrow> string list option outcome) option"
  api_callTool :: "string \<Rightarrow> (string \<times> json) list \<Rightarrow> string option \<Rightarrow> tool_result outcome"
  api_getResource :: "(string \<Rightarrow> string option \<Rightarrow> json option outcome) option"
  api_getPrompt :: "(string \<Rightarrow> (string \<times> json) list \<Rightarrow> string option \<Rightarrow> json option outcome) option"
  api_ping :: "(string \<Rightarrow> health option outcome) option"

definition new_client :: mcp_client where
  "new_client = \<lparr>agent = False, connected = False, servers = [], sessions = [],
     capabilities = [], connectionHealth = []\<rparr>"

definition not_connected_msg :: string where
  "not_connected_msg = ''ZEO MCP Client not connected''"

text \<open>The \<open>TypeError\<close> a method call on \<open>this.agent = null\<close> raises.\<close>

definition null_agent_msg :: "string \<Rightarrow> string" where
  "null_agent_msg m = ''Cannot read properties of null (reading '' @ [CHR 0x27] @ m @ [CHR 0x27, CHR 0x29]"

text \<open>The guard \<open>if (!this.connected || !this.agent) throw new Error(...)\<close>.\<close>

definition client_guard :: "mcp_client \<Rightarrow> string option" where
  "client_guard c = (if \<not> connected c \<or> \<not> agent c then Some not_connected_msg else None)"

subsection \<open>Transcription and analysis\<close>

datatype transcribe_result = Transcribed "string option" rat | Transcribe_Failed string

datatype analysis_result =
    Analyzed "string option" "string option" "string list" \<comment> \<open>analysis, summary, keywords\<close>
  | Analysis_Failed string

text \<open>
  The part of \<open>transcribeAudio\<close> after \<open>await this.agent.callTool(...)\<close>:
  \<open>result.confidence || 0.95\<close> keeps a non-zero confidence.
\<close>

fun transcribe_finish :: "tool_result outcome \<Rightarrow> transcribe_result" where
  "transcribe_finish (Returns r) =
     Transcribed (tr_content r)
       (case tr_confidence r of None \<Rightarrow> 95 / 100 | Some x \<Rightarrow> if x = 0 then 95 / 100 else x)"
| "transcribe_finish (Throws e) = Transcribe_Failed e"

definition transcribe_args :: "string \<Rightarrow> (string \<times> json) list" where
  "transcribe_args path = [(''file_path'', JStr path), (''language'', JStr ''pt-BR''),
     (''model'', JStr ''whisper-large-v3'')]"

definition transcribeAudio ::
  "mcp_client \<Rightarrow> agent_api \<Rightarrow> string \<Rightarrow> string + transcribe_result" where
  "transcribeAudio c api path =
     (case client_guard c of
        Some e \<Rightarrow> Inl e
      | None \<Rightarrow> Inr (transcribe_finish (api_callTool api ''transcribe_audio'' (transcribe_args path) None)))"

fun analyze_finish :: "tool_result outcome \<Rightarrow> analysis_result" where
  "analyze_finish (Returns r) =
     Analyzed (tr_content r) (tr_summary r) (case tr_keywords r of None \<Rightarrow> [] | Some k \<Rightarrow> k)"
| "analyze_finish (Throws e) = Analysis_Failed e"

definition analyze_args :: "string option \<Rightarrow> (string \<times> json) list" where
  "analyze_args t = [(''text'', case t of None \<Rightarrow> JNull | Some s \<Rightarrow> JStr s),
     (''context'', JStr ''medical_consultation''), (''language'', JStr ''pt-BR'')]"

definition analyzeTranscription ::
  "mcp_client \<Rightarrow> agent_api \<Rightarrow> string option \<Rightarrow> string + analysis_result" where
  "analyzeTranscription c api t =
     (case client_guard c of
        Some e \<Rightarrow> Inl e
      | None \<Rightarrow> Inr (analyze_finish (api_callTool api ''analyze_clinical_text'' (analyze_args t) None)))"

subsection \<open>Generic tool calls, resources, prompts\<close>

definition callTool ::
  "mcp_client \<Rightarrow> agent_api \<Rightarrow> string \<Rightarrow> (string \<times> json) list \<Rightarrow> string option
     \<Rightarrow> string + tool_call_result" where
  "callTool c api tool args server =
     (case client_guard c of
        Some e \<Rightarrow> Inl e
      | None \<Rightarrow> Inr (case api_callTool api tool args server of
                       Returns r \<Rightarrow> Tool_Ok r
                     | Throws e \<Rightarrow> Tool_Failed e))"

definition getConnectedServers :: "mcp_client \<Rightarrow> string option list" where
  "getConnectedServers c = map fst (servers c)"

text \<open>\<open>getAvailableTools\<close>: any error, also the \<open>TypeError\<close> of a null agent, gives \<open>[]\<close>.\<close>

definition getAvailableTools :: "mcp_client \<Rightarrow> agent_api \<Rightarrow> string option \<Rightarrow> string list" where
  "getAvailableTools c api server =
     (if \<not> agent c then []
      else case api_getAvailableTools api server of Returns l \<Rightarrow> l | Throws _ \<Rightarrow> [])"

text \<open>
  \<open>await this.agent.getAvailableResources?.(name) || []\<close>: an absent method, an
  \<open>undefined\<close> result and a thrown error all give \<open>[]\<close>.
\<close>

definition optional_list ::
  "mcp_client \<Rightarrow> (string option \<Rightarrow> string list option outcome) option \<Rightarrow> string option \<Rightarrow> string list" where
  "optional_list c m server =
     (if \<not> agent c then []
      else case m of
             None \<Rightarrow> []
           | Some f \<Rightarrow> (case f server of Returns (Some l) \<Rightarrow> l | _ \<Rightarrow> []))"

definition getAvailableResources :: "mcp_client \<Rightarrow> agent_api \<Rightarrow> string option \<Rightarrow> string list" where
  "getAvailableResources c api server = optional_list c (api_getAvailableResources api) server"

definition getAvailablePrompts :: "mcp_client \<Rightarrow> agent_api \<Rightarrow> string option \<Rightarrow> string list" where
  "getAvailablePrompts c api server = optional_list c (api_getAvailablePrompts api) server"

datatype fetch_result = Fetch_Ok "json option" | Fetch_Failed string

text \<open>
  \<open>getResource\<close>: after the guard, an absent \<open>agent.getResource\<close> resolves to
  \<open>undefined\<close>, which is reported as \<open>{success: true, resource: undefined}\<close>.
\<close>

definition getResource ::
  "mcp_client \<Rightarrow> agent_api \<Rightarrow> string \<Rightarrow> string option \<Rightarrow> string + fetch_result" where
  "getResource c api uri server =
     (case client_guard c of
        Some e \<Rightarrow> Inl e
      | None \<Rightarrow> Inr (case api_getResource api of
                       None \<Rightarrow> Fetch_Ok None
                     | Some f \<Rightarrow> (case f uri server of
                                    Returns v \<Rightarrow> Fetch_Ok v
                                  | Throws e \<Rightarrow> Fetch_Failed e)))"

definition getPrompt ::
  "mcp_client \<Rightarrow> agent_api \<Rightarrow> string \<Rightarrow> (string \<times> json) list \<Rightarrow> string option \<Rightarrow> string + fetch_result" where
  "getPrompt c api nm args server =
     (case client_guard c of
        Some e \<Rightarrow> Inl e
      | None \<Rightarrow> Inr (case api_getPrompt api of
                       None \<Rightarrow> Fetch_Ok None
                     | Some f \<Rightarrow> (case f nm args server of
                                    Returns v \<Rightarrow> Fetch_Ok v
                                  | Throws e \<Rightarrow> Fetch_Failed e)))"

subsection \<open>Sessions\<close>

definition createSession :: "mcp_client \<Rightarrow> string \<Rightarrow> json \<Rightarrow> timestamp \<Rightarrow> session \<times> mcp_client" where
  "createSession c sid ctx now =
     (let s = \<lparr>s_id = sid, s_context = ctx, s_history = [], s_createdAt = now, s_lastActivity = now\<rparr>
      in (s, c\<lparr>sessions := AList.update sid s (sessions c)\<rparr>))"

definition getSession :: "mcp_client \<Rightarrow> string \<Rightarrow> session option" where
  "getSession c sid = map_of (sessions c) sid"

text \<open>\<open>Object.assign(session, updates, {lastActivity})\<close> with the one update the sources pass, a new history.\<close>

definition updateSession ::
  "mcp_client \<Rightarrow> string \<Rightarrow> history_entry list \<Rightarrow> timestamp \<Rightarrow> session option \<times> mcp_client" where
  "updateSession c sid hist now =
     (case map_of (sessions c) sid of
        None \<Rightarrow> (None, c)
      | Some s \<Rightarrow>
          (let s' = s\<lparr>s_history := hist, s_lastActivity := now\<rparr>
           in (Some s', c\<lparr>sessions := AList.update sid s' (sessions c)\<rparr>)))"

definition destroySession :: "mcp_client \<Rightarrow> string \<Rightarrow> bool \<times> mcp_client" where
  "destroySession c sid =
     (sid \<in> fst ` set (sessions c), c\<lparr>sessions := AList.delete sid (sessions c)\<rparr>)"

text \<open>
  \<open>callToolWithSession\<close>: with a session, the arguments carry its context under
  \<open>_session\<close>, and after the call the entry is pushed on the history and the session
  touched. A throw of \<open>callTool\<close> propagates before the push.
\<close>

definition callToolWithSession ::
  "mcp_client \<Rightarrow> agent_api \<Rightarrow> string \<Rightarrow> (string \<times> json) list \<Rightarrow> string \<Rightarrow> string option
     \<Rightarrow> timestamp \<Rightarrow> string + (tool_call_result \<times> mcp_client)" where
  "callToolWithSession c api tool args sid server now =
     (case getSession c sid of
        Some s \<Rightarrow>
          (let args' = AList.update ''_session'' (s_context s) args in
           case callTool c api tool args' server of
             Inl e \<Rightarrow> Inl e
           | Inr r \<Rightarrow>
               (let entry = \<lparr>he_tool = tool, he_args = args', he_result = r, he_timestamp = now\<rparr>
                in Inr (r, snd (updateSession c sid (s_history s @ [entry]) now))))
      | None \<Rightarrow>
          (case callTool c api tool args server of
             Inl e \<Rightarrow> Inl e
           | Inr r \<Rightarrow> Inr (r, c)))"

record batch_call =
  bc_tool :: string
  bc_args :: "(string \<times> json) list"
  bc_server :: "string option"

datatype batch_item = Batch_Result batch_call tool_call_result | Batch_Error batch_call string

fun batch_call_of :: "batch_item \<Rightarrow> batch_call" where
  "batch_call_of (Batch_Result b _) = b"
| "batch_call_of (Batch_Error b _) = b"

text \<open>\<open>batchToolCalls\<close>: the \<open>for ... of\<close> loop, each call's error caught into its item.\<close>

fun batchToolCalls ::
  "mcp_client \<Rightarrow> agent_api \<Rightarrow> batch_call list \<Rightarrow> string option \<Rightarrow> timestamp
     \<Rightarrow> batch_item list \<times> mcp_client" where
  "batchToolCalls c api [] sid now = ([], c)"
| "batchToolCalls c api (b # bs) sid now =
     (let (item, c') =
        (if js_truthy_str sid
         then (case callToolWithSession c api (bc_tool b) (bc_args b) (the sid) (bc_server b) now of
                 Inl e \<Rightarrow> (Batch_Error b e, c)
               | Inr (r, c1) \<Rightarrow> (Batch_Result b r, c1))
         else (case callTool c api (bc_tool b) (bc_args b) (bc_server b) of
                 Inl e \<Rightarrow> (Batch_Error b e, c)
               | Inr r \<Rightarrow> (Batch_Result b r, c)));
          (items, c'') = batchToolCalls c' api bs sid now
      in (item # items, c''))"

subsection \<open>Health and shutdown\<close>

definition unknown_health :: health where
  "unknown_health = \<lparr>h_status = ''unknown'', h_error = None, h_lastPing = None\<rparr>"

text \<open>
  \<open>pingServer\<close>: \<open>await this.agent.ping?.(name) || {status: 'unknown'}\<close>, stored with
  \<open>lastPing\<close>; any error, also the \<open>TypeError\<close> of a null agent, is stored as status
  \<open>error\<close>. The result is the returned object and the client afterwards.
\<close>

definition pingServer :: "mcp_client \<Rightarrow> agent_api \<Rightarrow> string \<Rightarrow> timestamp \<Rightarrow> health \<times> mcp_client" where
  "pingServer c api nm now =
     (let r = (if \<not> agent c then Throws (null_agent_msg ''ping'')
               else case api_ping api of
                      None \<Rightarrow> Returns None
                    | Some f \<Rightarrow> f nm) in
      case r of
        Returns h \<Rightarrow>
          (let h' = (case h of None \<Rightarrow> unknown_health | Some x \<Rightarrow> x) in
           (h', c\<lparr>connectionHealth := AList.update (Some nm) (h'\<lparr>h_lastPing := Some now\<rparr>) (connectionHealth c)\<rparr>))
      | Throws e \<Rightarrow>
          (let h' = \<lparr>h_status = ''error'', h_error = Some e, h_lastPing = None\<rparr> in
           (h', c\<lparr>connectionHealth := AList.update (Some nm) (h'\<lparr>h_lastPing := Some now\<rparr>) (connectionHealth c)\<rparr>)))"

definition getServerHealth :: "mcp_client \<Rightarrow> string option \<Rightarrow> (string option \<times> health) list" where
  "getServerHealth c nm =
     (case nm of
        None \<Rightarrow> connectionHealth c
      | Some n \<Rightarrow> (case map_of (connectionHealth c) (Some n) of None \<Rightarrow> [] | Some h \<Rightarrow> [(Some n, h)]))"

record server_status =
  st_config :: server_config
  st_health :: "health option"
  st_capabilities :: "capability_set option"
  st_transport :: string

definition getServerStatus :: "mcp_client \<Rightarrow> (string option \<times> server_status) list" where
  "getServerStatus c =
     map (\<lambda>(nm, cfg). (nm, \<lparr>st_config = cfg, st_health = map_of (connectionHealth c) nm,
                           st_capabilities = map_of (capabilities c) nm,
                           st_transport = config_transport cfg\<rparr>)) (servers c)"

definition disconnect :: "mcp_client \<Rightarrow> mcp_client" where
  "disconnect c =
     (if agent c \<and> connected c
      then c\<lparr>connected := False, servers := [], sessions := [], capabilities := [],
             connectionHealth := []\<rparr>
      else c)"

subsection \<open>Connection\<close>

text \<open>\<open>{...process.env, ...env}\<close> on two string maps.\<close>

definition merge_env :: "(string \<times> string) list \<Rightarrow> (string \<times> string) list \<Rightarrow> (string \<times> string) list" where
  "merge_env base extra = foldl (\<lambda>acc (k, v). AList.update k v acc) base extra"

text \<open>The \<open>switch (transport)\<close> of \<open>connectToServer\<close>; \<open>penv\<close> is \<open>process.env\<close>.\<close>

definition connection_config :: "(string \<times> string) list \<Rightarrow> server_config \<Rightarrow> conn_config" where
  "connection_config penv cfg =
     (let transport = config_transport cfg;
          args = (case cfg_args cfg of None \<Rightarrow> [] | Some a \<Rightarrow> a);
          env = (case cfg_env cfg of None \<Rightarrow> [] | Some e \<Rightarrow> e)
      in if transport = ''websocket'' \<or> transport = ''http''
         then Remote_Conn (cfg_endpoint cfg) transport
         else Stdio_Conn (cfg_command cfg) args (merge_env penv env))"

definition empty_capabilities :: capability_set where
  "empty_capabilities = \<lparr>cap_tools = [], cap_resources = [], cap_prompts = []\<rparr>"

text \<open>
  \<open>discoverCapabilities\<close>: only an error of \<open>agent.getAvailableTools\<close> reaches its
  catch (resources and prompts catch their own), and then nothing is stored.
\<close>

definition discoverCapabilities ::
  "mcp_client \<Rightarrow> agent_api \<Rightarrow> string option \<Rightarrow> capability_set \<times> mcp_client" where
  "discoverCapabilities c api nm =
     (let tools = (if \<not> agent c then Throws (null_agent_msg ''getAvailableTools'')
                   else api_getAvailableTools api nm) in
      case tools of
        Throws _ \<Rightarrow> (empty_capabilities, c)
      | Returns t \<Rightarrow>
          (let caps = \<lparr>cap_tools = t, cap_resources = getAvailableResources c api nm,
                       cap_prompts = getAvailablePrompts c api nm\<rparr>
           in (caps, c\<lparr>capabilities := AList.update nm caps (capabilities c)\<rparr>)))"

definition connectToServer ::
  "mcp_client \<Rightarrow> agent_api \<Rightarrow> (string \<times> string) list \<Rightarrow> timestamp \<Rightarrow> server_config \<Rightarrow> mcp_client" where
  "connectToServer c api penv now cfg =
     (let nm = cfg_name cfg;
          added = (if \<not> agent c then Throws (null_agent_msg ''addServer'')
                   else api_addServer api nm (connection_config penv cfg)) in
      case added of
        Throws e \<Rightarrow>
          c\<lparr>connectionHealth := AList.update nm
               \<lparr>h_status = ''failed'', h_error = Some e, h_lastPing = None\<rparr> (connectionHealth c)\<rparr>
      | Returns _ \<Rightarrow>
          snd (discoverCapabilities
                 (c\<lparr>servers := AList.update nm cfg (servers c),
                     connectionHealth := AList.update nm
                       \<lparr>h_status = ''connected'', h_error = None, h_lastPing = Some now\<rparr> (connectionHealth c)\<rparr>)
                 api nm))"

text \<open>
  \<open>connect\<close>: \<open>ctor\<close> is what \<open>new Agent()\<close> does; the servers are connected in
  order and the client is connected whatever each server did.
\<close>

definition connect ::
  "mcp_client \<Rightarrow> agent_api \<Rightarrow> (string \<times> string) list \<Rightarrow> timestamp \<Rightarrow> unit outcome
     \<Rightarrow> server_config list \<Rightarrow> mcp_client \<times> bool" where
  "connect c api penv now ctor cfgs =
     (case ctor of
        Throws _ \<Rightarrow> (c\<lparr>connected := False\<rparr>, False)
      | Returns _ \<Rightarrow>
          ((fold (\<lambda>cfg c'. connectToServer c' api penv now cfg) cfgs (c\<lparr>agent := True\<rparr>))
             \<lparr>connected := True\<rparr>, True))"

subsection \<open>Operations as steps\<close>

text \<open>The state-changing methods, as the server's routes and startup call them.\<close>

datatype client_op =
    Op_Connect "(string \<times> string) list" timestamp "unit outcome" "server_config list"
  | Op_CreateSession string json timestamp
  | Op_UpdateSession string "history_entry list" timestamp
  | Op_DestroySession string
  | Op_CallToolWithSession string "(string \<times> json) list" string "string option" timestamp
  | Op_Batch "batch_call list" "string option" timestamp
  | Op_Ping string timestamp
  | Op_Disconnect

fun client_step :: "mcp_client \<Rightarrow> agent_api \<Rightarrow> client_op \<Rightarrow> mcp_client" where
  "client_step c api (Op_Connect penv now ctor cfgs) = fst (connect c api penv now ctor cfgs)"
| "client_step c api (Op_CreateSession sid ctx now) = snd (createSession c sid ctx now)"
| "client_step c api (Op_UpdateSession sid hist now) = snd (updateSession c sid hist now)"
| "client_step c api (Op_DestroySession sid) = snd (destroySession c sid)"
| "client_step c api (Op_CallToolWithSession tool args sid server now) =
     (case callToolWithSession c api tool args sid server now of Inl _ \<Rightarrow> c | Inr (_, c') \<Rightarrow> c')"
| "client_step c api (Op_Batch bs sid now) = snd (batchToolCalls c api bs sid now)"
| "client_step c api (Op_Ping nm now) = snd (pingServer c api nm now)"
| "client_step c api Op_Disconnect = disconnect c"

fun client_run :: "mcp_client \<Rightarrow> agent_api \<Rightarrow> client_op list \<Rightarrow> mcp_client" where
  "client_run c api [] = c"
| "client_run c api (op # ops) = client_run (client_step c api op) api ops"

text \<open>
  Well-formedness: each Map has unique keys (the association lists model Maps), and a
  connected client has an agent.
\<close>

definition client_wf :: "mcp_client \<Rightarrow> bool" where
  "client_wf c \<longleftrightarrow>
     distinct (map fst (servers c)) \<and> distinct (map fst (sessions c)) \<and>
     distinct (map fst (capabilities c)) \<and> distinct (map fst (connectionHealth c)) \<and>
     (connected c \<longrightarrow> agent c)"

text \<open>Whether \<open>agent.addServer\<close> accepts a configuration.\<close>

definition server_added :: "agent_api \<Rightarrow> (string \<times> string) list \<Rightarrow> server_config \<Rightarrow> bool" where
  "server_added api penv cfg \<longleftrightarrow> (\<exists>u. api_addServer api (cfg_name cfg) (connection_config penv cfg) = Returns u)"

text \<open>
  Two agents the concrete examples below use: one that accepts every server and answers
  every tool call with the content \<open>ok\<close>, and one whose every call throws.
\<close>

definition echo_agent :: agent_api where
  "echo_agent =
     \<lparr>api_addServer = (\<lambda>_ _. Returns ()), api_getAvailableTools = (\<lambda>_. Returns [''echo'']),
      api_getAvailableResources = None, api_getAvailablePrompts = None,
      api_callTool = (\<lambda>_ _ _. Returns \<lparr>tr_content = Some ''ok'', tr_confidence = None,
                                       tr_summary = None, tr_keywords = None\<rparr>),
      api_getResource = None, api_getPrompt = None, api_ping = None\<rparr>"

definition offline_agent :: agent_api where
  "offline_agent =
     \<lparr>api_addServer = (\<lambda>_ _. Throws ''offline''), api_getAvailableTools = (\<lambda>_. Throws ''offline''),
      api_getAvailableResources = None, api_getAvailablePrompts = None,
      api_callTool = (\<lambda>_ _ _. Throws ''offline''), api_getResource = None, api_getPrompt = None,
      api_ping = None\<rparr>"

subsection \<open>Lemmas\<close>

lemma client_guard_iff [simp]:
  "client_guard c = None \<longleftrightarrow> connected c \<and> agent c"
  by (simp add: client_guard_def)

lemma client_guard_Some: "\<not> (connected c \<and> agent c) \<Longrightarrow> client_guard c = Some not_connected_msg"
  by (simp add: client_guard_def)

text \<open>C10: while the client is not connected, \<open>transcribeAudio\<close>,
  \<open>analyzeTranscription\<close>, \<open>callTool\<close>, \<open>getResource\<close> and \<open>getPrompt\<close> throw
  \<open>ZEO MCP Client not connected\<close> before calling the agent.\<close>

lemma not_connected_throws:
  assumes "\<not> connected c"
  shows "transcribeAudio c api p = Inl not_connected_msg \<and>
         analyzeTranscription c api t = Inl not_connected_msg \<and>
         callTool c api tool args server = Inl not_connected_msg \<and>
         getResource c api uri server = Inl not_connected_msg \<and>
         getPrompt c api nm args server = Inl not_connected_msg"
  using assms by (simp add: client_guard_Some transcribeAudio_def analyzeTranscription_def
      callTool_def getResource_def getPrompt_def)

lemma not_connected_throws_witness:
  "transcribeAudio new_client echo_agent ''a.wav'' = Inl not_connected_msg \<and>
   analyzeTranscription new_client echo_agent None = Inl not_connected_msg \<and>
   callTool new_client echo_agent ''t'' [] None = Inl not_connected_msg \<and>
   getResource new_client echo_agent ''u'' None = Inl not_connected_msg \<and>
   getPrompt new_client echo_agent ''p'' [] None = Inl not_connected_msg"
  by (rule not_connected_throws) (simp add: new_client_def)

text \<open>\<open>batchToolCalls\<close> answers one item per call, in the order of the
  calls, each carrying its call.\<close>

lemma batch_calls_preserved: "map batch_call_of (fst (batchToolCalls c api bs sid now)) = bs"
proof (induction bs arbitrary: c)
  case Nil
  then show ?case by simp
next
  case (Cons b bs)
  have IH: "\<And>c' items c''. batchToolCalls c' api bs sid now = (items, c'') \<Longrightarrow> map batch_call_of items = bs"
    using Cons.IH by (metis fst_conv)
  show ?case
    by (auto simp: Let_def split: prod.splits sum.splits dest: IH)
qed

lemma callToolWithSession_disconnected:
  "\<not> connected c \<Longrightarrow> callToolWithSession c api tool args sid server now = Inl not_connected_msg"
  by (simp add: callToolWithSession_def callTool_def client_guard_Some split: option.splits)

text \<open>On a disconnected client every item of a batch is the error
  \<open>ZEO MCP Client not connected\<close> and the client is unchanged: the per-call catch
  turns the throws into items.\<close>

lemma batch_disconnected:
  "\<not> connected c \<Longrightarrow>
     batchToolCalls c api bs sid now = (map (\<lambda>b. Batch_Error b not_connected_msg) bs, c)"
  by (induction bs) (simp_all add: callToolWithSession_disconnected callTool_def client_guard_Some)

lemma batch_disconnected_witness:
  "batchToolCalls new_client echo_agent [\<lparr>bc_tool = ''t'', bc_args = [], bc_server = None\<rparr>] (Some ''s'') 0 =
     ([Batch_Error \<lparr>bc_tool = ''t'', bc_args = [], bc_server = None\<rparr> not_connected_msg], new_client)"
  using batch_disconnected [of new_client echo_agent "[\<lparr>bc_tool = ''t'', bc_args = [], bc_server = None\<rparr>]" "Some ''s''" 0]
  by (simp add: new_client_def)

lemma getSession_update_same: "getSession (c\<lparr>sessions := AList.update sid s (sessions c)\<rparr>) sid = Some s"
  by (simp add: getSession_def)

text \<open>C25: a tool call within an existing session appends exactly one history
  entry, whose arguments carry the session context under \<open>_session\<close>, and touches
  \<open>lastActivity\<close>.\<close>

lemma callToolWithSession_history:
  assumes "getSession c sid = Some s"
    and "callToolWithSession c api tool args sid server now = Inr (r, c')"
  shows "getSession c' sid = Some (s\<lparr>s_history := s_history s @
           [\<lparr>he_tool = tool, he_args = AList.update ''_session'' (s_context s) args, he_result = r,
             he_timestamp = now\<rparr>], s_lastActivity := now\<rparr>)"
  using assms
  by (auto simp: callToolWithSession_def updateSession_def getSession_def Let_def
      split: sum.splits)

lemma callToolWithSession_history_witness:
  "\<exists>r c'. callToolWithSession (snd (createSession (fst (connect new_client echo_agent [] 0 (Returns ()) []))
             ''s'' JNull 1)) echo_agent ''t'' [] ''s'' None 2 = Inr (r, c') \<and>
     getSession c' ''s'' = Some \<lparr>s_id = ''s'', s_context = JNull,
        s_history = [\<lparr>he_tool = ''t'', he_args = [(''_session'', JNull)], he_result = r, he_timestamp = 2\<rparr>],
        s_createdAt = 1, s_lastActivity = 2\<rparr>"
proof -
  let ?c = "snd (createSession (fst (connect new_client echo_agent [] 0 (Returns ()) [])) ''s'' JNull 1)"
  have h1: "getSession ?c ''s'' = Some \<lparr>s_id = ''s'', s_context = JNull, s_history = [], s_createdAt = 1,
      s_lastActivity = 1\<rparr>"
    by (simp add: createSession_def getSession_def connect_def new_client_def Let_def)
  obtain r c' where h2: "callToolWithSession ?c echo_agent ''t'' [] ''s'' None 2 = Inr (r, c')"
    by (simp add: callToolWithSession_def createSession_def getSession_def connect_def new_client_def
        callTool_def client_guard_def Let_def)
  from callToolWithSession_history [OF h1 h2] h2 show ?thesis by auto
qed

text \<open>\<open>getSession\<close> after \<open>createSession\<close> returns the new session for its
  id and leaves every other id as it was.\<close>

lemma createSession_getSession:
  "getSession (snd (createSession c sid ctx now)) sid' =
     (if sid' = sid then Some (fst (createSession c sid ctx now)) else getSession c sid')"
  by (simp add: createSession_def getSession_def Let_def)

lemma destroySession_getSession:
  "getSession (snd (destroySession c sid)) sid' = (if sid' = sid then None else getSession c sid')"
  by (simp add: destroySession_def getSession_def delete_conv')


lemma discoverCapabilities_fields [simp]:
  "servers (snd (discoverCapabilities c api nm)) = servers c"
  "sessions (snd (discoverCapabilities c api nm)) = sessions c"
  "connectionHealth (snd (discoverCapabilities c api nm)) = connectionHealth c"
  "agent (snd (discoverCapabilities c api nm)) = agent c"
  "connected (snd (discoverCapabilities c api nm)) = connected c"
  by (simp_all add: discoverCapabilities_def Let_def split: outcome.splits)

lemma discoverCapabilities_wf:
  "distinct (map fst (capabilities c)) \<Longrightarrow> distinct (map fst (capabilities (snd (discoverCapabilities c api nm))))"
  by (auto simp: discoverCapabilities_def Let_def split: outcome.splits)

lemma connectToServer_fields:
  assumes "agent c"
  shows "agent (connectToServer c api penv now cfg) = agent c"
    and "connected (connectToServer c api penv now cfg) = connected c"
    and "sessions (connectToServer c api penv now cfg) = sessions c"
    and "fst ` set (connectionHealth (connectToServer c api penv now cfg)) =
           insert (cfg_name cfg) (fst ` set (connectionHealth c))"
    and "fst ` set (servers (connectToServer c api penv now cfg)) =
           (if server_added api penv cfg then insert (cfg_name cfg) (fst ` set (servers c))
            else fst ` set (servers c))"
  using assms
  by (auto simp: connectToServer_def Let_def server_added_def dom_update split: outcome.splits)

lemma connectToServer_wf:
  "client_wf c \<Longrightarrow> agent c \<Longrightarrow> client_wf (connectToServer c api penv now cfg)"
  by (auto simp: connectToServer_def Let_def client_wf_def discoverCapabilities_wf split: outcome.splits)

lemma connect_fold:
  assumes "agent c"
  shows "agent (fold (\<lambda>cfg c'. connectToServer c' api penv now cfg) cfgs c) \<and>
    fst ` set (connectionHealth (fold (\<lambda>cfg c'. connectToServer c' api penv now cfg) cfgs c)) =
      fst ` set (connectionHealth c) \<union> cfg_name ` set cfgs \<and>
    fst ` set (servers (fold (\<lambda>cfg c'. connectToServer c' api penv now cfg) cfgs c)) =
      fst ` set (servers c) \<union> cfg_name ` {cfg \<in> set cfgs. server_added api penv cfg}"
  using assms
proof (induction cfgs arbitrary: c)
  case Nil
  then show ?case by simp
next
  case (Cons cfg cfgs)
  from Cons.prems have "agent (connectToServer c api penv now cfg)"
    by (simp add: connectToServer_fields)
  with Cons.IH [of "connectToServer c api penv now cfg"] Cons.prems show ?case
    by (auto simp: connectToServer_fields)
qed

lemma connect_fold_wf:
  "client_wf c \<Longrightarrow> agent c \<Longrightarrow> client_wf (fold (\<lambda>cfg c'. connectToServer c' api penv now cfg) cfgs c)"
proof (induction cfgs arbitrary: c)
  case Nil
  then show ?case by simp
next
  case (Cons cfg cfgs)
  then show ?case
    by (simp add: connectToServer_wf connectToServer_fields)
qed

text \<open>C26: when the agent is constructed, \<open>connect\<close> returns true, the client
  is connected, every configured name has a health entry, and the connected servers are
  the previous ones plus those the agent accepted.\<close>

lemma connect_result:
  assumes "connect c api penv now (Returns u) cfgs = (c', ok)"
  shows "ok \<and> connected c' \<and> agent c' \<and>
    fst ` set (connectionHealth c') = fst ` set (connectionHealth c) \<union> cfg_name ` set cfgs \<and>
    fst ` set (servers c') = fst ` set (servers c) \<union> cfg_name ` {cfg \<in> set cfgs. server_added api penv cfg}"
proof -
  let ?f = "fold (\<lambda>cfg c'. connectToServer c' api penv now cfg) cfgs (c\<lparr>agent := True\<rparr>)"
  from assms have "c' = ?f\<lparr>connected := True\<rparr>" and ok
    by (simp_all add: connect_def)
  with connect_fold [of "c\<lparr>agent := True\<rparr>" api penv now cfgs] show ?thesis
    by simp
qed

lemma connect_result_witness:
  "connected (fst (connect new_client echo_agent [] 0 (Returns ()) [sample_config])) \<and>
   Some ''scribe'' \<in> fst ` set (servers (fst (connect new_client echo_agent [] 0 (Returns ()) [sample_config])))"
proof -
  have h: "connect new_client echo_agent [] 0 (Returns ()) [sample_config] =
      (fst (connect new_client echo_agent [] 0 (Returns ()) [sample_config]), True)"
    by (simp add: connect_def)
  have a: "server_added echo_agent [] sample_config" by (simp add: server_added_def echo_agent_def)
  from connect_result [OF h] a show ?thesis by (auto simp: new_client_def sample_config_def)
qed

lemma updateSession_wf: "client_wf c \<Longrightarrow> client_wf (snd (updateSession c sid hist now))"
  by (auto simp: updateSession_def client_wf_def Let_def split: option.splits)

lemma callToolWithSession_wf:
  "client_wf c \<Longrightarrow> callToolWithSession c api tool args sid server now = Inr (r, c') \<Longrightarrow> client_wf c'"
  by (auto simp: callToolWithSession_def Let_def updateSession_wf split: option.splits sum.splits)

lemma batch_wf: "client_wf c \<Longrightarrow> client_wf (snd (batchToolCalls c api bs sid now))"
proof (induction bs arbitrary: c)
  case Nil
  then show ?case by simp
next
  case (Cons b bs)
  show ?case
    using Cons.prems
    by (auto simp: Let_def split: prod.splits sum.splits if_splits
        dest: callToolWithSession_wf intro: Cons.IH [THEN subst [where P = client_wf, rotated]])
qed

lemma client_step_wf [inv_intros]:
  assumes wf: "client_wf c"
  shows "client_wf (client_step c api op)"
proof (cases op)
  case (Op_Connect penv now ctor cfgs)
  show ?thesis
  proof (cases ctor)
    case (Throws e)
    with wf Op_Connect show ?thesis by (simp add: connect_def client_wf_def)
  next
    case (Returns u)
    let ?f = "fold (\<lambda>cfg c'. connectToServer c' api penv now cfg) cfgs (c\<lparr>agent := True\<rparr>)"
    from wf have "client_wf (c\<lparr>agent := True\<rparr>)" by (simp add: client_wf_def)
    then have "client_wf ?f" by (simp add: connect_fold_wf)
    moreover have "agent ?f" using connect_fold [of "c\<lparr>agent := True\<rparr>" api penv now cfgs] by simp
    ultimately show ?thesis using Op_Connect Returns by (simp add: connect_def client_wf_def)
  qed
next
  case (Op_CreateSession sid ctx now)
  with wf show ?thesis by (simp add: client_wf_def createSession_def Let_def distinct_update)
next
  case (Op_UpdateSession sid hist now)
  with wf show ?thesis by (simp add: updateSession_wf)
next
  case (Op_DestroySession sid)
  with wf show ?thesis by (simp add: client_wf_def destroySession_def distinct_delete)
next
  case (Op_CallToolWithSession tool args sid server now)
  with wf show ?thesis by (auto split: sum.splits dest: callToolWithSession_wf)
next
  case (Op_Batch bs sid now)
  with wf show ?thesis by (simp add: batch_wf)
next
  case (Op_Ping nm now)
  with wf show ?thesis
    by (auto simp: client_wf_def pingServer_def Let_def split: outcome.splits option.splits)
next
  case Op_Disconnect
  with wf show ?thesis by (simp add: client_wf_def disconnect_def)
qed

text \<open>Every sequence of client operations keeps the Maps keyed uniquely and a
  connected client with an agent.\<close>

theorem client_run_wf: "client_wf c \<Longrightarrow> client_wf (client_run c api ops)"
  by (induction ops arbitrary: c) (simp_all add: inv_intros)

lemma client_run_wf_witness:
  "client_wf (client_run new_client echo_agent [Op_Connect [] 0 (Returns ()) [sample_config],
     Op_CreateSession ''s'' JNull 1, Op_Disconnect])"
  by (rule client_run_wf) (simp add: client_wf_def new_client_def)

end
