(* ===== verification/Job_Server.thy ===== *)
theory Job_Server
  imports Prelude Server_Config MCP_Client
begin

text \<open>
  The Express server of \<open>src/server.js\<close>: the job registry \<open>transcriptionJobs\<close>, the
  handlers of \<open>POST /upload\<close> (behind multer's \<open>upload.single('audio')\<close>) and
  \<open>GET /status/:jobId\<close>, the asynchronous \<open>processTranscription\<close> and the WebSocket
  fan-out \<open>broadcastProgress\<close>, with the startup call \<open>initializeMCP\<close>.

  The registry maps ids to job \<^emph>\<open>objects\<close>, and \<open>processTranscription\<close> keeps its own
  reference to the object it mutates; so jobs live in a heap (a list, the address is
  the index) and the registry maps ids to addresses. Each call of
  \<open>processTranscription\<close> is a task whose program counter is the \<open>await\<close> it waits
  at. The server is a step function over events: a request, the resumption of one task
  with what the agent answered, a WebSocket client connecting or closing, and the
  startup connection to the MCP servers. The order of events is the scheduling of the
  event loop; any order is a possible run.
\<close>

subsection \<open>Data\<close>

datatype job_status = Processing | Completed | Error

record job =
  j_id :: string
  j_filename :: string
  j_status :: job_status
  j_progress :: nat
  j_transcription :: "string option"
  j_createdAt :: timestamp
  j_analysis :: "string option"
  j_summary :: "string option"
  j_keywords :: "string list option"
  j_error :: "string option"

text \<open>The object \<open>broadcastProgress\<close> serialises (its \<open>type\<close> is always \<open>'progress'\<close>).\<close>

record progress_msg =
  m_jobId :: string
  m_progress :: nat
  m_status :: job_status
  m_transcription :: "string option"
  m_analysis :: "string option"
  m_summary :: "string option"
  m_keywords :: "string list option"
  m_error :: "string option"

record ws_client =
  ws_open :: bool \<comment> \<open>\<open>readyState === WebSocket.OPEN\<close>\<close>
  inbox :: "progress_msg list"

text \<open>Where a \<open>processTranscription\<close> call is suspended. The argument of an \<open>Await\<close> is
  the error the called client method threw synchronously, if it did (the promise then
  rejects).\<close>

datatype task_pc = Await_Transcribe "string option" | Await_Analyze "string option" | Done

record task =
  t_jobId :: string
  t_addr :: nat
  t_pc :: task_pc

record server =
  heap :: "job list"
  transcriptionJobs :: "(string \<times> nat) list"
  tasks :: "task list"
  clients :: "ws_client list"
  mcp :: mcp_client
  mcp_initialized :: bool

definition init_server :: server where
  "init_server = \<lparr>heap = [], transcriptionJobs = [], tasks = [], clients = [], mcp = new_client,
     mcp_initialized = False\<rparr>"

record upload_file =
  originalname :: string
  mimetype :: string
  size :: nat

datatype server_event =
    Ev_InitMCP timestamp "unit outcome"
  | Ev_Upload "upload_file option" timestamp timestamp \<comment> \<open>the file, then the two \<open>Date.now()\<close> readings\<close>
  | Ev_Status string
  | Ev_Resume nat "tool_result outcome" \<comment> \<open>task index, what the agent's tool call did\<close>
  | Ev_WsConnect
  | Ev_WsClose nat

datatype server_response =
    R_None
  | R_Bad_Request string
  | R_Upload_Failed string
  | R_Uploaded string
  | R_Not_Found string
  | R_Job job

subsection \<open>Upload limits\<close>

text \<open>
  \<open>parseInt(process.env.MAX_FILE_SIZE?.replace('MB', '')) * 1024 * 1024 || 50 * 1024 * 1024\<close>:
  \<open>NaN\<close> and \<open>0\<close> are falsy and give the default.
\<close>

definition upload_limit :: "string option \<Rightarrow> int" where
  "upload_limit v =
     (case v of
        None \<Rightarrow> 52428800
      | Some s \<Rightarrow> (case js_parseInt (replace_first ''MB'' [] s) of
                    None \<Rightarrow> 52428800
                  | Some n \<Rightarrow> if n * 1048576 = 0 then 52428800 else n * 1048576))"

text \<open>multer with \<open>fileFilter\<close> (audio MIME types only) and the \<open>fileSize\<close> limit.\<close>

definition multer_single :: "int \<Rightarrow> upload_file option \<Rightarrow> string + upload_file option" where
  "multer_single limit f =
     (case f of
        None \<Rightarrow> Inr None
      | Some file \<Rightarrow>
          if \<not> starts_with (mimetype file) ''audio/'' then Inl ''Only audio files allowed''
          else if limit < int (size file) then Inl ''File too large''
          else Inr (Some file))"

definition job_key :: "timestamp \<Rightarrow> string" where
  "job_key t = ''job_'' @ string_of_nat t"

definition stored_filename :: "timestamp \<Rightarrow> upload_file \<Rightarrow> string" where
  "stored_filename t file = string_of_nat t @ ''-'' @ originalname file"

text \<open>The mock transcription of the fallback branch, in UTF-8.\<close>

definition fallback_transcription :: string where
  "fallback_transcription =
     ''Esta '' @ [CHR 0xC3, CHR 0xA9] @ '' uma transcri'' @ [CHR 0xC3, CHR 0xA7] @
     [CHR 0xC3, CHR 0xA3] @ ''o simulada da consulta m'' @ [CHR 0xC3, CHR 0xA9] @
     ''dica. O paciente relatou sintomas de dor abdominal e n'' @ [CHR 0xC3, CHR 0xA1] @
     ''usea. Hist'' @ [CHR 0xC3, CHR 0xB3] @
     ''rico familiar relevante para diabetes. Exame f'' @ [CHR 0xC3, CHR 0xAD] @
     ''sico sem altera'' @ [CHR 0xC3, CHR 0xA7] @ [CHR 0xC3, CHR 0xB5] @ ''es significativas.''"

subsection \<open>Fan-out\<close>

definition progress_of :: "string \<Rightarrow> job \<Rightarrow> progress_msg" where
  "progress_of jobId j =
     \<lparr>m_jobId = jobId, m_progress = j_progress j, m_status = j_status j,
      m_transcription = j_transcription j, m_analysis = j_analysis j, m_summary = j_summary j,
      m_keywords = j_keywords j, m_error = j_error j\<rparr>"

text \<open>\<open>broadcastProgress\<close>: every open client receives the message, in send order.\<close>

definition broadcastProgress :: "string \<Rightarrow> job \<Rightarrow> ws_client list \<Rightarrow> ws_client list" where
  "broadcastProgress jobId j cls =
     map (\<lambda>cl. if ws_open cl then cl\<lparr>inbox := inbox cl @ [progress_of jobId j]\<rparr> else cl) cls"

subsection \<open>processTranscription\<close>

text \<open>
  The synchronous start of \<open>processTranscription(jobId, path)\<close>, run inside the upload
  handler: look the job up, set progress 10, broadcast, and call \<open>transcribeAudio\<close>,
  whose guard runs now; the task then waits at the \<open>await\<close>.
\<close>

definition process_start :: "server \<Rightarrow> string \<Rightarrow> server" where
  "process_start s jobId =
     (case map_of (transcriptionJobs s) jobId of
        None \<Rightarrow> s
      | Some a \<Rightarrow>
          (let j = (heap s ! a)\<lparr>j_progress := 10\<rparr> in
           s\<lparr>heap := (heap s)[a := j],
             clients := broadcastProgress jobId j (clients s),
             tasks := tasks s @ [\<lparr>t_jobId = jobId, t_addr = a,
                                   t_pc = Await_Transcribe (client_guard (mcp s))\<rparr>]\<rparr>))"

text \<open>One resumption of task \<open>i\<close>: store the job, broadcast it, move the task on.\<close>

definition task_update :: "server \<Rightarrow> nat \<Rightarrow> job \<Rightarrow> task_pc \<Rightarrow> server" where
  "task_update s i j pc =
     (let t = tasks s ! i in
      s\<lparr>heap := (heap s)[t_addr t := j],
        clients := broadcastProgress (t_jobId t) j (clients s),
        tasks := (tasks s)[i := t\<lparr>t_pc := pc\<rparr>]\<rparr>)"

text \<open>The \<open>catch\<close> of \<open>processTranscription\<close>, then the final broadcast.\<close>

definition job_fail :: "job \<Rightarrow> string \<Rightarrow> job" where
  "job_fail j e = j\<lparr>j_status := Error, j_error := Some e\<rparr>"

text \<open>After \<open>await mcpClient.transcribeAudio(...)\<close> settles.\<close>

fun after_transcribe :: "mcp_client \<Rightarrow> job \<Rightarrow> string + transcribe_result \<Rightarrow> job \<times> task_pc" where
  "after_transcribe c j (Inl e) = (job_fail j e, Done)"
| "after_transcribe c j (Inr (Transcribed content conf)) =
     (j\<lparr>j_progress := 70, j_transcription := content\<rparr>, Await_Analyze (client_guard c))"
| "after_transcribe c j (Inr (Transcribe_Failed e)) =
     (j\<lparr>j_transcription := Some fallback_transcription, j_progress := 100, j_status := Completed\<rparr>, Done)"

text \<open>After \<open>await mcpClient.analyzeTranscription(...)\<close> settles.\<close>

fun after_analyze :: "job \<Rightarrow> string + analysis_result \<Rightarrow> job" where
  "after_analyze j (Inl e) = job_fail j e"
| "after_analyze j (Inr (Analyzed an su kw)) =
     j\<lparr>j_analysis := an, j_summary := su, j_keywords := Some kw, j_progress := 100,
       j_status := Completed\<rparr>"
| "after_analyze j (Inr (Analysis_Failed e)) = j\<lparr>j_progress := 100, j_status := Completed\<rparr>"

text \<open>A rejected call settles with its error; otherwise with what the agent did.\<close>

fun settle :: "string option \<Rightarrow> 'r \<Rightarrow> string + 'r" where
  "settle (Some e) r = Inl e"
| "settle None r = Inr r"

definition resume :: "server \<Rightarrow> nat \<Rightarrow> tool_result outcome \<Rightarrow> server" where
  "resume s i out =
     (if length (tasks s) \<le> i then s
      else (let t = tasks s ! i; j = heap s ! t_addr t in
            case t_pc t of
              Done \<Rightarrow> s
            | Await_Transcribe g \<Rightarrow>
                (let (j', pc) = after_transcribe (mcp s) j (settle g (transcribe_finish out))
                 in task_update s i j' pc)
            | Await_Analyze g \<Rightarrow>
                task_update s i (after_analyze j (settle g (analyze_finish out))) Done))"

subsection \<open>Handlers and startup\<close>

definition upload_handler ::
  "server \<Rightarrow> int \<Rightarrow> upload_file option \<Rightarrow> timestamp \<Rightarrow> timestamp \<Rightarrow> server \<times> server_response" where
  "upload_handler s limit f tf tj =
     (case multer_single limit f of
        Inl e \<Rightarrow> (s, R_Upload_Failed e)
      | Inr None \<Rightarrow> (s, R_Bad_Request ''No audio file provided'')
      | Inr (Some file) \<Rightarrow>
          (let jobId = job_key tj;
               j = \<lparr>j_id = jobId, j_filename = stored_filename tf file, j_status = Processing,
                    j_progress = 0, j_transcription = None, j_createdAt = tj, j_analysis = None,
                    j_summary = None, j_keywords = None, j_error = None\<rparr>;
               s1 = s\<lparr>heap := heap s @ [j],
                      transcriptionJobs := AList.update jobId (length (heap s)) (transcriptionJobs s)\<rparr>
           in (process_start s1 jobId, R_Uploaded jobId)))"

definition status_handler :: "server \<Rightarrow> string \<Rightarrow> server_response" where
  "status_handler s jobId =
     (case map_of (transcriptionJobs s) jobId of
        None \<Rightarrow> R_Not_Found ''Job not found''
      | Some a \<Rightarrow> R_Job (heap s ! a))"

text \<open>
  \<open>initializeMCP\<close> (run once): with no enabled server it returns before connecting;
  otherwise \<open>mcpClient.connect(enabledServers)\<close>.
\<close>

definition initializeMCP ::
  "agent_api \<Rightarrow> (string \<times> string) list \<Rightarrow> server_config list \<Rightarrow> server \<Rightarrow> timestamp \<Rightarrow> unit outcome \<Rightarrow> server" where
  "initializeMCP api penv cfgs s now ctor =
     (if mcp_initialized s then s
      else (let enabled = getEnabledServers cfgs in
            s\<lparr>mcp_initialized := True,
              mcp := (if enabled = [] then mcp s else fst (connect (mcp s) api penv now ctor enabled))\<rparr>))"

text \<open>
  The server: \<open>api\<close> is the agent, \<open>penv\<close> the environment, \<open>cfgs\<close> the array
  \<open>MCP_SERVERS\<close> (no route changes it).
\<close>

fun server_step ::
  "agent_api \<Rightarrow> (string \<times> string) list \<Rightarrow> server_config list \<Rightarrow> server \<Rightarrow> server_event
     \<Rightarrow> server \<times> server_response" where
  "server_step api penv cfgs s (Ev_InitMCP now ctor) = (initializeMCP api penv cfgs s now ctor, R_None)"
| "server_step api penv cfgs s (Ev_Upload f tf tj) =
     upload_handler s (upload_limit (map_of penv ''MAX_FILE_SIZE'')) f tf tj"
| "server_step api penv cfgs s (Ev_Status jobId) = (s, status_handler s jobId)"
| "server_step api penv cfgs s (Ev_Resume i out) = (resume s i out, R_None)"
| "server_step api penv cfgs s Ev_WsConnect =
     (s\<lparr>clients := clients s @ [\<lparr>ws_open = True, inbox = []\<rparr>]\<rparr>, R_None)"
| "server_step api penv cfgs s (Ev_WsClose k) =
     (if k < length (clients s)
      then s\<lparr>clients := (clients s)[k := (clients s ! k)\<lparr>ws_open := False\<rparr>]\<rparr> else s, R_None)"

fun server_run ::
  "agent_api \<Rightarrow> (string \<times> string) list \<Rightarrow> server_config list \<Rightarrow> server \<Rightarrow> server_event list \<Rightarrow> server" where
  "server_run api penv cfgs s [] = s"
| "server_run api penv cfgs s (e # es) = server_run api penv cfgs (fst (server_step api penv cfgs s e)) es"

text \<open>The states a run from a fresh process reaches.\<close>

inductive reach :: "agent_api \<Rightarrow> (string \<times> string) list \<Rightarrow> server_config list \<Rightarrow> server \<Rightarrow> bool"
  for api penv cfgs where
  reach_init: "reach api penv cfgs init_server"
| reach_step: "reach api penv cfgs s \<Longrightarrow> reach api penv cfgs (fst (server_step api penv cfgs s e))"

subsection \<open>Invariant\<close>

text \<open>
  A job left by a finished task is terminal: completed at 100, or failed at the
  checkpoint it had reached (10 or 70) with its error message.
\<close>

definition job_terminal_ok :: "job \<Rightarrow> bool" where
  "job_terminal_ok j \<longleftrightarrow>
     (j_status j = Completed \<and> j_progress j = 100) \<or>
     (j_status j = Error \<and> j_progress j \<in> {10, 70} \<and> j_error j \<noteq> None)"

fun task_job_ok :: "task_pc \<Rightarrow> job \<Rightarrow> bool" where
  "task_job_ok (Await_Transcribe _) j \<longleftrightarrow> j_status j = Processing \<and> j_progress j = 10"
| "task_job_ok (Await_Analyze _) j \<longleftrightarrow> j_status j = Processing \<and> j_progress j = 70"
| "task_job_ok Done j \<longleftrightarrow> job_terminal_ok j"

definition server_inv :: "server \<Rightarrow> bool" where
  "server_inv s \<longleftrightarrow>
     length (tasks s) = length (heap s) \<and>
     (\<forall>i < length (tasks s). t_addr (tasks s ! i) = i \<and> t_jobId (tasks s ! i) = j_id (heap s ! i) \<and>
        task_job_ok (t_pc (tasks s ! i)) (heap s ! i)) \<and>
     (\<forall>k a. map_of (transcriptionJobs s) k = Some a \<longrightarrow> a < length (heap s) \<and> j_id (heap s ! a) = k)"

text \<open>An upload the concrete examples below use.\<close>

definition sample_audio :: upload_file where
  "sample_audio = \<lparr>originalname = ''a.wav'', mimetype = ''audio/wav'', size = 1000\<rparr>"

subsection \<open>Lemmas\<close>

lemma task_update_fields [simp]:
  "heap (task_update s i j pc) = (heap s)[t_addr (tasks s ! i) := j]"
  "tasks (task_update s i j pc) = (tasks s)[i := (tasks s ! i)\<lparr>t_pc := pc\<rparr>]"
  "transcriptionJobs (task_update s i j pc) = transcriptionJobs s"
  "mcp (task_update s i j pc) = mcp s"
  "mcp_initialized (task_update s i j pc) = mcp_initialized s"
  "clients (task_update s i j pc) = broadcastProgress (t_jobId (tasks s ! i)) j (clients s)"
  by (simp_all add: task_update_def Let_def)

lemma after_transcribe_ok:
  "task_job_ok (Await_Transcribe g) j \<Longrightarrow> after_transcribe c j r = (j', pc) \<Longrightarrow>
     task_job_ok pc j' \<and> j_id j' = j_id j \<and> j_progress j \<le> j_progress j'"
  by (cases "(c, j, r)" rule: after_transcribe.cases)
     (auto simp: job_fail_def job_terminal_ok_def)

lemma after_analyze_ok:
  "task_job_ok (Await_Analyze g) j \<Longrightarrow>
     task_job_ok Done (after_analyze j r) \<and> j_id (after_analyze j r) = j_id j \<and>
     j_progress j \<le> j_progress (after_analyze j r)"
  by (cases "(j, r)" rule: after_analyze.cases) (auto simp: job_fail_def job_terminal_ok_def)

lemma inv_task_update:
  assumes inv: "server_inv s" and i: "i < length (tasks s)"
    and ok: "task_job_ok pc j" and jid: "j_id j = j_id (heap s ! i)"
  shows "server_inv (task_update s i j pc)"
proof -
  from inv i have a: "t_addr (tasks s ! i) = i" by (simp add: server_inv_def)
  from inv have len: "length (tasks s) = length (heap s)" by (simp add: server_inv_def)
  let ?s' = "task_update s i j pc"
  have t: "\<forall>k < length (tasks ?s'). t_addr (tasks ?s' ! k) = k \<and>
          t_jobId (tasks ?s' ! k) = j_id (heap ?s' ! k) \<and> task_job_ok (t_pc (tasks ?s' ! k)) (heap ?s' ! k)"
  proof (intro allI impI)
    fix k assume k: "k < length (tasks ?s')"
    show "t_addr (tasks ?s' ! k) = k \<and> t_jobId (tasks ?s' ! k) = j_id (heap ?s' ! k) \<and>
          task_job_ok (t_pc (tasks ?s' ! k)) (heap ?s' ! k)"
      using inv k i a ok jid len by (cases "k = i") (auto simp: server_inv_def nth_list_update)
  qed
  have r: "\<forall>k b. map_of (transcriptionJobs ?s') k = Some b \<longrightarrow> b < length (heap ?s') \<and> j_id (heap ?s' ! b) = k"
  proof (intro allI impI)
    fix k b assume "map_of (transcriptionJobs ?s') k = Some b"
    then show "b < length (heap ?s') \<and> j_id (heap ?s' ! b) = k"
      using inv a jid i len by (cases "b = i") (auto simp: server_inv_def nth_list_update)
  qed
  from t r len show ?thesis by (simp add: server_inv_def)
qed

lemma resume_inv: "server_inv s \<Longrightarrow> server_inv (resume s i out)"
proof -
  assume inv: "server_inv s"
  show ?thesis
  proof (cases "i < length (tasks s)")
    case False
    with inv show ?thesis by (simp add: resume_def)
  next
    case True
    with inv have a: "t_addr (tasks s ! i) = i" and ok: "task_job_ok (t_pc (tasks s ! i)) (heap s ! i)"
      by (simp_all add: server_inv_def)
    show ?thesis
    proof (cases "t_pc (tasks s ! i)")
      case (Await_Transcribe g)
      obtain j' pc where r: "after_transcribe (mcp s) (heap s ! i) (settle g (transcribe_finish out)) = (j', pc)"
        by fastforce
      from after_transcribe_ok [OF ok [unfolded Await_Transcribe] r]
      have "task_job_ok pc j'" "j_id j' = j_id (heap s ! i)" by simp_all
      with inv True have "server_inv (task_update s i j' pc)" by (rule inv_task_update)
      with True Await_Transcribe a r show ?thesis by (simp add: resume_def Let_def)
    next
      case (Await_Analyze g)
      from after_analyze_ok [OF ok [unfolded Await_Analyze]]
      have "task_job_ok Done (after_analyze (heap s ! i) (settle g (analyze_finish out)))"
        "j_id (after_analyze (heap s ! i) (settle g (analyze_finish out))) = j_id (heap s ! i)"
        by simp_all
      with inv True have "server_inv (task_update s i (after_analyze (heap s ! i) (settle g (analyze_finish out))) Done)"
        by (rule inv_task_update)
      with True Await_Analyze a show ?thesis by (simp add: resume_def Let_def)
    next
      case Done
      with inv True show ?thesis by (simp add: resume_def)
    qed
  qed
qed


lemma upload_handler_accepted:
  assumes "multer_single limit f = Inr (Some file)"
  shows "upload_handler s limit f tf tj =
    (let j = \<lparr>j_id = job_key tj, j_filename = stored_filename tf file, j_status = Processing,
              j_progress = 10, j_transcription = None, j_createdAt = tj, j_analysis = None,
              j_summary = None, j_keywords = None, j_error = None\<rparr> in
     (s\<lparr>heap := heap s @ [j],
        transcriptionJobs := AList.update (job_key tj) (length (heap s)) (transcriptionJobs s),
        clients := broadcastProgress (job_key tj) j (clients s),
        tasks := tasks s @ [\<lparr>t_jobId = job_key tj, t_addr = length (heap s),
                              t_pc = Await_Transcribe (client_guard (mcp s))\<rparr>]\<rparr>,
      R_Uploaded (job_key tj)))"
  using assms by (simp add: upload_handler_def process_start_def Let_def)

lemma upload_inv: "server_inv s \<Longrightarrow> server_inv (fst (upload_handler s limit f tf tj))"
proof (cases "\<exists>file. multer_single limit f = Inr (Some file)")
  case True
  assume inv: "server_inv s"
  then obtain fl where m: "multer_single limit f = Inr (Some fl)" using True by blast
  from inv have len: "length (tasks s) = length (heap s)" by (simp add: server_inv_def)
  show ?thesis
    using inv len
    by (auto simp: upload_handler_accepted [OF m] Let_def server_inv_def nth_append
        update_conv' split: if_splits) (blast intro: less_SucI)
next
  case False
  assume inv: "server_inv s"
  with False show ?thesis
    by (auto simp: upload_handler_def split: sum.splits option.splits)
qed

lemma server_step_inv: "server_inv s \<Longrightarrow> server_inv (fst (server_step api penv cfgs s e))"
proof (cases e)
  case (Ev_Upload f tf tj)
  assume "server_inv s"
  with Ev_Upload show ?thesis by (simp add: upload_inv)
next
  case (Ev_Resume i out)
  assume "server_inv s"
  with Ev_Resume show ?thesis by (simp add: resume_inv)
qed (auto simp: initializeMCP_def server_inv_def Let_def)

lemma init_inv: "server_inv init_server"
  by (simp add: server_inv_def init_server_def)

lemma reach_server_inv: "reach api penv cfgs s \<Longrightarrow> server_inv s"
  by (induction rule: reach.induct) (simp_all add: init_inv server_step_inv)


text \<open>How one event changes the job at an existing address.\<close>

lemma step_job_evolves:
  fixes api penv cfgs e
  assumes inv: "server_inv s" and a: "a < length (heap s)"
  defines "s' \<equiv> fst (server_step api penv cfgs s e)"
  shows "a < length (heap s') \<and> j_progress (heap s ! a) \<le> j_progress (heap s' ! a) \<and>
         j_id (heap s' ! a) = j_id (heap s ! a) \<and>
         (j_status (heap s ! a) \<noteq> Processing \<longrightarrow> heap s' ! a = heap s ! a)"
proof (cases e)
  case (Ev_Upload f tf tj)
  let ?l = "upload_limit (map_of penv ''MAX_FILE_SIZE'')"
  show ?thesis
  proof (cases "\<exists>fl. multer_single ?l f = Inr (Some fl)")
    case True
    then obtain fl where m: "multer_single ?l f = Inr (Some fl)" by blast
    with Ev_Upload a show ?thesis
      by (simp add: s'_def upload_handler_accepted [OF m] Let_def nth_append)
  next
    case False
    with Ev_Upload a show ?thesis
      by (auto simp: s'_def upload_handler_def split: sum.splits option.splits)
  qed
next
  case (Ev_Resume i out)
  show ?thesis
  proof (cases "i < length (tasks s) \<and> t_pc (tasks s ! i) \<noteq> Done")
    case False
    with Ev_Resume a show ?thesis
      by (auto simp: s'_def resume_def split: task_pc.splits)
  next
    case True
    with inv have ti: "t_addr (tasks s ! i) = i" and ok: "task_job_ok (t_pc (tasks s ! i)) (heap s ! i)"
      by (simp_all add: server_inv_def)
    show ?thesis
    proof (cases "t_pc (tasks s ! i)")
      case (Await_Transcribe g)
      obtain j' pc where r: "after_transcribe (mcp s) (heap s ! i) (settle g (transcribe_finish out)) = (j', pc)"
        by fastforce
      from after_transcribe_ok [OF ok [unfolded Await_Transcribe] r] ok Await_Transcribe
      show ?thesis using True Ev_Resume a ti r
        by (cases "a = i") (auto simp: s'_def resume_def Let_def nth_list_update)
    next
      case (Await_Analyze g)
      from after_analyze_ok [OF ok [unfolded Await_Analyze]] ok Await_Analyze
      show ?thesis using True Ev_Resume a ti
        by (cases "a = i") (auto simp: s'_def resume_def Let_def nth_list_update)
    next
      case Done
      with True show ?thesis by simp
    qed
  qed
qed (use a in \<open>auto simp: s'_def initializeMCP_def Let_def\<close>)

text \<open>C4: no event lowers the progress of a job, and a job that is completed or
  failed never changes again.\<close>

theorem reach_job_monotone:
  fixes e
  assumes "reach api penv cfgs s" and "a < length (heap s)"
  defines "s' \<equiv> fst (server_step api penv cfgs s e)"
  shows "a < length (heap s') \<and> j_progress (heap s ! a) \<le> j_progress (heap s' ! a) \<and>
         (j_status (heap s ! a) \<noteq> Processing \<longrightarrow> heap s' ! a = heap s ! a)"
  using step_job_evolves [OF reach_server_inv [OF assms(1)] assms(2)] by (simp add: s'_def)

lemma reach_job_monotone_witness:
  "j_progress (heap (fst (server_step offline_agent [] [] init_server (Ev_Upload (Some sample_audio) 1 5))) ! 0) \<le>
   j_progress (heap (fst (server_step offline_agent [] []
      (fst (server_step offline_agent [] [] init_server (Ev_Upload (Some sample_audio) 1 5)))
      (Ev_Resume 0 (Throws ''x'')))) ! 0)"
proof -
  let ?s = "fst (server_step offline_agent [] [] init_server (Ev_Upload (Some sample_audio) 1 5))"
  have r: "reach offline_agent [] [] ?s" by (rule reach_step [OF reach_init])
  have a: "0 < length (heap ?s)"
    by (simp add: upload_handler_def multer_single_def sample_audio_def starts_with_def
        process_start_def init_server_def Let_def upload_limit_def)
  from reach_job_monotone [OF r a, of "Ev_Resume 0 (Throws ''x'')"] show ?thesis by simp
qed

text \<open>Every task of \<open>processTranscription\<close> finishes after at most two
  resumptions, whatever the agent answers.\<close>

theorem resume_twice_done:
  assumes "reach api penv cfgs s" and "i < length (tasks s)"
  shows "t_pc (tasks (resume (resume s i o1) i o2) ! i) = Done"
proof -
  have len: "length (tasks (resume s i o1)) = length (tasks s)"
    by (auto simp: resume_def Let_def split: task_pc.splits prod.splits)
  have one: "t_pc (tasks (resume s i o1) ! i) = Done \<or> (\<exists>g. t_pc (tasks (resume s i o1) ! i) = Await_Analyze g)"
    using assms(2)
    by (cases "t_pc (tasks s ! i)")
       (auto simp: resume_def Let_def settle.simps split: prod.splits option.splits sum.splits
          transcribe_result.splits elim!: after_transcribe.elims)
  from one assms(2) len show ?thesis
    by (auto simp: resume_def Let_def)
qed

lemma resume_twice_done_witness:
  "t_pc (tasks (resume (resume (fst (server_step offline_agent [] [] init_server
      (Ev_Upload (Some sample_audio) 1 5))) 0 (Throws ''x'')) 0 (Throws ''y'')) ! 0) = Done"
proof -
  let ?s = "fst (server_step offline_agent [] [] init_server (Ev_Upload (Some sample_audio) 1 5))"
  have r: "reach offline_agent [] [] ?s" by (rule reach_step [OF reach_init])
  have i: "0 < length (tasks ?s)"
    by (simp add: upload_handler_def multer_single_def sample_audio_def starts_with_def
        process_start_def init_server_def Let_def upload_limit_def)
  from resume_twice_done [OF r i] show ?thesis .
qed

text \<open>C9: when the transcription call of the agent fails, the job still completes
  at 100 with the fallback transcription (the degraded-success policy).\<close>

theorem fallback_on_agent_error:
  assumes inv: "server_inv s" and i: "i < length (tasks s)"
    and pc: "t_pc (tasks s ! i) = Await_Transcribe None"
  shows "j_status (heap (resume s i (Throws e)) ! i) = Completed \<and>
         j_progress (heap (resume s i (Throws e)) ! i) = 100 \<and>
         j_transcription (heap (resume s i (Throws e)) ! i) = Some fallback_transcription"
proof -
  from inv i have "t_addr (tasks s ! i) = i" and "i < length (heap s)"
    by (simp_all add: server_inv_def)
  with i pc show ?thesis by (simp add: resume_def Let_def)
qed

lemma fallback_on_agent_error_witness:
  "j_status (heap (resume (fst (server_step echo_agent [] [sample_config]
      (fst (server_step echo_agent [] [sample_config] init_server (Ev_InitMCP 0 (Returns ()))))
      (Ev_Upload (Some sample_audio) 1 5))) 0 (Throws ''down'')) ! 0) = Completed"
proof -
  let ?st = "fst (server_step echo_agent [] [sample_config] init_server (Ev_InitMCP 0 (Returns ())))"
  let ?s = "fst (server_step echo_agent [] [sample_config] ?st (Ev_Upload (Some sample_audio) 1 5))"
  have r: "reach echo_agent [] [sample_config] ?s" by (rule reach_step [OF reach_step [OF reach_init]])
  have inv: "server_inv ?s" using r by (rule reach_server_inv)
  have c: "mcp ?st = fst (connect new_client echo_agent [] 0 (Returns ()) [sample_config])"
    by (simp add: initializeMCP_def init_server_def getEnabledServers_def sample_config_def)
  have cc: "client_guard (mcp ?st) = None"
    unfolding c by (simp add: connect_def client_guard_def connectToServer_def Let_def
      discoverCapabilities_def new_client_def echo_agent_def)
  have i: "0 < length (tasks ?s)" and pc: "t_pc (tasks ?s ! 0) = Await_Transcribe None"
    using cc by (simp_all add: upload_handler_def multer_single_def sample_audio_def starts_with_def
        process_start_def initializeMCP_def init_server_def Let_def upload_limit_def)
  from fallback_on_agent_error [OF inv i pc] show ?thesis by simp
qed

text \<open>\<open>POST /upload\<close> without a file answers 400 \<open>No audio file provided\<close>
  and leaves the server unchanged.\<close>

theorem upload_without_file:
  "server_step api penv cfgs s (Ev_Upload None tf tj) = (s, R_Bad_Request ''No audio file provided'')"
  by (simp add: upload_handler_def multer_single_def)

text \<open>\<open>GET /status/:jobId\<close> answers 404 exactly for ids the registry does not hold.\<close>

theorem status_not_found:
  "status_handler s k = R_Not_Found ''Job not found'' \<longleftrightarrow> map_of (transcriptionJobs s) k = None"
  by (simp add: status_handler_def split: option.splits)

text \<open>C3: in every state the server reaches, each task sits at the address of its
  job, the job matches the \<open>await\<close> the task waits at (processing at 10 before
  transcription, at 70 before analysis), a finished task left its job completed at 100
  or failed at 10 or 70 with an error message, and the registry points at jobs of that id.\<close>

theorem reach_inv: "reach api penv cfgs s \<Longrightarrow> server_inv s"
  by (rule reach_server_inv)

lemma reach_inv_witness:
  "server_inv (fst (server_step offline_agent [] [] init_server (Ev_Upload (Some sample_audio) 1 5)))"
  by (rule reach_inv) (rule reach_step [OF reach_init])

end
