(* ===== verification/Server_Routes.thy ===== *)
theory Server_Routes
  imports Job_Server
begin

text \<open>
  The rest of \<open>src/server.js\<close>: the production CORS middleware, the \<open>/mcp/*\<close> routes
  that expose the MCP client, \<open>/health\<close>, the \<open>SIGINT\<close> handler, and the route table
  Express matches requests against. A route answers a status and a reply; replies
  carrying client records are kept as those records (their JSON serialisation is not
  modelled). Request inputs are typed as the routes read them: path parameters and
  query values are strings; the calls of a batch and the arguments of a tool call are
  the typed values the body holds (an \<open>args\<close> that is not an object is read as no
  arguments). Sessions are keyed by strings: a truthy \<open>sessionId\<close> that is not a
  string is keyed by its string form, where the code would key the Map by the value.
\<close>

section \<open>CORS in production\<close>

text \<open>
  The middleware registered when \<open>NODE_ENV === 'production'\<close>: the headers it sets and
  whether it answers the request itself (\<open>OPTIONS\<close>).
\<close>

definition cors_middleware ::
  "(string \<times> string) list \<Rightarrow> string option \<Rightarrow> string \<Rightarrow> (string \<times> string) list \<times> bool" where
  "cors_middleware penv origin meth =
     (let allowed = (case map_of penv ''ALLOWED_ORIGINS'' of None \<Rightarrow> [] | Some v \<Rightarrow> split_on CHR '','' v);
          acao = (case origin of Some org \<Rightarrow> if org \<in> set allowed then [(''Access-Control-Allow-Origin'', org)] else []
                               | None \<Rightarrow> [])
      in (acao @ [(''Access-Control-Allow-Methods'', ''GET, POST, PUT, DELETE, OPTIONS''),
                  (''Access-Control-Allow-Headers'', ''Content-Type, Authorization''),
                  (''Access-Control-Allow-Credentials'', ''true'')],
          meth = ''OPTIONS''))"

section \<open>Route table\<close>

text \<open>The routes in registration order: method and path pattern.\<close>

definition express_routes :: "(string \<times> string) list" where
  "express_routes =
     [(''POST'', ''/upload''), (''GET'', ''/status/:jobId''), (''GET'', ''/mcp/servers''),
      (''GET'', ''/mcp/health/:serverName?''), (''GET'', ''/mcp/tools/:serverName?''),
      (''GET'', ''/mcp/resources/:serverName?''), (''GET'', ''/mcp/resource/:resourceUri''),
      (''GET'', ''/mcp/prompts/:serverName?''), (''POST'', ''/mcp/prompt/:promptName''),
      (''POST'', ''/mcp/sessions''), (''GET'', ''/mcp/sessions/:sessionId''), (''POST'', ''/mcp/batch''),
      (''POST'', ''/mcp/tool/:toolName''), (''GET'', ''/health'')]"

definition ascii_lower :: "string \<Rightarrow> string" where
  "ascii_lower s =
     map (\<lambda>c. if (65::nat) \<le> of_char c \<and> of_char c \<le> (90::nat) then char_of (of_char c + (32::nat)) else c) s"

text \<open>The segments of a path; a trailing slash is ignored (Express is not strict).\<close>

definition path_segments :: "string \<Rightarrow> string list" where
  "path_segments p = (let ss = split_on CHR ''/'' p in if 2 < length ss \<and> last ss = [] then butlast ss else ss)"

fun is_param :: "string \<Rightarrow> bool" where
  "is_param (c # cs) = (c = CHR '':'')"
| "is_param [] = False"

definition is_optional_param :: "string \<Rightarrow> bool" where
  "is_optional_param p \<longleftrightarrow> is_param p \<and> last p = CHR ''?''"

text \<open>
  Matching as Express 4 does for these patterns: a literal segment case-insensitively,
  a parameter any non-empty segment, a final optional parameter also nothing.
\<close>

fun segments_match :: "string list \<Rightarrow> string list \<Rightarrow> bool" where
  "segments_match [] [] = True"
| "segments_match [p] [] = is_optional_param p"
| "segments_match (p # ps) (s # ss) =
     ((if is_param p then s \<noteq> [] else ascii_lower p = ascii_lower s) \<and> segments_match ps ss)"
| "segments_match _ _ = False"

text \<open>The first route that handles a request, by its index in the table.\<close>

definition express_route :: "string \<Rightarrow> string \<Rightarrow> nat option" where
  "express_route meth path =
     (let i = findIndex (\<lambda>(m, pat). m = meth \<and> segments_match (path_segments pat) (path_segments path))
                express_routes
      in if i < 0 then None else Some (nat i))"

section \<open>MCP routes\<close>

datatype route_reply =
    Reply_Json json
  | Reply_Servers "string option list" bool "(string option \<times> server_status) list"
  | Reply_Ping string health
  | Reply_AllHealth "(string option \<times> health) list"
  | Reply_List string "string list" \<comment> \<open>\<open>{tools}\<close>, \<open>{resources}\<close> or \<open>{prompts}\<close>\<close>
  | Reply_Fetch fetch_result
  | Reply_Session session
  | Reply_Batch "batch_item list"
  | Reply_Tool tool_call_result

record route_answer =
  ra_status :: nat
  ra_reply :: route_reply

definition ok_reply :: "route_reply \<Rightarrow> route_answer" where
  "ok_reply r = \<lparr>ra_status = 200, ra_reply = r\<rparr>"

definition error_reply :: "nat \<Rightarrow> string \<Rightarrow> route_answer" where
  "error_reply st e = \<lparr>ra_status = st, ra_reply = Reply_Json (JObj [(''error'', JStr e)])\<rparr>"

text \<open>A request to one of the routes after \<open>/status/:jobId\<close>, with its inputs.\<close>

datatype route_req =
    Get_Servers
  | Get_Health "string option" timestamp
  | Get_Tools "string option"
  | Get_Resources "string option"
  | Get_Resource string "string option"
  | Get_Prompts "string option"
  | Post_Prompt string "string option" "json option" \<comment> \<open>name, \<open>?serverName\<close>, \<open>req.body\<close>\<close>
  | Post_Session "json option" timestamp \<comment> \<open>\<open>req.body\<close>, clock\<close>
  | Get_Session string
  | Post_Batch "json option" "batch_call list option" "string option" timestamp
  | Post_Tool string "string option" "string option" "json option" timestamp
  | Get_Health_Check string \<comment> \<open>\<open>/health\<close> with the ISO clock\<close>
  | Sigint

text \<open>\<open>const { args = {} } = req.body\<close>: the arguments, or the \<open>TypeError\<close> of a missing body.\<close>

definition body_args :: "json option \<Rightarrow> string + (string \<times> json) list" where
  "body_args body =
     (case js_access body ''args'' of
        Throws e \<Rightarrow> Inl e
      | Returns None \<Rightarrow> Inr []
      | Returns (Some (JObj kvs)) \<Rightarrow> Inr kvs
      | Returns (Some v) \<Rightarrow> Inr [])"

definition fetch_answer :: "string + fetch_result \<Rightarrow> route_answer" where
  "fetch_answer r = (case r of Inl e \<Rightarrow> error_reply 500 e | Inr f \<Rightarrow> ok_reply (Reply_Fetch f))"

text \<open>One MCP route: the server afterwards and the answer. \<open>penv\<close> is \<open>process.env\<close>.\<close>

fun mcp_route :: "agent_api \<Rightarrow> (string \<times> string) list \<Rightarrow> server \<Rightarrow> route_req \<Rightarrow> server \<times> route_answer" where
  "mcp_route api penv s Get_Servers =
     (s, ok_reply (Reply_Servers (getConnectedServers (mcp s)) (connected (mcp s)) (getServerStatus (mcp s))))"
| "mcp_route api penv s (Get_Health nm now) =
     (case nm of
        Some n \<Rightarrow> if n = [] then (s, ok_reply (Reply_AllHealth (getServerHealth (mcp s) None)))
                  else (let (h, c') = pingServer (mcp s) api n now in (s\<lparr>mcp := c'\<rparr>, ok_reply (Reply_Ping n h)))
      | None \<Rightarrow> (s, ok_reply (Reply_AllHealth (getServerHealth (mcp s) None))))"
| "mcp_route api penv s (Get_Tools nm) = (s, ok_reply (Reply_List ''tools'' (getAvailableTools (mcp s) api nm)))"
| "mcp_route api penv s (Get_Resources nm) =
     (s, ok_reply (Reply_List ''resources'' (getAvailableResources (mcp s) api nm)))"
| "mcp_route api penv s (Get_Resource uri nm) = (s, fetch_answer (getResource (mcp s) api uri nm))"
| "mcp_route api penv s (Get_Prompts nm) = (s, ok_reply (Reply_List ''prompts'' (getAvailablePrompts (mcp s) api nm)))"
| "mcp_route api penv s (Post_Prompt p nm body) =
     (case body_args body of
        Inl e \<Rightarrow> (s, error_reply 500 e)
      | Inr args \<Rightarrow> (s, fetch_answer (getPrompt (mcp s) api p args nm)))"
| "mcp_route api penv s (Post_Session body now) =
     (case js_access body ''sessionId'' of
        Throws e \<Rightarrow> (s, error_reply 500 e)
      | Returns sid \<Rightarrow>
          (let key = (if js_truthy sid then js_to_string sid else ''session_'' @ string_of_nat now);
               ctx = (case json_get (the body) ''context'' of None \<Rightarrow> JObj [] | Some v \<Rightarrow> v);
               (sess, c') = createSession (mcp s) key ctx now
           in (s\<lparr>mcp := c'\<rparr>, ok_reply (Reply_Session sess))))"
| "mcp_route api penv s (Get_Session sid) =
     (case getSession (mcp s) sid of
        None \<Rightarrow> (s, error_reply 404 ''Session not found'')
      | Some sess \<Rightarrow> (s, ok_reply (Reply_Session sess)))"
| "mcp_route api penv s (Post_Batch body calls sid now) =
     (case js_access body ''calls'' of
        Throws e \<Rightarrow> (s, error_reply 500 e)
      | Returns _ \<Rightarrow>
          (case calls of
             None \<Rightarrow> (s, error_reply 500 ''calls is not iterable'')
           | Some bs \<Rightarrow> (let (items, c') = batchToolCalls (mcp s) api bs sid now
                         in (s\<lparr>mcp := c'\<rparr>, ok_reply (Reply_Batch items)))))"
| "mcp_route api penv s (Post_Tool tool nm sid body now) =
     (case body_args body of
        Inl e \<Rightarrow> (s, error_reply 500 e)
      | Inr args \<Rightarrow>
          (if js_truthy_str sid
           then (case callToolWithSession (mcp s) api tool args (the sid) nm now of
                   Inl e \<Rightarrow> (s, error_reply 500 e)
                 | Inr (r, c') \<Rightarrow> (s\<lparr>mcp := c'\<rparr>, ok_reply (Reply_Tool r)))
           else (case callTool (mcp s) api tool args nm of
                   Inl e \<Rightarrow> (s, error_reply 500 e)
                 | Inr r \<Rightarrow> (s, ok_reply (Reply_Tool r)))))"
| "mcp_route api penv s (Get_Health_Check now) =
     (s, ok_reply (Reply_Json (JObj [(''status'', JStr ''healthy''), (''timestamp'', JStr now),
        (''version'', JStr ''1.0.0''), (''environment'', JStr (js_or_str (map_of penv ''NODE_ENV'') ''development'')),
        (''mcp_connected'', JBool (connected (mcp s))),
        (''connected_servers'', JArr (map (\<lambda>n. case n of None \<Rightarrow> JNull | Some x \<Rightarrow> JStr x)
                                          (getConnectedServers (mcp s))))])))"
| "mcp_route api penv s Sigint = (s\<lparr>mcp := disconnect (mcp s)\<rparr>, ok_reply (Reply_Json JNull))"

text \<open>The whole server: the events of \<open>Job_Server\<close> and the MCP routes, interleaved.\<close>

datatype full_event = Core server_event | Route route_req

fun full_step :: "agent_api \<Rightarrow> (string \<times> string) list \<Rightarrow> server_config list \<Rightarrow> server \<Rightarrow> full_event \<Rightarrow> server" where
  "full_step api penv cfgs s (Core e) = fst (server_step api penv cfgs s e)"
| "full_step api penv cfgs s (Route r) = fst (mcp_route api penv s r)"

inductive reach_full :: "agent_api \<Rightarrow> (string \<times> string) list \<Rightarrow> server_config list \<Rightarrow> server \<Rightarrow> bool"
  for api penv cfgs where
  full_init: "reach_full api penv cfgs init_server"
| full_step: "reach_full api penv cfgs s \<Longrightarrow> reach_full api penv cfgs (full_step api penv cfgs s e)"


section \<open>Properties of the routes\<close>

text \<open>
  Every route changes at most the MCP client of the server, and changes it by one of
  the client's own operations: so the job invariant of \<open>Job_Server\<close> and the client
  invariant of \<open>MCP_Client\<close> hold together in every state the server reaches under
  any interleaving of core events and route requests.
\<close>

lemma mcp_route_fields:
  "heap (fst (mcp_route api penv s r)) = heap s \<and> tasks (fst (mcp_route api penv s r)) = tasks s \<and>
   transcriptionJobs (fst (mcp_route api penv s r)) = transcriptionJobs s"
  by (cases r) (auto simp: Let_def split: option.splits outcome.splits sum.splits prod.splits)

lemma client_wf_ops:
  assumes "client_wf c"
  shows "client_wf (snd (createSession c k x n))" "client_wf (snd (pingServer c api nm n))"
    "client_wf (snd (batchToolCalls c api bs sid n))" "client_wf (disconnect c)"
    "client_wf (fst (connect c api penv n ctor cfgs))"
    "callToolWithSession c api t a sd sv n = Inr p \<Longrightarrow> client_wf (snd p)"
  using client_step_wf [OF assms, of api "Op_CreateSession k x n"] client_step_wf [OF assms, of api "Op_Ping nm n"]
    client_step_wf [OF assms, of api "Op_Batch bs sid n"] client_step_wf [OF assms, of api Op_Disconnect]
    client_step_wf [OF assms, of api "Op_Connect penv n ctor cfgs"]
    client_step_wf [OF assms, of api "Op_CallToolWithSession t a sd sv n"]
  by (simp_all split: prod.splits)

lemma mcp_route_wf: "client_wf (mcp s) \<Longrightarrow> client_wf (mcp (fst (mcp_route api penv s r)))"
  by (cases r) (simp_all add: Let_def split_def client_wf_ops split: option.splits outcome.splits sum.splits)

lemma mcp_resume: "mcp (resume s i out) = mcp s"
  by (auto simp: resume_def task_update_def Let_def split: task_pc.splits prod.splits)

lemma mcp_upload_handler: "mcp (fst (upload_handler s limit f tf tj)) = mcp s"
  by (auto simp: upload_handler_def process_start_def Let_def split: sum.splits option.splits)

lemma mcp_initializeMCP: "client_wf (mcp s) \<Longrightarrow> client_wf (mcp (initializeMCP api penv cfgs s now ctor))"
  by (simp add: initializeMCP_def Let_def client_wf_ops)

lemma server_step_wf: "client_wf (mcp s) \<Longrightarrow> client_wf (mcp (fst (server_step api penv cfgs s e)))"
  by (cases e) (simp_all add: mcp_initializeMCP mcp_resume mcp_upload_handler)

lemma server_inv_route: "server_inv s \<Longrightarrow> server_inv (fst (mcp_route api penv s r))"
  using mcp_route_fields [of api penv s r] by (simp add: server_inv_def)

lemma connected_createSession: "connected (snd (createSession c k x n)) = connected c"
  by (simp add: createSession_def Let_def)

lemma connected_pingServer: "connected (snd (pingServer c api nm n)) = connected c"
  by (simp add: pingServer_def Let_def split: outcome.splits)

lemma connected_callToolWithSession:
  "callToolWithSession c api t a sd sv n = Inr p \<Longrightarrow> connected (snd p) = connected c"
  by (auto simp: callToolWithSession_def updateSession_def Let_def split: option.splits sum.splits)

lemma connected_callToolWithSession_pair:
  "callToolWithSession c api t a sd sv n = Inr (r, c') \<Longrightarrow> connected c' = connected c"
  using connected_callToolWithSession [of c api t a sd sv n "(r, c')"] by simp

lemma connected_disconnect: "connected (disconnect c) = (connected c \<and> \<not> agent c)"
  by (auto simp: disconnect_def)

lemma batchToolCalls_connected: "connected (snd (batchToolCalls c api bs sid now)) = connected c"
proof (induction bs arbitrary: c)
  case Nil
  then show ?case by simp
next
  case (Cons b bs)
  show ?case
    by (simp add: Let_def split_def Cons.IH connected_callToolWithSession split: sum.split)
qed

lemma mcp_route_connected:
  "connected (mcp (fst (mcp_route api penv s r))) \<Longrightarrow> connected (mcp s)"
  by (cases r) (auto simp: Let_def split_def connected_createSession connected_pingServer
      connected_callToolWithSession_pair batchToolCalls_connected connected_disconnect
      split: option.splits outcome.splits sum.splits if_splits)

lemma callTool_disconnected: "\<not> connected c \<Longrightarrow> callTool c api t a sv = Inl not_connected_msg"
  by (simp add: callTool_def client_guard_def)

text \<open>In every state reached by any interleaving of uploads, status queries,
  resumptions of the processing tasks, WebSocket events and MCP route requests, the
  job heap, task list and job index agree (the job-server invariant) and the MCP
  client's Maps are keyed uniquely with connection implying an agent.\<close>

theorem reach_full_inv: "reach_full api penv cfgs s \<Longrightarrow> server_inv s \<and> client_wf (mcp s)"
proof (induction rule: reach_full.induct)
  case full_init
  then show ?case using init_inv by (simp add: init_server_def client_wf_def new_client_def)
next
  case (full_step s e)
  then show ?case
    by (cases e) (simp_all add: server_step_inv server_step_wf server_inv_route mcp_route_wf)
qed

lemma reach_full_inv_witness:
  "reach_full echo_agent [] [] (full_step echo_agent [] [] init_server
      (Route (Post_Session (Some (JObj [(''sessionId'', JStr ''s1'')])) 1))) \<and>
   server_inv (full_step echo_agent [] [] init_server (Route (Post_Session (Some (JObj [(''sessionId'', JStr ''s1'')])) 1))) \<and>
   client_wf (mcp (full_step echo_agent [] [] init_server (Route (Post_Session (Some (JObj [(''sessionId'', JStr ''s1'')])) 1))))"
proof -
  have r: "reach_full echo_agent [] [] (full_step echo_agent [] [] init_server
      (Route (Post_Session (Some (JObj [(''sessionId'', JStr ''s1'')])) 1)))"
    by (rule reach_full.full_step [OF full_init])
  show ?thesis using reach_full_inv [OF r] r by simp
qed

end
