(* ===== verification/Web_Client.thy ===== *)
theory Web_Client
  imports Prelude
begin

text \<open>
  The legacy browser client \<open>src/public/script.js\<close>, class \<open>ZeoClient\<close>. Its fields are
  the record \<open>zeo_client\<close>; the elements it writes are the record \<open>dom_view\<close>. Every
  \<open>await\<close>, timer and GSAP \<open>onComplete\<close> callback is a pending continuation
  (\<open>cont\<close>) in the list \<open>pending\<close>; the browser settles any of them at any time
  with an outcome (\<open>E_Resolve\<close>), and the user and the WebSocket produce the other
  events. \<open>client_event_step\<close> is one event, \<open>client_events\<close> a sequence, and
  \<open>wreach\<close> the states a page reaches.
\<close>

section \<open>State\<close>

datatype sender = User | Bot

record dom_view =
  uploadSection_hidden :: bool
  processingSection_hidden :: bool
  resultsSection_hidden :: bool
  progressFill_width :: string
  progressText :: string
  statusBadge :: string
  transcriptionContent :: string
  audioFile_value :: string
  recordBtn_recording :: bool
  chatPanel_hidden :: bool
  chatOverlay_hidden :: bool
  chatToggle_display :: string
  chatMessages :: "(string \<times> sender) list"
  chatInput :: string
  chatTyping_hidden :: bool
  splash_hidden :: bool
  authModal_hidden :: bool
  entraStatus_hidden :: bool
  loginButton_loading :: bool
  loginInfo_hidden :: bool
  userName :: string
  userEmail :: string
  userTenant :: string
  userAvatar :: string
  authError :: "string option"
  mainApp_visible :: bool
  alerts :: "string list"

text \<open>The GSAP tweens whose \<open>onComplete\<close> changes the page.\<close>

datatype anim = A_ShowProcessing | A_ShowResults string | A_Reset | A_HideSplash

text \<open>What each pending continuation resumes.\<close>

datatype cont =
    K_Redirect \<comment> \<open>\<open>handleRedirectPromise().then\<close> (\<open>initializeMSAL\<close>)\<close>
  | K_Splash \<comment> \<open>\<open>await this.animateSplashScreen()\<close>\<close>
  | K_Media \<comment> \<open>\<open>await navigator.mediaDevices.getUserMedia\<close> (\<open>startRecording\<close>)\<close>
  | K_RecorderStop \<comment> \<open>\<open>mediaRecorder.onstop\<close> after \<open>stop()\<close>\<close>
  | K_Upload \<comment> \<open>\<open>await fetch('/api/upload')\<close> and \<open>response.json()\<close>\<close>
  | K_Poll \<comment> \<open>\<open>await fetch(`/api/status/...`)\<close> inside an interval tick\<close>
  | K_Chat \<comment> \<open>\<open>await fetch('/api/chat')\<close> (\<open>sendMessage\<close>)\<close>
  | K_Anim anim
  | K_Reconnect \<comment> \<open>\<open>setTimeout(() => this.connectWebSocket(), 3000)\<close>\<close>
  | K_Login \<comment> \<open>\<open>await this.msalInstance.loginPopup\<close>\<close>
  | K_UserInfo "json option" \<comment> \<open>\<open>await this.getUserInfo(account)\<close>, then \<open>authenticateUser\<close>\<close>
  | K_ErrorTimeout \<comment> \<open>the 5 s timer of \<open>showAuthError\<close>\<close>

datatype ws_state = WS_None | WS_Open | WS_Closed

record zeo_client =
  isVercel :: bool \<comment> \<open>\<open>window.location.hostname.includes('vercel.app')\<close>\<close>
  started :: bool \<comment> \<open>\<open>initializeElements\<close> and \<open>setupEventListeners\<close> have run\<close>
  isRecording :: bool
  mediaRecorder :: "nat option" \<comment> \<open>the recorder \<open>this.mediaRecorder\<close> holds\<close>
  recorders_on :: "nat list" \<comment> \<open>recorders started and not stopped (microphone in use)\<close>
  next_recorder :: nat
  recordedChunks :: "nat list"
  ws :: ws_state
  usePolling :: bool
  currentJobId :: "json option" \<comment> \<open>\<open>null\<close> is \<open>Some JNull\<close>, \<open>None\<close> is \<open>undefined\<close>\<close>
  pollingInterval :: "nat option"
  intervals :: "nat list" \<comment> \<open>active \<open>setInterval\<close> timers\<close>
  next_timer :: nat
  pending :: "cont list"
  requests :: "(string \<times> json) list" \<comment> \<open>path and body of every \<open>fetch\<close>, in order\<close>
  zeo_user :: "string option" \<comment> \<open>\<open>sessionStorage['zeo_user']\<close>\<close>
  dom :: dom_view

text \<open>The page as \<open>index.html\<close> loads it: upload section shown, the others hidden.\<close>

definition initial_dom :: dom_view where
  "initial_dom =
     \<lparr>uploadSection_hidden = False, processingSection_hidden = True, resultsSection_hidden = True,
      progressFill_width = [], progressText = [], statusBadge = [], transcriptionContent = [],
      audioFile_value = [], recordBtn_recording = False, chatPanel_hidden = True,
      chatOverlay_hidden = True, chatToggle_display = [], chatMessages = [], chatInput = [],
      chatTyping_hidden = True, splash_hidden = False, authModal_hidden = True,
      entraStatus_hidden = True, loginButton_loading = False, loginInfo_hidden = True,
      userName = [], userEmail = [], userTenant = [], userAvatar = [], authError = None,
      mainApp_visible = False, alerts = []\<rparr>"

text \<open>
  \<open>new ZeoClient()\<close>: the constructor's fields, \<open>initializeMSAL\<close> leaves the redirect
  promise pending, \<open>initializeSplashScreen\<close> waits for the splash animation.
\<close>

definition new_zeo_client :: "bool \<Rightarrow> zeo_client" where
  "new_zeo_client vercel =
     \<lparr>isVercel = vercel, started = False, isRecording = False, mediaRecorder = None,
      recorders_on = [], next_recorder = 0, recordedChunks = [], ws = WS_None, usePolling = False,
      currentJobId = Some JNull, pollingInterval = None, intervals = [], next_timer = 1,
      pending = [K_Redirect, K_Splash], requests = [], zeo_user = None, dom = initial_dom\<rparr>"

definition upd_dom :: "(dom_view \<Rightarrow> dom_view) \<Rightarrow> zeo_client \<Rightarrow> zeo_client" where
  "upd_dom f c = c\<lparr>dom := f (dom c)\<rparr>"

definition schedule :: "cont \<Rightarrow> zeo_client \<Rightarrow> zeo_client" where
  "schedule k c = c\<lparr>pending := pending c @ [k]\<rparr>"

definition fetch :: "string \<Rightarrow> json \<Rightarrow> cont \<Rightarrow> zeo_client \<Rightarrow> zeo_client" where
  "fetch path body k c = schedule k (c\<lparr>requests := requests c @ [(path, body)]\<rparr>)"

section \<open>Transport selection and polling\<close>

definition connectWebSocket :: "zeo_client \<Rightarrow> zeo_client" where
  "connectWebSocket c =
     (if isVercel c then c\<lparr>ws := WS_None, usePolling := True\<rparr> else c\<lparr>ws := WS_Open\<rparr>)"

text \<open>\<open>clearInterval(this.pollingInterval)\<close>: the timer the field names, whichever ticked.\<close>

definition clear_polling :: "zeo_client \<Rightarrow> zeo_client" where
  "clear_polling c =
     (case pollingInterval c of None \<Rightarrow> c | Some k \<Rightarrow> c\<lparr>intervals := removeAll k (intervals c)\<rparr>)"

definition startPolling :: "zeo_client \<Rightarrow> zeo_client" where
  "startPolling c =
     c\<lparr>pollingInterval := Some (next_timer c), intervals := intervals c @ [next_timer c],
       next_timer := Suc (next_timer c)\<rparr>"

definition stopPolling :: "zeo_client \<Rightarrow> zeo_client" where
  "stopPolling c = (case pollingInterval c of None \<Rightarrow> c | Some k \<Rightarrow> (clear_polling c)\<lparr>pollingInterval := None\<rparr>)"

text \<open>One tick of interval \<open>k\<close>.\<close>

definition poll_tick :: "nat \<Rightarrow> zeo_client \<Rightarrow> zeo_client" where
  "poll_tick k c =
     (if k \<notin> set (intervals c) then c
      else if \<not> js_truthy (currentJobId c) then clear_polling c
      else fetch (''/api/status/'' @ js_to_string (currentJobId c)) JNull K_Poll c)"

section \<open>Progress and sections\<close>

text \<open>
  \<open>Math.round(v)\<close> as printed by the template literal, for the values a progress field
  holds: numbers (halves round up, as \<open>Math.round\<close> does), \<open>null\<close>, booleans,
  \<open>undefined\<close>, and strings of decimal digits; any other string is taken as \<open>NaN\<close>.
\<close>

fun js_round_text :: "json option \<Rightarrow> string" where
  "js_round_text (Some (JNum n)) = string_of_int n"
| "js_round_text (Some (JDec m e)) = string_of_int ((2 * m + 10 ^ e) div (2 * 10 ^ e))"
| "js_round_text (Some JNull) = ''0''"
| "js_round_text (Some (JBool b)) = (if b then ''1'' else ''0'')"
| "js_round_text (Some (JStr s)) =
     (if s = [] then ''0'' else if list_all is_digit s then string_of_nat (nat_of_digits s) else ''NaN'')"
| "js_round_text _ = ''NaN''"

definition showResults :: "string \<Rightarrow> zeo_client \<Rightarrow> zeo_client" where
  "showResults t c = schedule (K_Anim (A_ShowResults t)) c"

definition updateProgress :: "json option \<Rightarrow> json option \<Rightarrow> json option \<Rightarrow> zeo_client \<Rightarrow> zeo_client" where
  "updateProgress progress status transcription c =
     (let c1 = upd_dom (\<lambda>d. d\<lparr>progressFill_width := js_to_string progress @ ''%'',
                              progressText := js_round_text progress @ ''%''\<rparr>) c
      in if status = Some (JStr ''completed'') \<and> js_truthy transcription
         then showResults (text_content transcription) c1
         else if status = Some (JStr ''processing'')
         then upd_dom (\<lambda>d. d\<lparr>statusBadge := ''Processando...''\<rparr>) c1
         else c1)"

definition showProcessingSection :: "zeo_client \<Rightarrow> zeo_client" where
  "showProcessingSection c =
     updateProgress (Some (JNum 0)) (Some (JStr ''processing'')) None (schedule (K_Anim A_ShowProcessing) c)"

text \<open>The \<open>onComplete\<close> callbacks.\<close>

fun anim_done :: "anim \<Rightarrow> dom_view \<Rightarrow> dom_view" where
  "anim_done A_ShowProcessing d =
     d\<lparr>uploadSection_hidden := True, resultsSection_hidden := True, processingSection_hidden := False\<rparr>"
| "anim_done (A_ShowResults t) d =
     d\<lparr>processingSection_hidden := True, resultsSection_hidden := False, transcriptionContent := t\<rparr>"
| "anim_done A_Reset d =
     d\<lparr>processingSection_hidden := True, resultsSection_hidden := True, uploadSection_hidden := False\<rparr>"
| "anim_done A_HideSplash d = d\<lparr>splash_hidden := True, authModal_hidden := False\<rparr>"

section \<open>Recording and upload\<close>

definition stopRecording :: "zeo_client \<Rightarrow> zeo_client" where
  "stopRecording c =
     (case mediaRecorder c of
        Some r \<Rightarrow> if isRecording c
                  then upd_dom (\<lambda>d. d\<lparr>recordBtn_recording := False\<rparr>)
                         (schedule K_RecorderStop (c\<lparr>recorders_on := removeAll r (recorders_on c),
                                                      isRecording := False\<rparr>))
                  else c
      | None \<Rightarrow> c)"

definition startRecording :: "zeo_client \<Rightarrow> zeo_client" where
  "startRecording c = schedule K_Media c"

definition toggleRecording :: "zeo_client \<Rightarrow> zeo_client" where
  "toggleRecording c = (if \<not> isRecording c then startRecording c else stopRecording c)"

text \<open>After \<open>getUserMedia\<close> granted the stream: a new recorder, started.\<close>

definition recording_started :: "zeo_client \<Rightarrow> zeo_client" where
  "recording_started c =
     upd_dom (\<lambda>d. d\<lparr>recordBtn_recording := True\<rparr>)
       (c\<lparr>mediaRecorder := Some (next_recorder c), recorders_on := recorders_on c @ [next_recorder c],
          next_recorder := Suc (next_recorder c), recordedChunks := [], isRecording := True\<rparr>)"

text \<open>\<open>uploadAudio(blob, filename)\<close> up to its \<open>await\<close>; the form's field \<open>audio\<close> is recorded by its file name.\<close>

definition uploadAudio :: "string \<Rightarrow> zeo_client \<Rightarrow> zeo_client" where
  "uploadAudio filename c =
     fetch ''/api/upload'' (JObj [(''audio'', JStr filename)]) K_Upload (showProcessingSection c)"

definition handleFileUpload :: "string option \<Rightarrow> zeo_client \<Rightarrow> zeo_client" where
  "handleFileUpload f c = (case f of None \<Rightarrow> c | Some nm \<Rightarrow> uploadAudio nm c)"

definition resetToUpload :: "zeo_client \<Rightarrow> zeo_client" where
  "resetToUpload c =
     (let c1 = upd_dom (\<lambda>d. d\<lparr>audioFile_value := []\<rparr>)
                 ((schedule (K_Anim A_Reset) c)\<lparr>currentJobId := Some JNull\<rparr>)
      in if isRecording c1 then stopRecording c1 else c1)"

text \<open>
  The \<open>try\<close>/\<open>catch\<close> of \<open>uploadAudio\<close> once the response settled: a truthy
  \<open>jobId\<close> becomes the current job; anything else (a throw, no \<open>jobId\<close>) alerts and
  resets.
\<close>

definition upload_failed :: "zeo_client \<Rightarrow> zeo_client" where
  "upload_failed c =
     resetToUpload (upd_dom (\<lambda>d. d\<lparr>alerts := alerts d @ [''Erro ao fazer upload do '' @ [CHR 0xC3, CHR 0xA1] @ ''udio'']\<rparr>) c)"

definition upload_result :: "json outcome \<Rightarrow> zeo_client \<Rightarrow> zeo_client" where
  "upload_result out c =
     (case out of
        Throws e \<Rightarrow> upload_failed c
      | Returns result \<Rightarrow>
          (case js_access (Some result) ''jobId'' of
             Throws e \<Rightarrow> upload_failed c
           | Returns jid \<Rightarrow> if js_truthy jid then c\<lparr>currentJobId := jid\<rparr> else upload_failed c))"

text \<open>Then polling starts if the transport is polling and a job is current.\<close>

definition upload_settled :: "json outcome \<Rightarrow> zeo_client \<Rightarrow> zeo_client" where
  "upload_settled out c =
     (let c1 = upload_result out c in
      if usePolling c1 \<and> js_truthy (currentJobId c1) then startPolling c1 else c1)"

definition recorder_stopped :: "json outcome \<Rightarrow> zeo_client \<Rightarrow> zeo_client" where
  "recorder_stopped out c =
     (let c1 = (case out of
                  Returns (JNum n) \<Rightarrow> if 0 < n then c\<lparr>recordedChunks := recordedChunks c @ [nat n]\<rparr> else c
                | _ \<Rightarrow> c)
      in uploadAudio ''gravacao.wav'' c1)"

definition mic_alert :: string where
  "mic_alert = ''Erro ao acessar o microfone. Verifique as permiss'' @ [CHR 0xC3, CHR 0xB5] @ ''es.''"

section \<open>WebSocket\<close>

text \<open>
  \<open>a === b\<close> on values of \<open>JSON.parse\<close>: primitives compare by value, objects and
  arrays by identity, so two separately parsed ones are never equal.
\<close>

fun js_strict_eq :: "json option \<Rightarrow> json option \<Rightarrow> bool" where
  "js_strict_eq None None = True"
| "js_strict_eq (Some (JArr xs)) b = False"
| "js_strict_eq (Some (JObj kvs)) b = False"
| "js_strict_eq (Some a) (Some b) = (a = b)"
| "js_strict_eq a b = False"

definition ws_onmessage :: "json \<Rightarrow> zeo_client \<Rightarrow> zeo_client" where
  "ws_onmessage data c =
     (case js_access (Some data) ''type'' of
        Throws e \<Rightarrow> c
      | Returns ty \<Rightarrow>
          if js_strict_eq ty (Some (JStr ''progress'')) \<and> js_strict_eq (json_get data ''jobId'') (currentJobId c)
          then updateProgress (json_get data ''progress'') (json_get data ''status'')
                 (json_get data ''transcription'') c
          else c)"

definition ws_onclose :: "zeo_client \<Rightarrow> zeo_client" where
  "ws_onclose c = schedule K_Reconnect (c\<lparr>ws := WS_Closed\<rparr>)"

text \<open>The rest of a tick once its \<open>fetch\<close> settled: whatever job is current now.\<close>

definition poll_settled :: "json outcome \<Rightarrow> zeo_client \<Rightarrow> zeo_client" where
  "poll_settled out c =
     (case out of
        Throws e \<Rightarrow> c
      | Returns job \<Rightarrow>
          (case js_access (Some job) ''progress'' of
             Throws e \<Rightarrow> c
           | Returns p \<Rightarrow>
               (let st = json_get job ''status'';
                    c1 = updateProgress p st (json_get job ''transcription'') c
                in if st = Some (JStr ''completed'') \<or> st = Some (JStr ''error'') then clear_polling c1 else c1)))"

text \<open>
  \<open>exportTranscription\<close>: the file downloaded, named from the ISO clock string, with the
  text of the transcription element. It changes no field of the client.
\<close>

definition exportTranscription :: "string \<Rightarrow> zeo_client \<Rightarrow> string \<times> string" where
  "exportTranscription iso_now c = (''transcricao-'' @ take 10 iso_now @ ''.txt'', transcriptionContent (dom c))"

section \<open>Chat\<close>

definition addMessage :: "string \<Rightarrow> sender \<Rightarrow> zeo_client \<Rightarrow> zeo_client" where
  "addMessage content sndr c = upd_dom (\<lambda>d. d\<lparr>chatMessages := chatMessages d @ [(content, sndr)]\<rparr>) c"

text \<open>The markup \<open>addMessage\<close> assigns to \<open>innerHTML\<close>, \<open>time\<close> the formatted clock.\<close>

definition message_html :: "string \<Rightarrow> sender \<Rightarrow> string \<Rightarrow> string" where
  "message_html content sndr time =
     ''<div class=\"message-avatar\"><i data-lucide=\"'' @ (if sndr = User then ''user'' else ''bot'') @
     ''\" class=\"avatar-icon\"></i></div><div class=\"message-content\"><p>'' @ content @
     ''</p><span class=\"message-time\">'' @ time @ ''</span></div>''"

definition getConversationContext :: "zeo_client \<Rightarrow> json" where
  "getConversationContext c =
     (let t = transcriptionContent (dom c) in if t \<noteq> [] then JObj [(''transcription'', JStr t)] else JNull)"

definition sendMessage :: "zeo_client \<Rightarrow> zeo_client" where
  "sendMessage c =
     (let message = js_trim (chatInput (dom c)) in
      if message = [] then c
      else (let c1 = upd_dom (\<lambda>d. d\<lparr>chatInput := [], chatTyping_hidden := False\<rparr>) (addMessage message User c)
            in fetch ''/api/chat'' (JObj [(''message'', JStr message), (''context'', getConversationContext c1)])
                 K_Chat c1))"

definition chat_sorry_msg :: string where
  "chat_sorry_msg = ''Desculpe, ocorreu um erro. Tente novamente.''"

definition chat_conn_msg :: string where
  "chat_conn_msg = ''Erro de conex'' @ [CHR 0xC3, CHR 0xA3] @ ''o. Verifique sua internet.''"

definition chat_settled :: "json outcome \<Rightarrow> zeo_client \<Rightarrow> zeo_client" where
  "chat_settled out c =
     (let c1 = upd_dom (\<lambda>d. d\<lparr>chatTyping_hidden := True\<rparr>) c in
      case out of
        Throws e \<Rightarrow> addMessage chat_conn_msg Bot c1
      | Returns result \<Rightarrow>
          (case js_access (Some result) ''success'' of
             Throws e \<Rightarrow> addMessage chat_conn_msg Bot c1
           | Returns sc \<Rightarrow>
               if js_truthy sc then addMessage (js_to_string (json_get result ''response'')) Bot c1
               else addMessage chat_sorry_msg Bot c1))"

definition openChat :: "zeo_client \<Rightarrow> zeo_client" where
  "openChat c = upd_dom (\<lambda>d. d\<lparr>chatPanel_hidden := False, chatOverlay_hidden := False, chatToggle_display := ''none''\<rparr>) c"

definition closeChat :: "zeo_client \<Rightarrow> zeo_client" where
  "closeChat c =
     stopPolling (upd_dom (\<lambda>d. d\<lparr>chatPanel_hidden := True, chatOverlay_hidden := True, chatToggle_display := ''flex''\<rparr>) c)"

definition toggleChat :: "zeo_client \<Rightarrow> zeo_client" where
  "toggleChat c = (if chatPanel_hidden (dom c) then openChat c else closeChat c)"

section \<open>Authentication\<close>

definition setAuthLoading :: "bool \<Rightarrow> zeo_client \<Rightarrow> zeo_client" where
  "setAuthLoading b c = upd_dom (\<lambda>d. d\<lparr>loginButton_loading := b\<rparr>) c"

definition showAuthError :: "string \<Rightarrow> zeo_client \<Rightarrow> zeo_client" where
  "showAuthError msg c = schedule K_ErrorTimeout (upd_dom (\<lambda>d. d\<lparr>authError := Some msg\<rparr>) c)"

definition handleEntraLogin :: "zeo_client \<Rightarrow> zeo_client" where
  "handleEntraLogin c = schedule K_Login (upd_dom (\<lambda>d. d\<lparr>entraStatus_hidden := False\<rparr>) (setAuthLoading True c))"

text \<open>\<open>handleAuthResponse(response)\<close> up to its \<open>await this.getUserInfo(response.account)\<close>.\<close>

definition handleAuthResponse :: "json \<Rightarrow> zeo_client \<Rightarrow> zeo_client" where
  "handleAuthResponse response c =
     (if js_truthy (Some response) then schedule (K_UserInfo (json_get response ''account'')) c else c)"

definition login_failed_msg :: string where
  "login_failed_msg = ''Falha na autentica'' @ [CHR 0xC3, CHR 0xA7, CHR 0xC3, CHR 0xA3] @ ''o Microsoft. Tente novamente.''"

definition login_settled :: "json outcome \<Rightarrow> zeo_client \<Rightarrow> zeo_client" where
  "login_settled out c =
     (case out of
        Returns response \<Rightarrow> handleAuthResponse response c
      | Throws e \<Rightarrow>
          showAuthError login_failed_msg (upd_dom (\<lambda>d. d\<lparr>entraStatus_hidden := True\<rparr>) (setAuthLoading False c)))"

text \<open>\<open>v || w\<close> where evaluating \<open>w\<close> may throw.\<close>

definition js_or :: "json option \<Rightarrow> json option outcome \<Rightarrow> json option outcome" where
  "js_or v w = (if js_truthy v then Returns v else w)"

text \<open>
  The initials of the avatar: the first character of each space-separated word of the
  display name, or the first two of the account name. Characters are bytes here, so the
  model is exact for ASCII names.
\<close>

definition avatar_initials :: "json option \<Rightarrow> json option \<Rightarrow> string outcome" where
  "avatar_initials dn account =
     (if js_truthy dn
      then (case dn of
              Some (JStr s) \<Rightarrow> Returns (take 2 (concat (map (take 1) (split_on CHR '' '' s))))
            | _ \<Rightarrow> Throws (type_error_msg ''split''))
      else (case js_access account ''name'' of
              Returns (Some (JStr s)) \<Rightarrow> Returns (take 2 s)
            | Returns _ \<Rightarrow> Throws (type_error_msg ''substring'')
            | Throws e \<Rightarrow> Throws e))"

text \<open>
  \<open>displayUserInfo(userInfo, account)\<close>: its assignments in order; a \<open>TypeError\<close>
  stops it after those already done. Before \<open>initializeElements\<close> the elements are
  \<open>undefined\<close> and the first assignment throws.
\<close>

definition displayUserInfo :: "json \<Rightarrow> json option \<Rightarrow> zeo_client \<Rightarrow> zeo_client" where
  "displayUserInfo u account c =
     (if \<not> started c then c else
      case js_access (Some u) ''displayName'' of
        Throws e \<Rightarrow> c
      | Returns dn \<Rightarrow>
          (case js_or dn (js_access account ''name'') of
             Throws e \<Rightarrow> c
           | Returns nm \<Rightarrow>
               (let c1 = upd_dom (\<lambda>d. d\<lparr>userName := text_content nm\<rparr>) c in
                case js_or (json_get u ''mail'') (js_access account ''username'') of
                  Throws e \<Rightarrow> c1
                | Returns em \<Rightarrow>
                    (let c2 = upd_dom (\<lambda>d. d\<lparr>userEmail := text_content em\<rparr>) c1 in
                     case js_access account ''tenantId'' of
                       Returns (Some (JStr tid)) \<Rightarrow>
                         (let c3 = upd_dom (\<lambda>d. d\<lparr>userTenant := ''Tenant: '' @ take 8 tid @ ''...''\<rparr>) c2 in
                          case avatar_initials dn account of
                            Throws e \<Rightarrow> c3
                          | Returns ini \<Rightarrow>
                              upd_dom (\<lambda>d. d\<lparr>userAvatar := js_upper ini, loginInfo_hidden := False,
                                               entraStatus_hidden := True\<rparr>) c3)
                     | _ \<Rightarrow> c2))))"

text \<open>
  \<open>authenticateUser(user)\<close>: store the user, hide the modal, and run the second
  definition of \<open>transitionToMainApp\<close> (the class body defines it twice; the later one
  replaces the earlier).
\<close>

definition transitionToMainApp :: "zeo_client \<Rightarrow> zeo_client" where
  "transitionToMainApp c = upd_dom (\<lambda>d. d\<lparr>mainApp_visible := True\<rparr>) c"

definition authenticateUser :: "json option \<Rightarrow> zeo_client \<Rightarrow> zeo_client" where
  "authenticateUser user c =
     (let c1 = c\<lparr>zeo_user := Some (case user of None \<Rightarrow> ''undefined'' | Some v \<Rightarrow> json_stringify v)\<rparr> in
      if \<not> started c1 then c1
      else transitionToMainApp (upd_dom (\<lambda>d. d\<lparr>authModal_hidden := True\<rparr>) c1))"

text \<open>After \<open>getUserInfo\<close>: the token and Graph calls settled with the user's details or threw.\<close>

definition userinfo_settled :: "json option \<Rightarrow> json outcome \<Rightarrow> zeo_client \<Rightarrow> zeo_client" where
  "userinfo_settled account out c =
     authenticateUser account (case out of Returns u \<Rightarrow> displayUserInfo u account c | Throws e \<Rightarrow> c)"

text \<open>
  The rest of \<open>initializeSplashScreen\<close> after the splash animation: elements and
  listeners, the transport, then \<open>showAuthModal\<close> with the accounts MSAL has cached.
\<close>

definition showAuthModal :: "json outcome \<Rightarrow> zeo_client \<Rightarrow> zeo_client" where
  "showAuthModal accounts c =
     (case accounts of
        Returns (JArr (a # as)) \<Rightarrow> schedule (K_UserInfo (Some a)) c
      | _ \<Rightarrow> schedule (K_Anim A_HideSplash) c)"

definition initializeSplashScreen :: "json outcome \<Rightarrow> zeo_client \<Rightarrow> zeo_client" where
  "initializeSplashScreen accounts c = showAuthModal accounts (connectWebSocket (c\<lparr>started := True\<rparr>))"

section \<open>Events\<close>

fun run_cont :: "cont \<Rightarrow> json outcome \<Rightarrow> zeo_client \<Rightarrow> zeo_client" where
  "run_cont K_Redirect out c = (case out of Returns r \<Rightarrow> handleAuthResponse r c | Throws e \<Rightarrow> c)"
| "run_cont K_Splash out c = initializeSplashScreen out c"
| "run_cont K_Media out c =
     (case out of
        Returns stream \<Rightarrow> recording_started c
      | Throws e \<Rightarrow> upd_dom (\<lambda>d. d\<lparr>alerts := alerts d @ [mic_alert]\<rparr>) c)"
| "run_cont K_RecorderStop out c = recorder_stopped out c"
| "run_cont K_Upload out c = upload_settled out c"
| "run_cont K_Poll out c = poll_settled out c"
| "run_cont K_Chat out c = chat_settled out c"
| "run_cont (K_Anim a) out c = upd_dom (anim_done a) c"
| "run_cont K_Reconnect out c = connectWebSocket c"
| "run_cont K_Login out c = login_settled out c"
| "run_cont (K_UserInfo account) out c = userinfo_settled account out c"
| "run_cont K_ErrorTimeout out c = upd_dom (\<lambda>d. d\<lparr>authError := None\<rparr>) c"

text \<open>The browser settles pending continuation \<open>i\<close>, removing it from the list.\<close>

definition resolve :: "nat \<Rightarrow> json outcome \<Rightarrow> zeo_client \<Rightarrow> zeo_client" where
  "resolve i out c =
     (if i < length (pending c)
      then run_cont (pending c ! i) out (c\<lparr>pending := take i (pending c) @ drop (Suc i) (pending c)\<rparr>)
      else c)"

text \<open>
  Events of the page. The listeners of \<open>setupEventListeners\<close> exist once
  \<open>started\<close>; the Enter key and the send button both call \<open>sendMessage\<close>, the close
  button and the overlay both call \<open>closeChat\<close>.
\<close>

datatype client_event =
    E_Resolve nat "json outcome"
  | E_ClickRecord | E_FileChosen "string option" | E_NewTranscription
  | E_ChatToggle | E_ChatClose | E_ChatSend | E_ChatType string | E_LoginClick
  | E_WsMessage json | E_WsClose | E_Tick nat

fun client_event_step :: "zeo_client \<Rightarrow> client_event \<Rightarrow> zeo_client" where
  "client_event_step c (E_Resolve i out) = resolve i out c"
| "client_event_step c E_ClickRecord = (if started c then toggleRecording c else c)"
| "client_event_step c (E_FileChosen f) = (if started c then handleFileUpload f c else c)"
| "client_event_step c E_NewTranscription = (if started c then resetToUpload c else c)"
| "client_event_step c E_ChatToggle = (if started c then toggleChat c else c)"
| "client_event_step c E_ChatClose = (if started c then closeChat c else c)"
| "client_event_step c E_ChatSend = (if started c then sendMessage c else c)"
| "client_event_step c (E_ChatType s) = upd_dom (\<lambda>d. d\<lparr>chatInput := s\<rparr>) c"
| "client_event_step c E_LoginClick = (if started c then handleEntraLogin c else c)"
| "client_event_step c (E_WsMessage m) = (if ws c = WS_Open then ws_onmessage m c else c)"
| "client_event_step c E_WsClose = (if ws c = WS_Open then ws_onclose c else c)"
| "client_event_step c (E_Tick k) = poll_tick k c"

fun client_events :: "zeo_client \<Rightarrow> client_event list \<Rightarrow> zeo_client" where
  "client_events c [] = c"
| "client_events c (e # es) = client_events (client_event_step c e) es"

inductive wreach :: "bool \<Rightarrow> zeo_client \<Rightarrow> bool" for vercel where
  wreach_init: "wreach vercel (new_zeo_client vercel)"
| wreach_step: "wreach vercel c \<Longrightarrow> wreach vercel (client_event_step c e)"

section \<open>Abstractions\<close>

text \<open>The interval timers and the recorders as handle pools, and the three sections.\<close>

definition timer_pool :: "zeo_client \<Rightarrow> pool" where
  "timer_pool c = (intervals c, pollingInterval c, next_timer c)"

definition recorder_pool :: "zeo_client \<Rightarrow> pool" where
  "recorder_pool c = (recorders_on c, mediaRecorder c, next_recorder c)"

definition sections :: "dom_view \<Rightarrow> bool \<times> bool \<times> bool" where
  "sections d = (uploadSection_hidden d, processingSection_hidden d, resultsSection_hidden d)"

definition sections_shown :: "dom_view \<Rightarrow> bool" where
  "sections_shown d \<longleftrightarrow> \<not> uploadSection_hidden d \<or> \<not> processingSection_hidden d \<or> \<not> resultsSection_hidden d"

definition client_ok :: "zeo_client \<Rightarrow> bool" where
  "client_ok c \<longleftrightarrow> pool_ok (timer_pool c) \<and> pool_ok (recorder_pool c) \<and> sections_shown (dom c)"

section \<open>Concrete runs\<close>

text \<open>
  Pages the examples below use. \<open>signed_in_events\<close>: the splash ends with no cached
  account, the splash fades, the user signs in with the popup, and the Graph call
  fails (the user is let in all the same).
\<close>

definition signed_in_events :: "client_event list" where
  "signed_in_events =
     [E_Resolve 1 (Returns (JArr [])), E_Resolve 1 (Returns JNull), E_LoginClick,
      E_Resolve 1 (Returns (JObj [(''account'', JObj [(''name'', JStr ''Ana'')])])),
      E_Resolve 1 (Throws ''graph unavailable'')]"

definition job1_upload :: "json outcome" where
  "job1_upload = Returns (JObj [(''jobId'', JStr ''job_1'')])"

text \<open>The answer of the Vercel status function (\<open>src/api/status/[jobId].js\<close>), shortened.\<close>

definition mock_status :: "json outcome" where
  "mock_status = Returns (JObj [(''id'', JStr ''job_1''), (''status'', JStr ''completed''),
     (''progress'', JNum 100), (''transcription'', JStr ''texto'')])"

text \<open>A local page (WebSocket transport) with job \<open>job_1\<close> uploaded.\<close>

definition local_state :: zeo_client where
  "local_state = client_events (new_zeo_client False)
     (signed_in_events @ [E_FileChosen (Some ''a.wav''), E_Resolve 2 job1_upload])"

text \<open>A Vercel page (polling transport) whose first tick for \<open>job_1\<close> is in flight.\<close>

definition vercel_poll_state :: zeo_client where
  "vercel_poll_state = client_events (new_zeo_client True)
     (signed_in_events @ [E_FileChosen (Some ''a.wav''), E_Resolve 2 job1_upload, E_Tick 1])"

text \<open>
  A Vercel page where a second file was chosen before the upload section faded out
  (0.5 s): both uploads answer, \<open>startPolling\<close> runs twice.
\<close>

definition leak_state :: zeo_client where
  "leak_state = client_events (new_zeo_client True)
     (signed_in_events @ [E_FileChosen (Some ''a.wav''), E_FileChosen (Some ''b.wav''),
      E_Resolve 2 job1_upload, E_Resolve 3 (Returns (JObj [(''jobId'', JStr ''job_2'')]))])"

text \<open>
  A Vercel page where two ticks fired before the first status answer: the first answer
  shows the results, the user starts a new transcription, then the late second answer
  arrives.
\<close>

definition stale_state :: zeo_client where
  "stale_state = client_events (new_zeo_client True)
     (signed_in_events @ [E_FileChosen (Some ''a.wav''), E_Resolve 2 job1_upload, E_Tick 1, E_Tick 1,
      E_Resolve 1 (Returns JNull), E_Resolve 1 mock_status, E_Resolve 2 (Returns JNull),
      E_NewTranscription, E_Resolve 2 (Returns JNull), E_Resolve 1 mock_status,
      E_Resolve 1 (Returns JNull)])"

text \<open>A local page where the record button was clicked twice before the permission prompt answered.\<close>

definition recorder_leak_state :: zeo_client where
  "recorder_leak_state = client_events (new_zeo_client False)
     (signed_in_events @ [E_ClickRecord, E_ClickRecord, E_Resolve 1 (Returns JNull),
      E_Resolve 1 (Returns JNull), E_ClickRecord])"

section \<open>Lemmas\<close>

lemmas web_basic = upd_dom_def schedule_def fetch_def

lemma updateProgress_fields [simp]:
  "isVercel (updateProgress p st t c) = isVercel c"
  "started (updateProgress p st t c) = started c"
  "isRecording (updateProgress p st t c) = isRecording c"
  "mediaRecorder (updateProgress p st t c) = mediaRecorder c"
  "recorders_on (updateProgress p st t c) = recorders_on c"
  "next_recorder (updateProgress p st t c) = next_recorder c"
  "recordedChunks (updateProgress p st t c) = recordedChunks c"
  "ws (updateProgress p st t c) = ws c"
  "usePolling (updateProgress p st t c) = usePolling c"
  "currentJobId (updateProgress p st t c) = currentJobId c"
  "pollingInterval (updateProgress p st t c) = pollingInterval c"
  "intervals (updateProgress p st t c) = intervals c"
  "next_timer (updateProgress p st t c) = next_timer c"
  "requests (updateProgress p st t c) = requests c"
  "zeo_user (updateProgress p st t c) = zeo_user c"
  "uploadSection_hidden (dom (updateProgress p st t c)) = uploadSection_hidden (dom c)"
  "processingSection_hidden (dom (updateProgress p st t c)) = processingSection_hidden (dom c)"
  "resultsSection_hidden (dom (updateProgress p st t c)) = resultsSection_hidden (dom c)"
  by (simp_all add: updateProgress_def showResults_def web_basic Let_def)

lemma displayUserInfo_fields [simp]:
  "isVercel (displayUserInfo u a c) = isVercel c"
  "started (displayUserInfo u a c) = started c"
  "isRecording (displayUserInfo u a c) = isRecording c"
  "mediaRecorder (displayUserInfo u a c) = mediaRecorder c"
  "recorders_on (displayUserInfo u a c) = recorders_on c"
  "next_recorder (displayUserInfo u a c) = next_recorder c"
  "recordedChunks (displayUserInfo u a c) = recordedChunks c"
  "ws (displayUserInfo u a c) = ws c"
  "usePolling (displayUserInfo u a c) = usePolling c"
  "currentJobId (displayUserInfo u a c) = currentJobId c"
  "pollingInterval (displayUserInfo u a c) = pollingInterval c"
  "intervals (displayUserInfo u a c) = intervals c"
  "next_timer (displayUserInfo u a c) = next_timer c"
  "requests (displayUserInfo u a c) = requests c"
  "zeo_user (displayUserInfo u a c) = zeo_user c"
  "pending (displayUserInfo u a c) = pending c"
  "uploadSection_hidden (dom (displayUserInfo u a c)) = uploadSection_hidden (dom c)"
  "processingSection_hidden (dom (displayUserInfo u a c)) = processingSection_hidden (dom c)"
  "resultsSection_hidden (dom (displayUserInfo u a c)) = resultsSection_hidden (dom c)"
  by (simp_all add: displayUserInfo_def web_basic Let_def split: outcome.splits option.splits json.splits)

text \<open>C13: the timer fields and the recorder fields of \<open>ZeoClient\<close> implement the handle pool:
  \<open>setInterval\<close> allocates, \<open>clearInterval(this.pollingInterval)\<close> releases the named handle,
  \<open>stopPolling\<close> also forgets it, a granted \<open>getUserMedia\<close> allocates a recorder, \<open>stopRecording\<close>
  releases the current one.\<close>

theorem handle_pool_refinement:
  "timer_pool (startPolling c) = pool_alloc (timer_pool c) \<and>
   timer_pool (clear_polling c) = pool_release (timer_pool c) \<and>
   timer_pool (stopPolling c) = pool_forget (pool_release (timer_pool c)) \<and>
   recorder_pool (recording_started c) = pool_alloc (recorder_pool c) \<and>
   recorder_pool (stopRecording c) = (if isRecording c then pool_release (recorder_pool c) else recorder_pool c)"
  by (simp add: timer_pool_def recorder_pool_def startPolling_def clear_polling_def stopPolling_def
      recording_started_def stopRecording_def upd_dom_def schedule_def split: option.splits)

lemmas web_ops = poll_tick_def toggleRecording_def startRecording_def handleFileUpload_def
  resetToUpload_def toggleChat_def openChat_def closeChat_def sendMessage_def handleEntraLogin_def
  setAuthLoading_def ws_onmessage_def ws_onclose_def upload_settled_def upload_result_def
  upload_failed_def recorder_stopped_def uploadAudio_def showProcessingSection_def poll_settled_def
  chat_settled_def addMessage_def login_settled_def handleAuthResponse_def showAuthError_def
  userinfo_settled_def authenticateUser_def transitionToMainApp_def initializeSplashScreen_def
  showAuthModal_def connectWebSocket_def stopRecording_def recording_started_def startPolling_def
  stopPolling_def clear_polling_def web_basic Let_def

lemma run_cont_timer: "pool_step (timer_pool c) (timer_pool (run_cont k out c))"
  by (cases k) (auto simp: web_ops pool_step_def timer_pool_def
      split: outcome.splits option.splits json.splits list.splits)

lemma run_cont_recorder: "pool_step (recorder_pool c) (recorder_pool (run_cont k out c))"
  by (cases k) (auto simp: web_ops pool_step_def recorder_pool_def
      split: outcome.splits option.splits json.splits list.splits)

lemma run_cont_sections:
  assumes "sections_shown (dom c)"
  shows "sections_shown (dom (run_cont k out c))"
proof (cases k)
  case (K_Anim a)
  with assms show ?thesis by (cases a) (simp_all add: sections_shown_def upd_dom_def)
qed (use assms in \<open>auto simp: web_ops sections_shown_def
      split: outcome.splits option.splits json.splits list.splits\<close>)


lemma resolve_pools:
  "pool_step (timer_pool c) (timer_pool (resolve i out c))"
  "pool_step (recorder_pool c) (recorder_pool (resolve i out c))"
  "sections_shown (dom c) \<Longrightarrow> sections_shown (dom (resolve i out c))"
proof -
  let ?c = "c\<lparr>pending := take i (pending c) @ drop (Suc i) (pending c)\<rparr>"
  have "timer_pool ?c = timer_pool c" "recorder_pool ?c = recorder_pool c" "dom ?c = dom c"
    by (simp_all add: timer_pool_def recorder_pool_def)
  then show "pool_step (timer_pool c) (timer_pool (resolve i out c))"
    "pool_step (recorder_pool c) (recorder_pool (resolve i out c))"
    "sections_shown (dom c) \<Longrightarrow> sections_shown (dom (resolve i out c))"
    using run_cont_timer [of ?c] run_cont_recorder [of ?c] run_cont_sections [of ?c]
    by (simp_all add: resolve_def)
qed

lemma event_ops_timer_pool:
  "timer_pool (toggleRecording c) = timer_pool c"
  "timer_pool (handleFileUpload fl c) = timer_pool c"
  "timer_pool (resetToUpload c) = timer_pool c"
  "timer_pool (closeChat c) = pool_forget (pool_release (timer_pool c))"
  "timer_pool (toggleChat c) =
     (if chatPanel_hidden (dom c) then timer_pool c else pool_forget (pool_release (timer_pool c)))"
  "timer_pool (sendMessage c) = timer_pool c"
  "timer_pool (upd_dom f c) = timer_pool c"
  "timer_pool (handleEntraLogin c) = timer_pool c"
  "timer_pool (ws_onmessage m c) = timer_pool c"
  "timer_pool (ws_onclose c) = timer_pool c"
  "timer_pool (poll_tick k c) =
     (if k \<in> set (intervals c) \<and> \<not> js_truthy (currentJobId c) then pool_release (timer_pool c) else timer_pool c)"
  by (simp_all add: web_ops timer_pool_def split: option.splits outcome.splits)

lemma event_ops_recorder_pool:
  "recorder_pool (toggleRecording c) =
     (if isRecording c then pool_release (recorder_pool c) else recorder_pool c)"
  "recorder_pool (handleFileUpload fl c) = recorder_pool c"
  "recorder_pool (resetToUpload c) =
     (if isRecording c then pool_release (recorder_pool c) else recorder_pool c)"
  "recorder_pool (toggleChat c) = recorder_pool c"
  "recorder_pool (closeChat c) = recorder_pool c"
  "recorder_pool (sendMessage c) = recorder_pool c"
  "recorder_pool (upd_dom f c) = recorder_pool c"
  "recorder_pool (handleEntraLogin c) = recorder_pool c"
  "recorder_pool (ws_onmessage m c) = recorder_pool c"
  "recorder_pool (ws_onclose c) = recorder_pool c"
  "recorder_pool (poll_tick k c) = recorder_pool c"
  by (simp_all add: web_ops recorder_pool_def split: option.splits outcome.splits)

lemma client_event_step_pools:
  "pool_step (timer_pool c) (timer_pool (client_event_step c e))"
  "pool_step (recorder_pool c) (recorder_pool (client_event_step c e))"
  by (cases e; simp add: resolve_pools event_ops_timer_pool event_ops_recorder_pool)+

lemma client_event_step_sections:
  assumes "sections_shown (dom c)"
  shows "sections_shown (dom (client_event_step c e))"
proof (cases e)
  case (E_Resolve i out)
  with assms show ?thesis by (simp add: resolve_pools)
qed (use assms in \<open>auto simp: web_ops sections_shown_def split: outcome.splits option.splits json.splits\<close>)

lemma client_ok_step: "client_ok c \<Longrightarrow> client_ok (client_event_step c e)"
  using client_event_step_pools [of c e] client_event_step_sections [of c e]
  by (simp add: client_ok_def pool_step_def)

lemma wreach_ok: "wreach v c \<Longrightarrow> client_ok c"
proof (induction rule: wreach.induct)
  case wreach_init
  then show ?case
    by (simp add: client_ok_def new_zeo_client_def timer_pool_def recorder_pool_def sections_shown_def initial_dom_def)
next
  case (wreach_step c e)
  then show ?case by (simp add: client_ok_step)
qed

lemma wreach_client_events: "wreach v c \<Longrightarrow> wreach v (client_events c es)"
  by (induction es arbitrary: c) (auto intro: wreach_step)

lemmas eval_web = signed_in_events_def new_zeo_client_def initial_dom_def resolve_def web_ops
  displayUserInfo_def updateProgress_def showResults_def job1_upload_def mock_status_def

lemma local_state_eval:
  "currentJobId local_state = Some (JStr ''job_1'')" "ws local_state = WS_Open" "started local_state"
  "pending local_state = [K_Redirect, K_Anim A_ShowProcessing]"
  "transcriptionContent (dom local_state) = []" "chatMessages (dom local_state) = []"
  by (simp_all add: local_state_def eval_web)

lemma vercel_poll_state_eval:
  "pending vercel_poll_state = [K_Redirect, K_Anim A_ShowProcessing, K_Poll]"
  "intervals vercel_poll_state = [1]" "pollingInterval vercel_poll_state = Some 1" "started vercel_poll_state"
  "currentJobId vercel_poll_state = Some (JStr ''job_1'')"
  by (simp_all add: vercel_poll_state_def eval_web)

text \<open>A status answer is applied to the page whatever job it was asked for: a late answer for a job the user has already left shows the results view again over the upload view, with no job current.\<close>

theorem stale_poll_results_over_upload:
  "\<not> uploadSection_hidden (dom stale_state) \<and> \<not> resultsSection_hidden (dom stale_state) \<and>
   currentJobId stale_state = Some JNull"
  by (simp add: stale_state_def eval_web)

lemma recorder_leak_state_eval: "recorder_pool recorder_leak_state = ([0], Some 1, 2)"
  by (simp add: recorder_leak_state_def eval_web recorder_pool_def)

text \<open>C5: in every state the page reaches, the interval timers and the recorders are well-formed handle pools and at least one of the upload, processing and results sections is visible.\<close>

theorem wreach_client_ok: "wreach v c \<Longrightarrow> client_ok c"
  by (rule wreach_ok)

text \<open>C6: once an active polling interval is no longer the one \<open>this.pollingInterval\<close> names, no later event ever clears it: it fetches the status every second for the rest of the page's life.\<close>

theorem orphan_interval_never_cleared:
  assumes "wreach v c" and "pool_orphan k (timer_pool c)"
  shows "pool_orphan k (timer_pool (client_events c es))"
  using assms
proof (induction es arbitrary: c)
  case Nil
  then show ?case by simp
next
  case (Cons e es)
  from wreach_ok [OF Cons.prems(1)] have "pool_ok (timer_pool c)" by (simp add: client_ok_def)
  with Cons.prems(2) client_event_step_pools(1) [of c e]
  have "pool_orphan k (timer_pool (client_event_step c e))" by (simp add: pool_step_def)
  with Cons.IH [OF wreach_step [OF Cons.prems(1)]] show ?case by simp
qed

text \<open>C19: a WebSocket message whose \<open>jobId\<close> is not the current job leaves the page unchanged.\<close>

theorem ws_other_job_ignored:
  "\<not> js_strict_eq (json_get m ''jobId'') (currentJobId c) \<Longrightarrow> client_event_step c (E_WsMessage m) = c"
  by (simp add: ws_onmessage_def split: outcome.splits)

theorem ws_other_job_ignored_witness:
  "client_event_step local_state
     (E_WsMessage (JObj [(''type'', JStr ''progress''), (''jobId'', JStr ''job_2''), (''progress'', JNum 70)])) =
   local_state"
  by (rule ws_other_job_ignored) (simp add: local_state_eval)

text \<open>C20: a progress message for the current job with status \<open>completed\<close> and a non-empty transcription queues the results animation, and when it completes the results section shows that transcription.\<close>

theorem completed_message_shows_results:
  assumes "ws c = WS_Open" and "json_get m ''type'' = Some (JStr ''progress'')"
    and "js_strict_eq (json_get m ''jobId'') (currentJobId c)"
    and "json_get m ''status'' = Some (JStr ''completed'')" and "json_get m ''transcription'' = Some (JStr t)"
    and "t \<noteq> []"
  shows "pending (client_event_step c (E_WsMessage m)) = pending c @ [K_Anim (A_ShowResults t)] \<and>
    \<not> resultsSection_hidden (dom (resolve (length (pending c)) out (client_event_step c (E_WsMessage m)))) \<and>
    processingSection_hidden (dom (resolve (length (pending c)) out (client_event_step c (E_WsMessage m)))) \<and>
    transcriptionContent (dom (resolve (length (pending c)) out (client_event_step c (E_WsMessage m)))) = t"
proof -
  from assms(2) obtain kvs where m: "m = JObj kvs" by (cases m) auto
  have "client_event_step c (E_WsMessage m) =
      schedule (K_Anim (A_ShowResults t))
        (upd_dom (\<lambda>d. d\<lparr>progressFill_width := js_to_string (json_get m ''progress'') @ ''%'',
                         progressText := js_round_text (json_get m ''progress'') @ ''%''\<rparr>) c)"
    using assms m by (simp add: ws_onmessage_def updateProgress_def showResults_def Let_def)
  then show ?thesis by (simp add: resolve_def web_basic nth_append)
qed

theorem completed_message_shows_results_witness:
  "transcriptionContent (dom (resolve 2 (Returns JNull) (client_event_step local_state
     (E_WsMessage (JObj [(''type'', JStr ''progress''), (''jobId'', JStr ''job_1''), (''progress'', JNum 100),
        (''status'', JStr ''completed''), (''transcription'', JStr ''texto'')]))))) = ''texto''"
  using completed_message_shows_results [of local_state
      "JObj [(''type'', JStr ''progress''), (''jobId'', JStr ''job_1''), (''progress'', JNum 100),
        (''status'', JStr ''completed''), (''transcription'', JStr ''texto'')]" "''texto''" "Returns JNull"]
  by (simp add: local_state_eval numeral_2_eq_2)


text \<open>C21: a progress message for the current job with status \<open>error\<close> only redraws the progress bar: no failure view, no way back to the upload step.\<close>

theorem error_message_no_failure_view:
  assumes "ws c = WS_Open" and "json_get m ''type'' = Some (JStr ''progress'')"
    and "js_strict_eq (json_get m ''jobId'') (currentJobId c)"
    and "json_get m ''status'' = Some (JStr ''error'')"
  shows "client_event_step c (E_WsMessage m) =
    upd_dom (\<lambda>d. d\<lparr>progressFill_width := js_to_string (json_get m ''progress'') @ ''%'',
                     progressText := js_round_text (json_get m ''progress'') @ ''%''\<rparr>) c"
proof -
  from assms(2) obtain kvs where "m = JObj kvs" by (cases m) auto
  with assms show ?thesis by (simp add: ws_onmessage_def updateProgress_def Let_def)
qed

theorem error_message_no_failure_view_witness:
  "client_event_step local_state
     (E_WsMessage (JObj [(''type'', JStr ''progress''), (''jobId'', JStr ''job_1''), (''progress'', JNum 10),
        (''status'', JStr ''error''), (''error'', JStr ''ZEO MCP Client not connected'')])) =
   upd_dom (\<lambda>d. d\<lparr>progressFill_width := js_to_string (Some (JNum 10)) @ ''%'',
                    progressText := js_round_text (Some (JNum 10)) @ ''%''\<rparr>) local_state"
  using error_message_no_failure_view [of local_state
      "JObj [(''type'', JStr ''progress''), (''jobId'', JStr ''job_1''), (''progress'', JNum 10),
        (''status'', JStr ''error''), (''error'', JStr ''ZEO MCP Client not connected'')]"]
  by (simp add: local_state_eval del: js_to_string.simps js_round_text.simps)

text \<open>With a single polling interval, a status answer with a terminal status clears it.\<close>

theorem poll_terminal_stops_polling:
  assumes "i < length (pending c)" and "pending c ! i = K_Poll"
    and "intervals c = [k]" and "pollingInterval c = Some k"
    and "json_get job ''status'' = Some (JStr ''completed'') \<or> json_get job ''status'' = Some (JStr ''error'')"
  shows "intervals (resolve i (Returns job) c) = []"
proof -
  from assms(5) obtain kvs where "job = JObj kvs" by (cases job) auto
  with assms show ?thesis by (auto simp: resolve_def poll_settled_def clear_polling_def Let_def)
qed

theorem poll_terminal_stops_polling_witness: "intervals (resolve 2 mock_status vercel_poll_state) = []"
  using poll_terminal_stops_polling [of 2 vercel_poll_state 1 "JObj [(''id'', JStr ''job_1''),
      (''status'', JStr ''completed''), (''progress'', JNum 100), (''transcription'', JStr ''texto'')]"]
  by (simp add: vercel_poll_state_eval mock_status_def numeral_2_eq_2)

text \<open>Closing the chat panel clears the job's polling interval although the job is still current, so its progress is never fetched again.\<close>

theorem close_chat_stops_polling:
  assumes "started c" and "pollingInterval c = Some k"
  shows "intervals (client_event_step c E_ChatClose) = removeAll k (intervals c) \<and>
         pollingInterval (client_event_step c E_ChatClose) = None \<and>
         currentJobId (client_event_step c E_ChatClose) = currentJobId c"
  using assms by (simp add: closeChat_def stopPolling_def clear_polling_def upd_dom_def)

theorem close_chat_stops_polling_witness:
  "intervals (client_event_step vercel_poll_state E_ChatClose) = [] \<and>
   currentJobId (client_event_step vercel_poll_state E_ChatClose) = Some (JStr ''job_1'')"
  using close_chat_stops_polling [of vercel_poll_state 1] by (simp add: vercel_poll_state_eval)

theorem orphan_interval_never_cleared_witness:
  "pool_orphan 1 (timer_pool (client_events leak_state [E_Tick 1, E_Tick 2, E_ChatClose]))"
proof -
  have r: "wreach True leak_state"
    unfolding leak_state_def by (rule wreach_client_events [OF wreach_init])
  have o: "pool_orphan 1 (timer_pool leak_state)"
    by (simp add: leak_state_def eval_web timer_pool_def)
  from orphan_interval_never_cleared [OF r o] show ?thesis .
qed


text \<open>C22: a recorder that is recording but is no longer \<open>this.mediaRecorder\<close> is never stopped: the microphone stays in use.\<close>

theorem orphan_recorder_never_stopped:
  assumes "wreach v c" and "pool_orphan r (recorder_pool c)"
  shows "pool_orphan r (recorder_pool (client_events c es))"
  using assms
proof (induction es arbitrary: c)
  case Nil
  then show ?case by simp
next
  case (Cons e es)
  from wreach_ok [OF Cons.prems(1)] have "pool_ok (recorder_pool c)" by (simp add: client_ok_def)
  with Cons.prems(2) client_event_step_pools(2) [of c e]
  have "pool_orphan r (recorder_pool (client_event_step c e))" by (simp add: pool_step_def)
  with Cons.IH [OF wreach_step [OF Cons.prems(1)]] show ?case by simp
qed

theorem orphan_recorder_never_stopped_witness:
  "pool_orphan 0 (recorder_pool (client_events recorder_leak_state [E_ClickRecord, E_NewTranscription]))"
proof -
  have r: "wreach False recorder_leak_state"
    unfolding recorder_leak_state_def by (rule wreach_client_events [OF wreach_init])
  have o: "pool_orphan 0 (recorder_pool recorder_leak_state)" by (simp add: recorder_leak_state_eval)
  from orphan_recorder_never_stopped [OF r o] show ?thesis .
qed

theorem wreach_client_ok_witness: "client_ok stale_state"
  unfolding stale_state_def by (rule wreach_client_ok [OF wreach_client_events [OF wreach_init]])

text \<open>\<open>sendMessage\<close> with an input that is blank after trimming does nothing.\<close>

theorem sendMessage_blank_ignored: "js_trim (chatInput (dom c)) = [] \<Longrightarrow> sendMessage c = c"
  by (simp add: sendMessage_def)

theorem sendMessage_blank_ignored_witness:
  "sendMessage (client_event_step local_state (E_ChatType ''  '')) = client_event_step local_state (E_ChatType ''  '')"
  by (rule sendMessage_blank_ignored) (simp add: upd_dom_def js_trim_def is_js_space_def)

text \<open>Sending a message appends it as the user's, clears the input, posts it to \<open>/api/chat\<close> with the conversation context, and a successful answer appends the bot's reply and hides the typing indicator.\<close>

theorem chat_exchange:
  assumes "started c" and "js_trim (chatInput (dom c)) = msg" and "msg \<noteq> []"
  shows "chatMessages (dom (resolve (length (pending c))
            (Returns (JObj [(''success'', JBool True), (''response'', JStr r)])) (client_event_step c E_ChatSend))) =
           chatMessages (dom c) @ [(msg, User), (r, Bot)] \<and>
         chatInput (dom (client_event_step c E_ChatSend)) = [] \<and>
         chatTyping_hidden (dom (resolve (length (pending c))
            (Returns (JObj [(''success'', JBool True), (''response'', JStr r)])) (client_event_step c E_ChatSend))) \<and>
         requests (client_event_step c E_ChatSend) =
           requests c @ [(''/api/chat'', JObj [(''message'', JStr msg), (''context'', getConversationContext c)])]"
  using assms
  by (simp add: sendMessage_def resolve_def chat_settled_def addMessage_def getConversationContext_def
      web_basic Let_def nth_append)

theorem chat_exchange_witness:
  "chatMessages (dom (resolve 2 (Returns (JObj [(''success'', JBool True), (''response'', JStr ''oi'')]))
      (client_event_step (client_event_step local_state (E_ChatType ''ola'')) E_ChatSend))) = [(''ola'', User), (''oi'', Bot)]"
  using chat_exchange [of "client_event_step local_state (E_ChatType ''ola'')" "''ola''" "''oi''"]
  by (simp add: local_state_eval upd_dom_def js_trim_def is_js_space_def numeral_2_eq_2)

end
