(* ===== verification/Http_Api.thy ===== *)
theory Http_Api
  imports Server_Config
begin

text \<open>
  The HTTP functions deployed beside the Express server: the Vercel functions of
  \<open>src/api\<close> (\<open>upload.js\<close>, \<open>status/[jobId].js\<close>, \<open>health.js\<close>, \<open>chat.js\<close>) and the
  Next.js route handlers of \<open>src/app/api\<close> (\<open>audio/upload\<close>, \<open>health\<close>,
  \<open>mcp/servers\<close>, \<open>chat\<close>). Each handler is a function from the request to the
  response (status, headers, JSON body). Clocks, randomness, the environment and the
  xAI chat-completion endpoint are parameters; the endpoint is an interface that answers
  or throws.
\<close>

section \<open>Responses\<close>

record http_response =
  res_status :: nat
  res_headers :: "(string \<times> string) list"
  res_body :: "json option" \<comment> \<open>\<open>None\<close>: \<open>res.end()\<close> without a body\<close>

definition respond :: "(string \<times> string) list \<Rightarrow> nat \<Rightarrow> json \<Rightarrow> http_response" where
  "respond hs st b = \<lparr>res_status = st, res_headers = hs, res_body = Some b\<rparr>"

text \<open>An object literal whose properties may be \<open>undefined\<close>: \<open>JSON.stringify\<close> drops those.\<close>

definition obj :: "(string \<times> json option) list \<Rightarrow> json" where
  "obj kvs = JObj (List.map_filter (\<lambda>(k, v). map_option (\<lambda>x. (k, x)) v) kvs)"

definition error_body :: "string \<Rightarrow> json" where
  "error_body e = JObj [(''success'', JBool False), (''error'', JStr e)]"

text \<open>The CORS headers every Vercel function sets first.\<close>

definition cors :: "string \<Rightarrow> (string \<times> string) list" where
  "cors methods =
     [(''Access-Control-Allow-Origin'', ''*''), (''Access-Control-Allow-Methods'', methods),
      (''Access-Control-Allow-Headers'', ''Content-Type'')]"

text \<open>The method checks every Vercel function makes before its \<open>try\<close>.\<close>

definition method_guard :: "string \<Rightarrow> string \<Rightarrow> string \<Rightarrow> http_response option" where
  "method_guard allowed methods meth =
     (if meth = ''OPTIONS'' then Some \<lparr>res_status = 200, res_headers = cors methods, res_body = None\<rparr>
      else if meth \<noteq> allowed then Some (respond (cors methods) 405 (JObj [(''error'', JStr ''Method not allowed'')]))
      else None)"

section \<open>Vercel functions\<close>

text \<open>
  \<open>job_${Date.now()}_${Math.random().toString(36).substr(2, 9)}\<close>: \<open>rnd\<close> are the
  base-36 digits of the random number after \<open>0.\<close>.
\<close>

definition vercel_job_id :: "timestamp \<Rightarrow> string \<Rightarrow> string" where
  "vercel_job_id now rnd = ''job_'' @ string_of_nat now @ ''_'' @ take 9 rnd"

definition vercel_upload :: "string \<Rightarrow> timestamp \<Rightarrow> string \<Rightarrow> http_response" where
  "vercel_upload meth now rnd =
     (case method_guard ''POST'' ''POST, OPTIONS'' meth of
        Some r \<Rightarrow> r
      | None \<Rightarrow> respond (cors ''POST, OPTIONS'') 200
          (JObj [(''success'', JBool True), (''jobId'', JStr (vercel_job_id now rnd)),
                 (''status'', JStr ''processing''),
                 (''message'', JStr ''Upload received - connecting to MCP transcription servers'')]))"

definition mock_transcription :: string where
  "mock_transcription = ''Paciente relatou dor abdominal h'' @ [CHR 0xC3, CHR 0xA1] @ '' 3 dias, localizada no quadrante superior direito. Nega febre, n'' @ [CHR 0xC3, CHR 0xA1] @ ''useas ou v'' @ [CHR 0xC3, CHR 0xB4] @ ''mitos. Exame f'' @ [CHR 0xC3, CHR 0xAD] @ ''sico revela sensibilidade '' @ [CHR 0xC3, CHR 0xA0] @ '' palpa'' @ [CHR 0xC3, CHR 0xA7, CHR 0xC3, CHR 0xA3] @ ''o. Solicito ultrassom abdominal para investiga'' @ [CHR 0xC3, CHR 0xA7, CHR 0xC3, CHR 0xA3] @ ''o.''"

definition mock_job :: "json \<Rightarrow> string \<Rightarrow> json" where
  "mock_job jobId now =
     JObj [(''id'', jobId), (''status'', JStr ''completed''), (''progress'', JNum 100),
           (''transcription'', JStr mock_transcription),
           (''analysis'', JObj [(''summary'', JStr (''Dor abdominal - investiga'' @ [CHR 0xC3, CHR 0xA7, CHR 0xC3, CHR 0xA3] @ ''o necess'' @ [CHR 0xC3, CHR 0xA1] @ ''ria'')),
              (''keywords'', JArr [JStr ''dor abdominal'', JStr ''quadrante superior direito'', JStr ''ultrassom''])]),
           (''createdAt'', JStr now), (''completedAt'', JStr now)]"

text \<open>\<open>status/[jobId].js\<close>: \<open>jobId\<close> is \<open>req.query.jobId\<close>, \<open>now\<close> the ISO clock.\<close>

definition vercel_status :: "string \<Rightarrow> json option \<Rightarrow> string \<Rightarrow> http_response" where
  "vercel_status meth jobId now =
     (case method_guard ''GET'' ''GET, OPTIONS'' meth of
        Some r \<Rightarrow> r
      | None \<Rightarrow>
          (if \<not> js_truthy jobId then respond (cors ''GET, OPTIONS'') 400 (JObj [(''error'', JStr ''Job ID is required'')])
           else respond (cors ''GET, OPTIONS'') 200 (mock_job (the jobId) now)))"

definition env_get :: "(string \<times> string) list \<Rightarrow> string \<Rightarrow> string option" where
  "env_get penv k = map_of penv k"

definition vercel_health :: "string \<Rightarrow> (string \<times> string) list \<Rightarrow> server_config list \<Rightarrow> string \<Rightarrow> http_response" where
  "vercel_health meth penv cfgs now =
     (case method_guard ''GET'' ''GET, OPTIONS'' meth of
        Some r \<Rightarrow> r
      | None \<Rightarrow>
          (let enabled = getEnabledServers cfgs in
           respond (cors ''GET, OPTIONS'') 200
             (JObj [(''status'', JStr ''healthy''), (''timestamp'', JStr now),
                    (''environment'', JStr (js_or_str (env_get penv ''NODE_ENV'') ''production'')),
                    (''mcp'', JObj [(''status'', JStr ''ready''), (''servers'', JNum (int (length enabled))),
                       (''serverNames'', JArr (map (\<lambda>s. case cfg_name s of None \<Rightarrow> JNull | Some n \<Rightarrow> JStr n) enabled))]),
                    (''xai'', JObj [(''configured'', JBool (js_truthy_str (env_get penv ''XAI_API_KEY''))),
                       (''status'', JStr ''ready'')]),
                    (''entra'', JObj [(''configured'', JBool (js_truthy_str (env_get penv ''ENTRA_CLIENT_ID''))),
                       (''clientId'', JStr (if js_truthy_str (env_get penv ''ENTRA_CLIENT_ID'') then ''configured'' else ''missing''))]),
                    (''vercel'', JObj [(''region'', JStr (js_or_str (env_get penv ''VERCEL_REGION'') ''unknown'')),
                       (''deployment'', JStr (js_or_str (env_get penv ''VERCEL_URL'') ''local''))])])))"

section \<open>The xAI endpoint\<close>

text \<open>
  What \<open>fetch('https://api.x.ai/v1/chat/completions', ...)\<close> resolves to:
  \<open>response.ok\<close>, \<open>response.status\<close>, and what \<open>response.json()\<close> gives or throws.
  The endpoint takes the \<open>Authorization\<close> header and the request body.
\<close>

record xai_reply =
  xr_ok :: bool
  xr_status :: nat
  xr_json :: "json outcome"

type_synonym xai_api = "string \<Rightarrow> json \<Rightarrow> xai_reply outcome"

definition chat_request :: "json list \<Rightarrow> json \<Rightarrow> json" where
  "chat_request messages temperature =
     JObj [(''messages'', JArr messages), (''model'', JStr ''grok-beta''), (''temperature'', temperature),
           (''max_tokens'', JNum 2000), (''stream'', JBool False)]"

definition chat_message :: "string \<Rightarrow> json \<Rightarrow> json" where
  "chat_message role content = JObj [(''role'', JStr role), (''content'', content)]"

text \<open>\<open>data.choices[0].message.content\<close>.\<close>

definition reply_content :: "json \<Rightarrow> json option outcome" where
  "reply_content data =
     (case js_access (Some data) ''choices'' of
        Throws e \<Rightarrow> Throws e
      | Returns cs \<Rightarrow> (case js_index cs 0 of
          Throws e \<Rightarrow> Throws e
        | Returns c0 \<Rightarrow> (case js_access c0 ''message'' of
            Throws e \<Rightarrow> Throws e
          | Returns m \<Rightarrow> js_access m ''content'')))"

text \<open>
  The common tail of both chat handlers once the request is built: \<open>fail st e\<close> is the
  error response the handler's \<open>catch\<close> or \<open>!ok\<close> branch gives.
\<close>

definition chat_call ::
  "xai_api \<Rightarrow> string \<Rightarrow> json \<Rightarrow> string \<Rightarrow> (nat \<Rightarrow> string \<Rightarrow> http_response) \<Rightarrow> nat \<Rightarrow> (json \<Rightarrow> http_response)
     \<Rightarrow> http_response" where
  "chat_call xai key req now fail upstream_status ok =
     (case xai (''Bearer '' @ key) req of
        Throws e \<Rightarrow> fail 500 e
      | Returns r \<Rightarrow>
          if \<not> xr_ok r then fail upstream_status (''xAI API error: '' @ string_of_nat (xr_status r))
          else (case xr_json r of
                  Throws e \<Rightarrow> fail 500 e
                | Returns data \<Rightarrow> (case reply_content data of
                    Throws e \<Rightarrow> fail 500 e
                  | Returns content \<Rightarrow>
                      ok (obj [(''success'', Some (JBool True)), (''response'', content),
                               (''model'', Some (JStr ''grok-beta'')), (''timestamp'', Some (JStr now))]))))"

definition vercel_system_prompt :: string where
  "vercel_system_prompt = ''Voc'' @ [CHR 0xC3, CHR 0xAA] @ '' '' @ [CHR 0xC3, CHR 0xA9] @ '' o ZEO, um assistente cl'' @ [CHR 0xC3, CHR 0xAD] @ ''nico AI especializado em medicina. Responda de forma profissional, precisa e '' @ [CHR 0xC3, CHR 0xBA] @ ''til para profissionais de sa'' @ [CHR 0xC3, CHR 0xBA] @ ''de.''"

definition vercel_chat_messages :: "json option \<Rightarrow> json option \<Rightarrow> json list" where
  "vercel_chat_messages message context =
     [chat_message ''system'' (JStr vercel_system_prompt)] @
     (if js_truthy context
      then [chat_message ''system'' (JStr (''Contexto da consulta: '' @ json_stringify (the context)))] else []) @
     [chat_message ''user'' (case message of None \<Rightarrow> JNull | Some m \<Rightarrow> m)]"

text \<open>
  \<open>chat.js\<close>: \<open>body\<close> is \<open>req.body\<close> (\<open>None\<close> when there is none), \<open>penv\<close>
  \<open>process.env\<close>. A \<open>user\<close> message whose content is \<open>undefined\<close> cannot occur:
  the handler returns 400 before.
\<close>

definition vercel_chat ::
  "string \<Rightarrow> (string \<times> string) list \<Rightarrow> json option \<Rightarrow> string \<Rightarrow> xai_api \<Rightarrow> http_response" where
  "vercel_chat meth penv body now xai =
     (let hs = cors ''POST, OPTIONS''; fail = (\<lambda>st e. respond hs st (error_body e)) in
      case method_guard ''POST'' ''POST, OPTIONS'' meth of
        Some r \<Rightarrow> r
      | None \<Rightarrow>
          (case js_access body ''message'' of
             Throws e \<Rightarrow> fail 500 e
           | Returns message \<Rightarrow>
               (let context = json_get (the body) ''context'' in
                if \<not> js_truthy message then respond hs 400 (JObj [(''error'', JStr ''Message is required'')])
                else (case env_get penv ''XAI_API_KEY'' of
                        None \<Rightarrow> fail 500 ''xAI API key not configured''
                      | Some key \<Rightarrow>
                          if key = [] then fail 500 ''xAI API key not configured''
                          else chat_call xai key (chat_request (vercel_chat_messages message context) (JDec 25 2))
                                 now fail 500 (respond hs 200)))))"

section \<open>Next.js route handlers\<close>

text \<open>A field of a multipart form: a file (name, MIME type, size) or a text value.\<close>

datatype form_value = Form_File string string nat | Form_Text string

definition allowed_audio_types :: "string list" where
  "allowed_audio_types = [''audio/webm'', ''audio/mp3'', ''audio/wav'', ''audio/m4a'']"

text \<open>
  \<open>POST /api/audio/upload\<close>: \<open>form\<close> is what \<open>request.formData()\<close> gives or throws;
  \<open>formData.get('audio')\<close> is the first field of that name. A text field has no
  \<open>type\<close>.
\<close>

definition next_upload ::
  "(string \<times> form_value) list outcome \<Rightarrow> timestamp \<Rightarrow> string \<Rightarrow> http_response" where
  "next_upload form now rnd =
     (case form of
        Throws e \<Rightarrow> respond [] 500 (error_body e)
      | Returns flds \<Rightarrow>
          (let bad = respond [] 400 (error_body ''Invalid audio file type'');
               none = respond [] 400 (error_body ''No audio file provided'')
           in case map_of flds ''audio'' of
                None \<Rightarrow> none
              | Some (Form_Text s) \<Rightarrow> if s = [] then none else bad
              | Some (Form_File nm ty sz) \<Rightarrow>
                  if ty \<notin> set allowed_audio_types then bad
                  else respond [] 200
                    (JObj [(''success'', JBool True), (''jobId'', JStr (vercel_job_id now rnd)),
                           (''status'', JStr ''uploaded''), (''message'', JStr ''Audio file uploaded successfully'')])))"

definition next_health :: "(string \<times> string) list \<Rightarrow> string \<Rightarrow> http_response" where
  "next_health penv now =
     respond [] 200
       (JObj [(''status'', JStr ''healthy''), (''timestamp'', JStr now),
              (''environment'', JStr (js_or_str (env_get penv ''NODE_ENV'') ''development'')),
              (''version'', JStr ''1.0.0''),
              (''services'', JObj [
                 (''mcp'', JObj [(''status'', JStr ''ready''), (''servers'', JArr [JStr ''transcription'', JStr ''clinical-analysis''])]),
                 (''audio'', JObj [(''status'', JStr ''ready''), (''formats'', JArr [JStr ''webm'', JStr ''mp3'', JStr ''wav'', JStr ''m4a''])]),
                 (''auth'', JObj [(''status'', JStr ''ready''), (''providers'', JArr [JStr ''demo'', JStr ''enterprise''])])])])"

record mock_server =
  ms_name :: string
  ms_status :: string
  ms_transport :: string
  ms_capabilities :: "string list"
  ms_health_status :: string
  ms_lastPing :: "string option"
  ms_responseTime :: "int option"
  ms_error :: "string option"

definition mock_servers :: "string \<Rightarrow> mock_server list" where
  "mock_servers now =
     [\<lparr>ms_name = ''transcription'', ms_status = ''connected'', ms_transport = ''http'',
       ms_capabilities = [''transcribe_audio'', ''analyze_speech''], ms_health_status = ''healthy'',
       ms_lastPing = Some now, ms_responseTime = Some 45, ms_error = None\<rparr>,
      \<lparr>ms_name = ''clinical-analysis'', ms_status = ''connected'', ms_transport = ''websocket'',
       ms_capabilities = [''analyze_clinical_text'', ''extract_keywords'', ''generate_summary''],
       ms_health_status = ''healthy'', ms_lastPing = Some now, ms_responseTime = Some 32, ms_error = None\<rparr>,
      \<lparr>ms_name = ''documents'', ms_status = ''disconnected'', ms_transport = ''stdio'',
       ms_capabilities = [''store_document'', ''retrieve_document'', ''search_documents''],
       ms_health_status = ''error'', ms_lastPing = None, ms_responseTime = None,
       ms_error = Some ''Connection timeout''\<rparr>]"

definition mock_server_json :: "mock_server \<Rightarrow> json" where
  "mock_server_json m =
     JObj [(''name'', JStr (ms_name m)), (''status'', JStr (ms_status m)), (''transport'', JStr (ms_transport m)),
           (''capabilities'', JArr (map JStr (ms_capabilities m))),
           (''health'', obj [(''status'', Some (JStr (ms_health_status m))),
              (''lastPing'', Some (case ms_lastPing m of None \<Rightarrow> JNull | Some t \<Rightarrow> JStr t)),
              (''responseTime'', map_option JNum (ms_responseTime m)),
              (''error'', map_option JStr (ms_error m))])]"

definition next_mcp_servers :: "string \<Rightarrow> http_response" where
  "next_mcp_servers now =
     (let servers = mock_servers now in
      respond [] 200
        (JObj [(''success'', JBool True), (''servers'', JArr (map mock_server_json servers)),
               (''summary'', JObj [(''total'', JNum (int (length servers))),
                  (''connected'', JNum (int (length (filter (\<lambda>s. ms_status s = ''connected'') servers)))),
                  (''healthy'', JNum (int (length (filter (\<lambda>s. ms_health_status s = ''healthy'') servers))))])]))"

definition next_system_prompt :: string where
  "next_system_prompt = ''Voc'' @ [CHR 0xC3, CHR 0xAA] @ '' '' @ [CHR 0xC3, CHR 0xA9] @ '' o ZEO, um assistente inteligente vers'' @ [CHR 0xC3, CHR 0xA1] @ ''til e amig'' @ [CHR 0xC3, CHR 0xA1] @ ''vel. Voc'' @ [CHR 0xC3, CHR 0xAA] @ '' pode ajudar com:'' @ [CHR 0x0A, CHR 0x0A] @ ''- Quest'' @ [CHR 0xC3, CHR 0xB5] @ ''es cl'' @ [CHR 0xC3, CHR 0xAD] @ ''nicas e m'' @ [CHR 0xC3, CHR 0xA9] @ ''dicas (quando relevante)'' @ [CHR 0x0A] @ ''- Tecnologia e programa'' @ [CHR 0xC3, CHR 0xA7, CHR 0xC3, CHR 0xA3] @ ''o'' @ [CHR 0x0A] @ ''- Ci'' @ [CHR 0xC3, CHR 0xAA] @ ''ncia e pesquisa'' @ [CHR 0x0A] @ ''- Educa'' @ [CHR 0xC3, CHR 0xA7, CHR 0xC3, CHR 0xA3] @ ''o e aprendizado'' @ [CHR 0x0A] @ ''- Criatividade e arte'' @ [CHR 0x0A] @ ''- Neg'' @ [CHR 0xC3, CHR 0xB3] @ ''cios e produtividade'' @ [CHR 0x0A] @ ''- Quest'' @ [CHR 0xC3, CHR 0xB5] @ ''es gerais do dia a dia'' @ [CHR 0x0A, CHR 0x0A] @ ''Seja sempre '' @ [CHR 0xC3, CHR 0xBA] @ ''til, preciso e engajante. Adapte seu tom '' @ [CHR 0xC3, CHR 0xA0] @ '' pergunta do usu'' @ [CHR 0xC3, CHR 0xA1] @ ''rio. Para quest'' @ [CHR 0xC3, CHR 0xB5] @ ''es m'' @ [CHR 0xC3, CHR 0xA9] @ ''dicas, sempre recomende consultar profissionais de sa'' @ [CHR 0xC3, CHR 0xBA] @ ''de qualificados para diagn'' @ [CHR 0xC3, CHR 0xB3] @ ''sticos e tratamentos.''"

definition next_chat_messages :: "json option \<Rightarrow> json option \<Rightarrow> json list" where
  "next_chat_messages message context =
     (let tr = (case context of None \<Rightarrow> None | Some JNull \<Rightarrow> None | Some v \<Rightarrow> json_get v ''transcription'') in
      [chat_message ''system'' (JStr next_system_prompt)] @
      (if js_truthy tr then [chat_message ''system'' (JStr ((''Contexto adicional da consulta m'' @ [CHR 0xC3, CHR 0xA9] @ ''dica: '') @ js_to_string tr))] else []) @
      [chat_message ''user'' (case message of None \<Rightarrow> JNull | Some m \<Rightarrow> m)])"

text \<open>
  \<open>POST /api/chat\<close> (Next.js): \<open>body\<close> is what \<open>request.json()\<close> gives or throws.
  \<open>NextResponse.json\<close> without a status answers 200, so upstream failures and the
  \<open>catch\<close> answer 200.
\<close>

definition next_chat ::
  "(string \<times> string) list \<Rightarrow> json outcome \<Rightarrow> string \<Rightarrow> xai_api \<Rightarrow> http_response" where
  "next_chat penv body now xai =
     (let fail = (\<lambda>st e. respond [] st (error_body e)) in
      case body of
        Throws e \<Rightarrow> fail 200 e
      | Returns b \<Rightarrow>
          (case js_access (Some b) ''message'' of
             Throws e \<Rightarrow> fail 200 e
           | Returns message \<Rightarrow>
               (let context = json_get b ''context'' in
                if \<not> js_truthy message then fail 400 ''Message is required''
                else (case env_get penv ''XAI_API_KEY'' of
                        None \<Rightarrow> fail 500 ''xAI API key not configured''
                      | Some key \<Rightarrow>
                          if key = [] then fail 500 ''xAI API key not configured''
                          else chat_call xai key (chat_request (next_chat_messages message context) (JDec 7 1))
                                 now (\<lambda>st e. fail 200 e) 200 (respond [] 200)))))"

section \<open>Lemmas\<close>

lemma split_at_sep:
  "c \<notin> set s1 \<Longrightarrow> c \<notin> set s2 \<Longrightarrow> s1 @ c # t1 = s2 @ c # t2 \<Longrightarrow> s1 = s2 \<and> t1 = t2"
proof (induction s1 arbitrary: s2)
  case Nil
  then show ?case by (cases s2) auto
next
  case (Cons x xs)
  then show ?case by (cases s2) auto
qed

lemma underscore_not_digit: "CHR ''_'' \<notin> set (string_of_nat n)"
  using string_of_nat_digits [of n] by (auto simp: is_digit_def)

text \<open>The job ids of the upload functions are injective in the clock and the random part: \<open>job_${now}_${rnd}\<close> determines both, since the printed clock has no underscore.\<close>

theorem vercel_job_id_inj:
  assumes "CHR ''_'' \<notin> set (take 9 r1)" and "CHR ''_'' \<notin> set (take 9 r2)"
  shows "vercel_job_id n1 r1 = vercel_job_id n2 r2 \<longleftrightarrow> n1 = n2 \<and> take 9 r1 = take 9 r2"
proof
  assume "vercel_job_id n1 r1 = vercel_job_id n2 r2"
  then have "string_of_nat n1 @ CHR ''_'' # take 9 r1 = string_of_nat n2 @ CHR ''_'' # take 9 r2"
    by (simp add: vercel_job_id_def)
  from split_at_sep [OF underscore_not_digit underscore_not_digit this] show "n1 = n2 \<and> take 9 r1 = take 9 r2"
    by simp
qed (simp add: vercel_job_id_def)

theorem vercel_job_id_inj_witness:
  "vercel_job_id 1700000000000 ''k3x9a0b1c'' \<noteq> vercel_job_id 1700000000000 ''k3x9a0b1d''"
  using vercel_job_id_inj [of "''k3x9a0b1c''" "''k3x9a0b1d''" 1700000000000 1700000000000] by simp

text \<open>With a message and no \<open>XAI_API_KEY\<close>, both chat handlers answer 500 \<open>{success: false, error: 'xAI API key not configured'}\<close>.\<close>

theorem chat_missing_key_500:
  assumes "js_truthy (json_get b ''message'')" and "\<not> js_truthy_str (env_get penv ''XAI_API_KEY'')"
  shows "vercel_chat ''POST'' penv (Some b) now xai = respond (cors ''POST, OPTIONS'') 500 (error_body ''xAI API key not configured'') \<and>
         next_chat penv (Returns b) now xai = respond [] 500 (error_body ''xAI API key not configured'')"
proof -
  from assms(1) obtain kvs where b: "b = JObj kvs" by (cases b) auto
  with assms show ?thesis
    by (cases "env_get penv ''XAI_API_KEY''")
       (simp_all add: vercel_chat_def next_chat_def method_guard_def Let_def)
qed

theorem chat_missing_key_500_witness:
  "res_status (vercel_chat ''POST'' [] (Some (JObj [(''message'', JStr ''hello'')])) ''t'' (\<lambda>h r. Throws ''unreachable'')) = 500 \<and>
   res_body (next_chat [] (Returns (JObj [(''message'', JStr ''hello'')])) ''t'' (\<lambda>h r. Throws ''unreachable'')) =
     Some (error_body ''xAI API key not configured'')"
  using chat_missing_key_500 [of "JObj [(''message'', JStr ''hello'')]" "[]" "''t''" "\<lambda>h r. Throws ''unreachable''"]
  by (simp add: env_get_def respond_def)

text \<open>C28: when the xAI endpoint answers a non-ok status, \<open>api/chat.js\<close> answers 500 while the Next.js route answers 200, with the same body.\<close>

theorem upstream_error_status_differs:
  assumes "js_truthy (json_get b ''message'')" and "env_get penv ''XAI_API_KEY'' = Some key" and "key \<noteq> []"
    and "\<not> xr_ok rep"
  shows "vercel_chat ''POST'' penv (Some b) now (\<lambda>h r. Returns rep) =
           respond (cors ''POST, OPTIONS'') 500 (error_body (''xAI API error: '' @ string_of_nat (xr_status rep))) \<and>
         next_chat penv (Returns b) now (\<lambda>h r. Returns rep) =
           respond [] 200 (error_body (''xAI API error: '' @ string_of_nat (xr_status rep)))"
proof -
  from assms(1) obtain kvs where b: "b = JObj kvs" by (cases b) auto
  with assms show ?thesis by (simp add: vercel_chat_def next_chat_def method_guard_def chat_call_def Let_def)
qed

theorem upstream_error_status_differs_witness:
  "res_status (vercel_chat ''POST'' [(''XAI_API_KEY'', ''k'')] (Some (JObj [(''message'', JStr ''hello'')])) ''t''
      (\<lambda>h r. Returns \<lparr>xr_ok = False, xr_status = 429, xr_json = Throws ''x''\<rparr>)) = 500 \<and>
   res_status (next_chat [(''XAI_API_KEY'', ''k'')] (Returns (JObj [(''message'', JStr ''hello'')])) ''t''
      (\<lambda>h r. Returns \<lparr>xr_ok = False, xr_status = 429, xr_json = Throws ''x''\<rparr>)) = 200"
  using upstream_error_status_differs [of "JObj [(''message'', JStr ''hello'')]" "[(''XAI_API_KEY'', ''k'')]" "''k''"
      "\<lparr>xr_ok = False, xr_status = 429, xr_json = Throws ''x''\<rparr>" "''t''"]
  by (simp add: env_get_def respond_def)

text \<open>The Vercel status function answers 200 with the same completed mock job for every non-empty id, also for ids no upload produced.\<close>

theorem vercel_status_never_404:
  assumes "js_truthy jid"
  shows "res_status (vercel_status ''GET'' jid now) = 200 \<and>
    res_body (vercel_status ''GET'' jid now) = Some (mock_job (the jid) now)"
  using assms by (simp add: vercel_status_def method_guard_def respond_def)

theorem vercel_status_never_404_witness:
  "res_status (vercel_status ''GET'' (Some (JStr ''job_never_uploaded'')) ''2025-01-01T00:00:00Z'') = 200"
  using vercel_status_never_404 [of "Some (JStr ''job_never_uploaded'')" "''2025-01-01T00:00:00Z''"] by simp

text \<open>The Next.js upload route rejects with 400 every file whose MIME type is not one of its four literals, among them \<open>audio/mpeg\<close>, the type browsers give MP3 files.\<close>

theorem next_upload_type_rejected:
  assumes "map_of flds ''audio'' = Some (Form_File nm ty sz)" and "ty \<notin> set allowed_audio_types"
  shows "next_upload (Returns flds) now rnd = respond [] 400 (error_body ''Invalid audio file type'')"
  using assms by (simp add: next_upload_def)

theorem next_upload_type_rejected_witness:
  "res_status (next_upload (Returns [(''audio'', Form_File ''consulta.mp3'' ''audio/mpeg'' 1000)]) 1 ''abc'') = 400"
  using next_upload_type_rejected [of "[(''audio'', Form_File ''consulta.mp3'' ''audio/mpeg'' 1000)]"
      "''consulta.mp3''" "''audio/mpeg''" 1000 1 "''abc''"]
  by (simp add: allowed_audio_types_def respond_def)

text \<open>The Vercel upload and chat functions answer 405 to every method other than POST and OPTIONS.\<close>

theorem method_not_allowed:
  assumes "meth \<noteq> ''POST''" and "meth \<noteq> ''OPTIONS''"
  shows "res_status (vercel_upload meth now rnd) = 405 \<and> res_status (vercel_chat meth penv body t xai) = 405"
  using assms by (simp add: vercel_upload_def vercel_chat_def method_guard_def respond_def)

theorem method_not_allowed_witness:
  "res_status (vercel_upload ''GET'' 1 ''abc'') = 405"
  using method_not_allowed [of "''GET''" 1 "''abc''" "[]" None "''t''" "\<lambda>h r. Throws ''x''"] by simp

text \<open>Both chat handlers send the system prompt first and the user's message last; \<open>api/chat.js\<close> adds one context message exactly when the context is truthy.\<close>

theorem chat_messages_shape:
  "hd (vercel_chat_messages m ctx) = chat_message ''system'' (JStr vercel_system_prompt) \<and>
   last (vercel_chat_messages m ctx) = chat_message ''user'' (case m of None \<Rightarrow> JNull | Some v \<Rightarrow> v) \<and>
   length (vercel_chat_messages m ctx) = (if js_truthy ctx then 3 else 2) \<and>
   hd (next_chat_messages m ctx) = chat_message ''system'' (JStr next_system_prompt) \<and>
   last (next_chat_messages m ctx) = chat_message ''user'' (case m of None \<Rightarrow> JNull | Some v \<Rightarrow> v)"
  by (simp add: vercel_chat_messages_def next_chat_messages_def Let_def)

end
