(* ===== verification/React_Providers.thy ===== *)
theory React_Providers
  imports Http_Api
begin

text \<open>
  The React context providers of the Next.js front end (\<open>src/components/providers/\<close>)
  and the MSAL configuration \<open>src/auth-config.js\<close>. Each provider's \<open>useState\<close> cells
  and \<open>useRef\<close> cells are the fields of a record; a setter that takes an updater
  (\<open>setX(prev => ...)\<close>) applies it to the current value, as React does when it
  processes the update queue in order. Every \<open>await\<close> (the microphone permission, each
  \<open>setTimeout\<close> of the simulated processing, the recorder's \<open>stop\<close> event) is a
  pending continuation fired by an event, so any interleaving of user actions and
  timers is a sequence of events.
\<close>

section \<open>AudioProvider\<close>

datatype audio_status = Audio_Processing | Audio_Completed | Audio_Error

record audio_job =
  aj_id :: string
  aj_status :: audio_status
  aj_progress :: nat
  aj_duration :: "string option"
  aj_createdAt :: timestamp
  aj_completedAt :: "timestamp option"

record audio_analysis =
  an_summary :: "string option" \<comment> \<open>\<open>summary?: string\<close>\<close>
  an_keywords :: "string list option" \<comment> \<open>\<open>keywords?: string[]\<close>\<close>

datatype recorder_state = Rec_Inactive | Rec_Recording

text \<open>A \<open>MediaRecorder\<close> object: its stream, its state, and whether \<open>stopRecording\<close> has installed its \<open>onstop\<close> handler.\<close>

record media_recorder =
  mr_stream :: nat
  mr_state :: recorder_state
  mr_onstop :: bool

text \<open>
  What an \<open>await\<close> waits for: the answer of \<open>getUserMedia\<close>, the next \<open>setTimeout\<close> of
  activation \<open>a\<close> of \<open>processAudio\<close>, or the \<open>stop\<close> event of recorder \<open>r\<close>.
\<close>

datatype audio_cont = AK_UserMedia | AK_Step nat | AK_OnStop nat

text \<open>
  The provider: the four state cells, the three refs, and the objects they point to
  (recorders and streams by handle; a stream's flag is whether its tracks still run),
  the step reached by each activation of \<open>processAudio\<close>, and the pending awaits.
\<close>

record audio_provider =
  currentJob :: "audio_job option"
  transcription :: "string option"
  analysis :: "audio_analysis option"
  isProcessing :: bool
  mediaRecorderRef :: "nat option"
  recordedChunksRef :: "nat list" \<comment> \<open>sizes of the recorded blobs\<close>
  streamRef :: "nat option"
  recorders :: "media_recorder list"
  streams :: "bool list"
  activations :: "nat list"
  a_pending :: "audio_cont list"

definition audio_init :: audio_provider where
  "audio_init =
     \<lparr>currentJob = None, transcription = None, analysis = None, isProcessing = False,
      mediaRecorderRef = None, recordedChunksRef = [], streamRef = None, recorders = [], streams = [],
      activations = [], a_pending = []\<rparr>"

definition audio_schedule :: "audio_cont \<Rightarrow> audio_provider \<Rightarrow> audio_provider" where
  "audio_schedule k p = p\<lparr>a_pending := a_pending p @ [k]\<rparr>"

text \<open>The progress values of \<open>progressSteps\<close>, in order.\<close>

definition progress_steps :: "nat list" where
  "progress_steps = [10, 30, 50, 70, 90, 100]"

definition audio_mock_transcription :: string where
  "audio_mock_transcription =
     ''Paciente do sexo feminino, 45 anos, comparece '' @ [CHR 0xC3, CHR 0xA0] @ '' consulta relatando dor abdominal h'' @ [CHR 0xC3, CHR 0xA1] @ '' aproximadamente 3 dias. A dor '' @ [CHR 0xC3, CHR 0xA9] @ '' localizada no quadrante superior direito, de intensidade moderada a forte, com irradia'' @ [CHR 0xC3, CHR 0xA7, CHR 0xC3, CHR 0xA3] @ ''o para o ombro direito. Nega febre, n'' @ [CHR 0xC3, CHR 0xA1] @ ''useas ou v'' @ [CHR 0xC3, CHR 0xB4] @ ''mitos associados.'' @ [CHR 0x0A, CHR 0x0A] @
     ''Ao exame f'' @ [CHR 0xC3, CHR 0xAD] @ ''sico: paciente consciente, orientada, corada, hidratada, anict'' @ [CHR 0xC3, CHR 0xA9] @ ''rica. Sinais vitais est'' @ [CHR 0xC3, CHR 0xA1] @ ''veis. Abdome: inspe'' @ [CHR 0xC3, CHR 0xA7, CHR 0xC3, CHR 0xA3] @ ''o normal, palpa'' @ [CHR 0xC3, CHR 0xA7, CHR 0xC3, CHR 0xA3] @ ''o revela sensibilidade '' @ [CHR 0xC3, CHR 0xA0] @ '' palpa'' @ [CHR 0xC3, CHR 0xA7, CHR 0xC3, CHR 0xA3] @ ''o profunda em hipoc'' @ [CHR 0xC3, CHR 0xB4] @ ''ndrio direito, sem sinais de irrita'' @ [CHR 0xC3, CHR 0xA7, CHR 0xC3, CHR 0xA3] @ ''o peritoneal. Sinal de Murphy positivo.'' @ [CHR 0x0A, CHR 0x0A] @
     ''Hip'' @ [CHR 0xC3, CHR 0xB3] @ ''tese diagn'' @ [CHR 0xC3, CHR 0xB3] @ ''stica: Colecistite aguda. Solicitado ultrassom abdominal para confirma'' @ [CHR 0xC3, CHR 0xA7, CHR 0xC3, CHR 0xA3] @ ''o diagn'' @ [CHR 0xC3, CHR 0xB3] @ ''stica e avalia'' @ [CHR 0xC3, CHR 0xA7, CHR 0xC3, CHR 0xA3] @ ''o da ves'' @ [CHR 0xC3, CHR 0xAD] @ ''cula biliar. Orientada dieta leve, analgesia conforme necess'' @ [CHR 0xC3, CHR 0xA1] @ ''rio e retorno em 48 horas ou se piora do quadro.''"

definition audio_mock_summary :: string where
  "audio_mock_summary = ''Consulta de paciente feminina de 45 anos com quadro sugestivo de colecistite aguda. Exame f'' @ [CHR 0xC3, CHR 0xAD] @ ''sico compat'' @ [CHR 0xC3, CHR 0xAD] @ ''vel com inflama'' @ [CHR 0xC3, CHR 0xA7, CHR 0xC3, CHR 0xA3] @ ''o da ves'' @ [CHR 0xC3, CHR 0xAD] @ ''cula biliar.''"

definition audio_mock_keywords :: "string list" where
  "audio_mock_keywords = [''colecistite aguda'', ''dor abdominal'', (''hipoc'' @ [CHR 0xC3, CHR 0xB4] @ ''ndrio direito''), ''sinal de Murphy'', ''ultrassom abdominal'']"

definition mock_analysis :: audio_analysis where
  "mock_analysis = \<lparr>an_summary = Some audio_mock_summary, an_keywords = Some audio_mock_keywords\<rparr>"

text \<open>\<open>processAudio(blob, filename)\<close> up to its first \<open>await\<close>; the blob and the name are not read.\<close>

definition processAudio :: "timestamp \<Rightarrow> string \<Rightarrow> audio_provider \<Rightarrow> audio_provider" where
  "processAudio now rnd p =
     (let job = \<lparr>aj_id = vercel_job_id now rnd, aj_status = Audio_Processing, aj_progress = 0,
                 aj_duration = None, aj_createdAt = now, aj_completedAt = None\<rparr>
      in audio_schedule (AK_Step (length (activations p)))
           (p\<lparr>isProcessing := True, currentJob := Some job, transcription := None, analysis := None,
              activations := activations p @ [0]\<rparr>))"

text \<open>The \<open>try\<close> block after the loop, and the \<open>finally\<close>.\<close>

definition processAudio_finish :: "timestamp \<Rightarrow> audio_provider \<Rightarrow> audio_provider" where
  "processAudio_finish now p =
     p\<lparr>transcription := Some audio_mock_transcription, analysis := Some mock_analysis,
       currentJob := map_option (\<lambda>j. j\<lparr>aj_status := Audio_Completed, aj_progress := 100,
                                       aj_completedAt := Some now, aj_duration := Some ''2:34''\<rparr>) (currentJob p),
       isProcessing := False\<rparr>"

text \<open>
  Activation \<open>a\<close>'s timer fires: \<open>setCurrentJob(prev => prev ? {...prev, progress} : null)\<close>
  with the step's progress; after the sixth step the activation finishes.
\<close>

definition processAudio_step :: "nat \<Rightarrow> timestamp \<Rightarrow> audio_provider \<Rightarrow> audio_provider" where
  "processAudio_step a now p =
     (let pc = activations p ! a;
          p1 = p\<lparr>currentJob := map_option (\<lambda>j. j\<lparr>aj_progress := progress_steps ! pc\<rparr>) (currentJob p),
                 activations := (activations p)[a := Suc pc]\<rparr>
      in if Suc pc < length progress_steps then audio_schedule (AK_Step a) p1 else processAudio_finish now p1)"

text \<open>\<open>startRecording\<close> after \<open>getUserMedia\<close> resolves: a new stream and a new recorder, started.\<close>

definition recording_granted :: "audio_provider \<Rightarrow> audio_provider" where
  "recording_granted p =
     p\<lparr>streamRef := Some (length (streams p)), streams := streams p @ [True], recordedChunksRef := [],
       recorders := recorders p @ [\<lparr>mr_stream = length (streams p), mr_state = Rec_Recording, mr_onstop = False\<rparr>],
       mediaRecorderRef := Some (length (recorders p))\<rparr>"

text \<open>\<open>mediaRecorder.stop()\<close>: a recording recorder goes inactive and fires \<open>stop\<close> later; an inactive one does nothing.\<close>

definition recorder_stop :: "nat \<Rightarrow> audio_provider \<Rightarrow> audio_provider" where
  "recorder_stop r p =
     (if mr_state (recorders p ! r) = Rec_Recording
      then audio_schedule (AK_OnStop r) (p\<lparr>recorders := (recorders p)[r := (recorders p ! r)\<lparr>mr_state := Rec_Inactive\<rparr>]\<rparr>)
      else p)"

text \<open>\<open>streamRef.current.getTracks().forEach(t => t.stop()); streamRef.current = null\<close>, when set.\<close>

definition release_stream :: "audio_provider \<Rightarrow> audio_provider" where
  "release_stream p =
     (case streamRef p of
        None \<Rightarrow> p
      | Some st \<Rightarrow> p\<lparr>streams := (streams p)[st := False], streamRef := None\<rparr>)"

definition stopRecording_audio :: "audio_provider \<Rightarrow> audio_provider" where
  "stopRecording_audio p =
     (case mediaRecorderRef p of
        None \<Rightarrow> p
      | Some r \<Rightarrow> recorder_stop r (p\<lparr>recorders := (recorders p)[r := (recorders p ! r)\<lparr>mr_onstop := True\<rparr>]\<rparr>))"

text \<open>The \<open>onstop\<close> handler of \<open>stopRecording\<close>, if installed on the recorder.\<close>

definition recorder_onstop :: "nat \<Rightarrow> timestamp \<Rightarrow> string \<Rightarrow> audio_provider \<Rightarrow> audio_provider" where
  "recorder_onstop r now rnd p =
     (if mr_onstop (recorders p ! r) then processAudio now rnd (release_stream p) else p)"

text \<open>\<open>ondataavailable\<close>: every recorder pushes into the one shared chunks ref.\<close>

definition ondataavailable :: "nat \<Rightarrow> audio_provider \<Rightarrow> audio_provider" where
  "ondataavailable sz p = (if 0 < sz then p\<lparr>recordedChunksRef := recordedChunksRef p @ [sz]\<rparr> else p)"

definition uploadFile :: "timestamp \<Rightarrow> string \<Rightarrow> audio_provider \<Rightarrow> audio_provider" where
  "uploadFile now rnd p = processAudio now rnd p"

definition resetAudio :: "audio_provider \<Rightarrow> audio_provider" where
  "resetAudio p =
     (let p1 = p\<lparr>currentJob := None, transcription := None, analysis := None, isProcessing := False\<rparr>;
          p2 = (case mediaRecorderRef p1 of
                  Some r \<Rightarrow> if mr_state (recorders p1 ! r) \<noteq> Rec_Inactive then recorder_stop r p1 else p1
                | None \<Rightarrow> p1)
      in release_stream p2)"

text \<open>Firing a pending await: its continuation with the permission answer, the clock and the random string.\<close>

fun audio_cont_run :: "audio_cont \<Rightarrow> bool \<Rightarrow> timestamp \<Rightarrow> string \<Rightarrow> audio_provider \<Rightarrow> audio_provider" where
  "audio_cont_run AK_UserMedia granted now rnd p = (if granted then recording_granted p else p)"
| "audio_cont_run (AK_Step a) granted now rnd p = processAudio_step a now p"
| "audio_cont_run (AK_OnStop r) granted now rnd p = recorder_onstop r now rnd p"

datatype audio_event =
    AE_StartRecording
  | AE_StopRecording
  | AE_UploadFile timestamp string \<comment> \<open>\<open>Date.now()\<close> and \<open>Math.random().toString(36).substr(2)\<close>\<close>
  | AE_Reset
  | AE_Data nat nat \<comment> \<open>recorder, size of the blob\<close>
  | AE_Fire nat bool timestamp string \<comment> \<open>pending await, permission granted, clock, random\<close>

fun audio_step :: "audio_provider \<Rightarrow> audio_event \<Rightarrow> audio_provider" where
  "audio_step p AE_StartRecording = audio_schedule AK_UserMedia p"
| "audio_step p AE_StopRecording = stopRecording_audio p"
| "audio_step p (AE_UploadFile now rnd) = uploadFile now rnd p"
| "audio_step p AE_Reset = resetAudio p"
| "audio_step p (AE_Data r sz) = (if r < length (recorders p) then ondataavailable sz p else p)"
| "audio_step p (AE_Fire i granted now rnd) =
     (if i < length (a_pending p)
      then audio_cont_run (a_pending p ! i) granted now rnd
             (p\<lparr>a_pending := take i (a_pending p) @ drop (Suc i) (a_pending p)\<rparr>)
      else p)"

fun audio_run :: "audio_provider \<Rightarrow> audio_event list \<Rightarrow> audio_provider" where
  "audio_run p [] = p"
| "audio_run p (e # es) = audio_run (audio_step p e) es"

inductive areach :: "audio_provider \<Rightarrow> bool" where
  areach_init: "areach audio_init"
| areach_step: "areach p \<Longrightarrow> areach (audio_step p e)"


text \<open>\<open>useAudio()\<close>, and the other \<open>use...\<close> hooks: the context, or the error of a component outside its provider.\<close>

definition use_context :: "string \<Rightarrow> 'a option \<Rightarrow> string + 'a" where
  "use_context msg ctx = (case ctx of None \<Rightarrow> Inl msg | Some c \<Rightarrow> Inr c)"

section \<open>MCPProvider\<close>

datatype server_conn = SC_Connected | SC_Disconnected | SC_Error

record ui_server =
  us_name :: string
  us_status :: server_conn
  us_capabilities :: "string list"
  us_lastPing :: "timestamp option"

text \<open>The initial \<open>useState\<close> value, with \<open>new Date()\<close> at mount.\<close>

definition mcp_initial_servers :: "timestamp \<Rightarrow> ui_server list" where
  "mcp_initial_servers now =
     [\<lparr>us_name = ''transcription'', us_status = SC_Connected,
       us_capabilities = [''transcribe_audio'', ''analyze_speech''], us_lastPing = Some now\<rparr>,
      \<lparr>us_name = ''clinical-analysis'', us_status = SC_Connected,
       us_capabilities = [''analyze_clinical_text'', ''extract_keywords''], us_lastPing = Some now\<rparr>,
      \<lparr>us_name = ''documents'', us_status = SC_Disconnected,
       us_capabilities = [''store_document'', ''retrieve_document''], us_lastPing = None\<rparr>]"

definition connectedServers :: "ui_server list \<Rightarrow> nat" where
  "connectedServers ss = length (filter (\<lambda>s. us_status s = SC_Connected) ss)"

datatype overall_status = Overall_Connected | Overall_Disconnected | Overall_Partial

definition connectionStatus :: "ui_server list \<Rightarrow> overall_status" where
  "connectionStatus ss =
     (if connectedServers ss = 0 then Overall_Disconnected
      else if connectedServers ss = length ss then Overall_Connected else Overall_Partial)"

text \<open>
  \<open>connectToServer(serverConfig)\<close> after its one-second delay: it passes an updater to
  \<open>setServers\<close> and resolves \<open>true\<close>. React applies the updater later, to the list it
  holds then; \<open>prev.map\<close> reads \<open>serverConfig.name\<close> once per entry, so with no
  entries nothing is read, and otherwise a missing config makes the updater throw its
  \<open>TypeError\<close> when React applies it (in the provider's render), not in the promise.
\<close>

definition connect_updater :: "json option \<Rightarrow> timestamp \<Rightarrow> ui_server list \<Rightarrow> ui_server list outcome" where
  "connect_updater cfg now prev =
     (if prev = [] then Returns []
      else (case js_access cfg ''name'' of
              Throws e \<Rightarrow> Throws e
            | Returns nm \<Rightarrow>
                Returns (map (\<lambda>s. if Some (JStr (us_name s)) = nm
                                  then s\<lparr>us_status := SC_Connected, us_lastPing := Some now\<rparr> else s) prev)))"

text \<open>The promise's value and the updater's outcome on the list React holds.\<close>

definition connectToServer_ui :: "json option \<Rightarrow> timestamp \<Rightarrow> ui_server list \<Rightarrow> bool \<times> ui_server list outcome" where
  "connectToServer_ui cfg now ss = (True, connect_updater cfg now ss)"

definition disconnectFromServer :: "string \<Rightarrow> ui_server list \<Rightarrow> ui_server list" where
  "disconnectFromServer name ss =
     map (\<lambda>s. if us_name s = name then s\<lparr>us_status := SC_Disconnected, us_lastPing := None\<rparr> else s) ss"

text \<open>The simulated \<open>callTool\<close>: it answers success for every tool, echoing the arguments.\<close>

definition callTool_ui :: "string \<Rightarrow> json option \<Rightarrow> json" where
  "callTool_ui tool args =
     obj [(''success'', Some (JBool True)),
          (''result'', Some (JStr (''Tool '' @ tool @ '' executed successfully''))), (''data'', args)]"

record ui_health =
  uh_totalServers :: nat
  uh_connectedServers :: nat
  uh_servers :: "(string \<times> server_conn \<times> timestamp option) list"

definition getServerHealth_ui :: "ui_server list \<Rightarrow> ui_health" where
  "getServerHealth_ui ss =
     \<lparr>uh_totalServers = length ss, uh_connectedServers = connectedServers ss,
      uh_servers = map (\<lambda>s. (us_name s, us_status s, us_lastPing s)) ss\<rparr>"

text \<open>The 30-second interval of the health-check effect.\<close>

definition health_tick :: "timestamp \<Rightarrow> ui_server list \<Rightarrow> ui_server list" where
  "health_tick now ss = map (\<lambda>s. if us_status s = SC_Connected then s\<lparr>us_lastPing := Some now\<rparr> else s) ss"

section \<open>AuthProvider\<close>

text \<open>
  The signed-in user as the JavaScript value the state holds (\<open>JNull\<close> for \<open>null\<close>), and
  \<open>localStorage\<close> as a string map. \<open>JSON.parse\<close> is a parameter: the parsed value, or
  \<open>None\<close> when it throws.
\<close>

record auth_state =
  au_user :: json
  au_isAuthenticated :: bool
  au_storage :: "(string \<times> string) list"

type_synonym json_parser = "string \<Rightarrow> json option"

definition auth_init :: "(string \<times> string) list \<Rightarrow> auth_state" where
  "auth_init st = \<lparr>au_user = JNull, au_isAuthenticated = False, au_storage = st\<rparr>"

text \<open>The mount effect: restore the stored session, or drop what does not parse.\<close>

definition auth_mount :: "json_parser \<Rightarrow> auth_state \<Rightarrow> auth_state" where
  "auth_mount parse a =
     (case map_of (au_storage a) ''zeo_user'' of
        None \<Rightarrow> a
      | Some raw \<Rightarrow>
          if raw = [] then a
          else (case parse raw of
                  Some u \<Rightarrow> a\<lparr>au_user := u, au_isAuthenticated := True\<rparr>
                | None \<Rightarrow> a\<lparr>au_storage := AList.delete ''zeo_user'' (au_storage a)\<rparr>))"

definition auth_login :: "json \<Rightarrow> auth_state \<Rightarrow> auth_state" where
  "auth_login u a =
     a\<lparr>au_user := u, au_isAuthenticated := True,
       au_storage := AList.update ''zeo_user'' (json_stringify u) (au_storage a)\<rparr>"

text \<open>
  \<open>logout\<close>: the user and the flag cleared, the stored user removed. The
  \<open>window.location.reload()\<close> it ends with only takes effect when the page unloads,
  an event of the page (\<open>Frontend_App\<close>); React renders the cleared state before.
\<close>

definition auth_logout :: "auth_state \<Rightarrow> auth_state" where
  "auth_logout a = a\<lparr>au_user := JNull, au_isAuthenticated := False, au_storage := AList.delete ''zeo_user'' (au_storage a)\<rparr>"

text \<open>The shape of the \<open>User\<close> interface: an object with the six string fields.\<close>

definition user_shaped :: "json \<Rightarrow> bool" where
  "user_shaped v \<longleftrightarrow>
     (case v of
        JObj _ \<Rightarrow> list_all (\<lambda>k. case json_get v k of Some (JStr _) \<Rightarrow> True | _ \<Rightarrow> False)
                    [''id'', ''name'', ''email'', ''role'', ''organization'', ''avatar'']
      | _ \<Rightarrow> False)"

section \<open>ThemeProvider\<close>

text \<open>
  The theme as the string the state holds: the stored value is cast to \<open>Theme\<close>
  without a check. The mount effect reads the stored theme or the system preference.
\<close>

definition theme_mount :: "string option \<Rightarrow> bool \<Rightarrow> string" where
  "theme_mount stored prefers_light =
     (case stored of
        Some t \<Rightarrow> if t \<noteq> [] then t else (if prefers_light then ''light'' else ''dark'')
      | None \<Rightarrow> if prefers_light then ''light'' else ''dark'')"

definition toggleTheme :: "string \<Rightarrow> string" where
  "toggleTheme prev = (if prev = ''dark'' then ''light'' else ''dark'')"

text \<open>The effect on \<open>[theme]\<close>: \<open>data-theme\<close> and the class of the root element, and \<open>localStorage\<close>.\<close>

record theme_effects =
  te_dataTheme :: string
  te_className :: string
  te_storage :: "(string \<times> string) list"

definition theme_apply :: "string \<Rightarrow> theme_effects \<Rightarrow> theme_effects" where
  "theme_apply theme d =
     d\<lparr>te_dataTheme := theme, te_className := theme, te_storage := AList.update ''zeo_theme'' theme (te_storage d)\<rparr>"

section \<open>MSAL configuration\<close>

text \<open>\<open>msal.LogLevel\<close> and the \<open>console\<close> method a log line goes to.\<close>

datatype log_level = LL_Error | LL_Warning | LL_Info | LL_Verbose | LL_Trace

datatype console_call = Console_Error string | Console_Warn string | Console_Info string | Console_Debug string

definition loggerCallback :: "log_level \<Rightarrow> string \<Rightarrow> bool \<Rightarrow> console_call option" where
  "loggerCallback level message containsPii =
     (if containsPii then None
      else (case level of
              LL_Error \<Rightarrow> Some (Console_Error message)
            | LL_Info \<Rightarrow> Some (Console_Info message)
            | LL_Verbose \<Rightarrow> Some (Console_Debug message)
            | LL_Warning \<Rightarrow> Some (Console_Warn message)
            | LL_Trace \<Rightarrow> None))"

text \<open>
  \<open>msalConfig.auth\<close> from \<open>process.env\<close> and \<open>window.location.origin\<close>; each is
  \<open>None\<close> where the environment lacks it (\<open>process\<close> in a browser, \<open>window\<close> in Node),
  and reading it then throws \<open>ReferenceError\<close>.
\<close>

definition env_or :: "(string \<times> string) list \<Rightarrow> string \<Rightarrow> string \<Rightarrow> string" where
  "env_or penv k dflt = (case map_of penv k of Some v \<Rightarrow> if v \<noteq> [] then v else dflt | None \<Rightarrow> dflt)"

definition msalConfig_auth ::
  "(string \<times> string) list option \<Rightarrow> string option \<Rightarrow> json outcome" where
  "msalConfig_auth penv origin =
     (case penv of
        None \<Rightarrow> Throws ''ReferenceError: process is not defined''
      | Some env \<Rightarrow>
          (let cid = env_or env ''ENTRA_CLIENT_ID'' ''e406fc3a-55f9-4477-9039-09f27292560e'';
               auth = env_or env ''ENTRA_AUTHORITY''
                        ''https://login.microsoftonline.com/c97cb1fb-d321-401b-b372-417a528542ba''
           in case (map_of env ''ENTRA_REDIRECT_URI'', origin) of
                (_, None) \<Rightarrow> Throws ''ReferenceError: window is not defined''
              | (r, Some org) \<Rightarrow>
                  Returns (JObj [(''clientId'', JStr cid), (''authority'', JStr auth),
                    (''redirectUri'', JStr (case r of Some v \<Rightarrow> if v \<noteq> [] then v else org @ ''/'' | None \<Rightarrow> org @ ''/'')),
                    (''postLogoutRedirectUri'', JStr (org @ ''/''))])))"

definition loginRequest :: json where
  "loginRequest = JObj [(''scopes'', JArr [JStr ''User.Read'', JStr ''profile'', JStr ''openid'', JStr ''email''])]"

definition graphConfig :: json where
  "graphConfig = JObj [(''graphMeEndpoint'', JStr ''https://graph.microsoft.com/v1.0/me''),
     (''graphPhotoEndpoint'', JStr ''https://graph.microsoft.com/v1.0/me/photo/$value'')]"


section \<open>Invariants and reference definitions\<close>

text \<open>
  The activations whose next \<open>setTimeout\<close> is pending; a job as \<open>processAudio\<close> can
  leave it; the audio invariant: the current job is such a job, each activation has at
  most one pending timer, and a pending timer's activation has a step left.
\<close>

definition steps_of :: "audio_cont list \<Rightarrow> nat list" where
  "steps_of ks = concat (map (\<lambda>k. case k of AK_Step a \<Rightarrow> [a] | _ \<Rightarrow> []) ks)"

definition job_ok :: "audio_job \<Rightarrow> bool" where
  "job_ok j \<longleftrightarrow> aj_progress j \<in> set (0 # progress_steps) \<and> aj_status j \<noteq> Audio_Error \<and>
     (aj_status j = Audio_Completed \<longrightarrow> aj_completedAt j \<noteq> None \<and> aj_duration j = Some ''2:34'')"

definition audio_ok :: "audio_provider \<Rightarrow> bool" where
  "audio_ok p \<longleftrightarrow> pred_option job_ok (currentJob p) \<and> distinct (steps_of (a_pending p)) \<and>
     (\<forall>a \<in> set (steps_of (a_pending p)). a < length (activations p) \<and> activations p ! a < length progress_steps)"

text \<open>Two uploads, the second while the first is at its last step.\<close>

definition overlap_events :: "audio_event list" where
  "overlap_events =
     [AE_UploadFile 1 ''k3x9q2p7m'', AE_Fire 0 False 2 [], AE_Fire 0 False 3 [], AE_Fire 0 False 4 [],
      AE_Fire 0 False 5 [], AE_Fire 0 False 6 [], AE_UploadFile 7 ''a8b7c6d5e'', AE_Fire 0 False 8 [],
      AE_Fire 0 False 9 []]"

text \<open>What \<open>connectionStatus\<close> promises, stated over the servers' statuses.\<close>

definition connection_status_spec :: "ui_server list \<Rightarrow> overall_status" where
  "connection_status_spec ss =
     (if ss \<noteq> [] \<and> list_all (\<lambda>s. us_status s = SC_Connected) ss then Overall_Connected
      else if list_ex (\<lambda>s. us_status s = SC_Connected) ss then Overall_Partial
      else Overall_Disconnected)"

definition sample_user :: json where
  "sample_user = JObj [(''id'', JStr ''u1''), (''name'', JStr ''Ana''), (''email'', JStr ''ana@example.org''),
     (''role'', JStr ''doctor''), (''organization'', JStr ''clinic''), (''avatar'', JStr ''A'')]"

section \<open>Properties of the audio provider\<close>

lemma steps_of_simps [simp]:
  "steps_of [] = []" "steps_of (xs @ ys) = steps_of xs @ steps_of ys"
  "steps_of [AK_Step a] = [a]" "steps_of [AK_UserMedia] = []" "steps_of [AK_OnStop r] = []"
  by (simp_all add: steps_of_def)

lemma steps_of_remove:
  assumes "i < length ks"
  shows "steps_of ks = steps_of (take i ks) @ steps_of [ks ! i] @ steps_of (drop (Suc i) ks)"
proof -
  have "ks = take i ks @ [ks ! i] @ drop (Suc i) ks" using assms by (simp add: id_take_nth_drop)
  then show ?thesis by (metis steps_of_simps(2))
qed

lemma audio_ok_init: "audio_ok audio_init"
  by (simp add: audio_ok_def audio_init_def)

lemma audio_schedule_fields [simp]:
  "a_pending (audio_schedule k p) = a_pending p @ [k]" "currentJob (audio_schedule k p) = currentJob p"
  "activations (audio_schedule k p) = activations p"
  by (simp_all add: audio_schedule_def)

lemma audio_ok_frame:
  assumes "audio_ok p" "pred_option job_ok (currentJob q)" "activations q = activations p"
    "steps_of (a_pending q) = steps_of (a_pending p)"
  shows "audio_ok q"
  using assms by (simp add: audio_ok_def)

lemma audio_fields [simp]:
  "currentJob (recorder_stop r p) = currentJob p" "activations (recorder_stop r p) = activations p"
  "steps_of (a_pending (recorder_stop r p)) = steps_of (a_pending p)"
  "currentJob (release_stream p) = currentJob p" "activations (release_stream p) = activations p"
  "a_pending (release_stream p) = a_pending p"
  "currentJob (stopRecording_audio p) = currentJob p" "activations (stopRecording_audio p) = activations p"
  "steps_of (a_pending (stopRecording_audio p)) = steps_of (a_pending p)"
  "currentJob (recording_granted p) = currentJob p" "activations (recording_granted p) = activations p"
  "a_pending (recording_granted p) = a_pending p"
  "currentJob (ondataavailable sz p) = currentJob p" "activations (ondataavailable sz p) = activations p"
  "a_pending (ondataavailable sz p) = a_pending p"
  by (simp_all add: recorder_stop_def release_stream_def stopRecording_audio_def recording_granted_def
      ondataavailable_def audio_schedule_def split: option.split)

lemma release_stream_ok: "audio_ok p \<Longrightarrow> audio_ok (release_stream p)"
  using audio_ok_frame [of p "release_stream p"] by (simp add: audio_ok_def)

lemma audio_ok_noncont:
  "audio_ok p \<Longrightarrow> audio_ok (audio_schedule AK_UserMedia p)"
  "audio_ok p \<Longrightarrow> audio_ok (stopRecording_audio p)"
  "audio_ok p \<Longrightarrow> audio_ok (ondataavailable sz p)"
  by (simp_all add: audio_ok_def)

lemma processAudio_ok: "audio_ok p \<Longrightarrow> audio_ok (processAudio now rnd p)"
  by (auto simp: audio_ok_def processAudio_def job_ok_def progress_steps_def nth_append)

lemma resetAudio_ok: "audio_ok p \<Longrightarrow> audio_ok (resetAudio p)"
  by (auto simp: resetAudio_def Let_def audio_ok_def split: option.split)

lemma processAudio_step_ok:
  assumes "pred_option job_ok (currentJob p)" "distinct (steps_of (a_pending p))"
    "a \<notin> set (steps_of (a_pending p))" "a < length (activations p)"
    "activations p ! a < length progress_steps"
    "\<forall>b \<in> set (steps_of (a_pending p)). b < length (activations p) \<and> activations p ! b < length progress_steps"
  shows "audio_ok (processAudio_step a now p)"
proof -
  let ?pc = "activations p ! a"
  have j: "pred_option job_ok (map_option (\<lambda>j. j\<lparr>aj_progress := progress_steps ! ?pc\<rparr>) (currentJob p))"
    using assms(1,5) by (cases "currentJob p") (auto simp: job_ok_def)
  have o: "\<forall>b \<in> set (steps_of (a_pending p)). (activations p)[a := Suc ?pc] ! b = activations p ! b"
    using assms(3) by (intro ballI nth_list_update_neq) auto
  show ?thesis
  proof (cases "Suc ?pc < length progress_steps")
    case True
    with j o assms show ?thesis
      by (auto simp: processAudio_step_def audio_ok_def audio_schedule_def Let_def)
  next
    case False
    have "pred_option job_ok (currentJob (processAudio_finish now
        (p\<lparr>currentJob := map_option (\<lambda>j. j\<lparr>aj_progress := progress_steps ! ?pc\<rparr>) (currentJob p),
           activations := (activations p)[a := Suc ?pc]\<rparr>)))"
      by (cases "currentJob p") (auto simp: processAudio_finish_def job_ok_def progress_steps_def)
    with False o assms show ?thesis
      by (auto simp: processAudio_step_def audio_ok_def processAudio_finish_def Let_def)
  qed
qed

lemma audio_step_ok: "audio_ok p \<Longrightarrow> audio_ok (audio_step p e)"
proof (cases e)
  case (AE_Fire i g now rnd)
  assume ok: "audio_ok p"
  show ?thesis
  proof (cases "i < length (a_pending p)")
    case True
    let ?p0 = "p\<lparr>a_pending := take i (a_pending p) @ drop (Suc i) (a_pending p)\<rparr>"
    have d: "distinct (steps_of (take i (a_pending p)) @ steps_of [a_pending p ! i] @ steps_of (drop (Suc i) (a_pending p)))"
      using ok steps_of_remove [OF True] by (simp add: audio_ok_def)
    have s: "set (steps_of (a_pending p)) = set (steps_of (a_pending ?p0)) \<union> set (steps_of [a_pending p ! i])"
      using steps_of_remove [OF True] by auto
    show ?thesis
    proof (cases "a_pending p ! i")
      case AK_UserMedia
      with ok d s AE_Fire True show ?thesis
        by (auto simp: audio_ok_def)
    next
      case (AK_Step a)
      have "audio_step p e = processAudio_step a now ?p0" using AE_Fire True AK_Step by simp
      moreover have "audio_ok (processAudio_step a now ?p0)"
        by (rule processAudio_step_ok) (use ok d s AK_Step in \<open>auto simp: audio_ok_def\<close>)
      ultimately show ?thesis by simp
    next
      case (AK_OnStop r)
      have "audio_ok ?p0" using ok d s AK_OnStop by (auto simp: audio_ok_def)
      with AE_Fire True AK_OnStop show ?thesis
        by (simp add: recorder_onstop_def processAudio_ok release_stream_ok)
    qed
  qed (simp add: AE_Fire ok)
qed (auto simp: uploadFile_def processAudio_ok resetAudio_ok audio_ok_noncont)

lemma areach_audio_ok: "areach p \<Longrightarrow> audio_ok p"
  by (induction rule: areach.induct) (simp_all add: audio_ok_init audio_step_ok)

text \<open>C7: in every state the audio provider reaches, under any interleaving of uploads,
  recordings, resets and timers, the current job's progress is one of the values of
  \<open>progressSteps\<close> or 0, so within 0 and 100.\<close>

theorem progress_bounded:
  assumes "areach p" "currentJob p = Some j"
  shows "aj_progress j \<in> {0, 10, 30, 50, 70, 90, 100}"
  using areach_audio_ok [OF assms(1)] assms(2) by (auto simp: audio_ok_def job_ok_def progress_steps_def)

theorem progress_bounded_witness:
  "areach (audio_step audio_init (AE_UploadFile 1 ''k3x9q2p7m'')) \<and>
   currentJob (audio_step audio_init (AE_UploadFile 1 ''k3x9q2p7m'')) =
     Some \<lparr>aj_id = vercel_job_id 1 ''k3x9q2p7m'', aj_status = Audio_Processing, aj_progress = 0,
           aj_duration = None, aj_createdAt = 1, aj_completedAt = None\<rparr> \<and>
   (0::nat) \<in> {0, 10, 30, 50, 70, 90, 100}"
proof -
  have r: "areach (audio_step audio_init (AE_UploadFile 1 ''k3x9q2p7m''))"
    by (rule areach_step [OF areach_init])
  have c: "currentJob (audio_step audio_init (AE_UploadFile 1 ''k3x9q2p7m'')) =
     Some \<lparr>aj_id = vercel_job_id 1 ''k3x9q2p7m'', aj_status = Audio_Processing, aj_progress = 0,
           aj_duration = None, aj_createdAt = 1, aj_completedAt = None\<rparr>"
    by (simp add: uploadFile_def processAudio_def audio_init_def audio_schedule_def)
  from progress_bounded [OF r c] r c show ?thesis by simp
qed

text \<open>The current job is never in status \<open>error\<close> (the \<open>catch\<close> of \<open>processAudio\<close>
  is unreachable), and a completed job carries its completion date and duration.\<close>

theorem job_never_error:
  assumes "areach p" "currentJob p = Some j"
  shows "aj_status j \<noteq> Audio_Error \<and>
         (aj_status j = Audio_Completed \<longrightarrow> aj_completedAt j \<noteq> None \<and> aj_duration j = Some ''2:34'')"
  using areach_audio_ok [OF assms(1)] assms(2) by (auto simp: audio_ok_def job_ok_def)

theorem job_never_error_witness:
  "areach (audio_run audio_init overlap_events) \<and>
   aj_status (the (currentJob (audio_run audio_init overlap_events))) \<noteq> Audio_Error \<and>
   aj_completedAt (the (currentJob (audio_run audio_init overlap_events))) \<noteq> None"
proof -
  have r: "areach (audio_run p es)" if "areach p" for p es
    using that by (induction es arbitrary: p) (simp_all add: areach_step)
  have ra: "areach (audio_run audio_init overlap_events)" by (rule r [OF areach_init])
  have c: "currentJob (audio_run audio_init overlap_events) = Some (the (currentJob (audio_run audio_init overlap_events)))"
    by (simp add: overlap_events_def audio_init_def uploadFile_def processAudio_def processAudio_step_def
      processAudio_finish_def audio_schedule_def progress_steps_def Let_def)
  have s: "aj_status (the (currentJob (audio_run audio_init overlap_events))) = Audio_Completed"
    by (simp add: overlap_events_def audio_init_def uploadFile_def processAudio_def processAudio_step_def
      processAudio_finish_def audio_schedule_def progress_steps_def Let_def)
  from job_never_error [OF ra c] ra s show ?thesis by simp
qed

text \<open>C8: \<open>resetAudio\<close> does not stop a running \<open>processAudio\<close>: when the activation's
  last timer fires after the reset, the mock transcription and analysis reappear
  while no job is current.\<close>

theorem reset_resurrects_transcription:
  assumes "i < length (a_pending p)" "a_pending p ! i = AK_Step a"
    "Suc (activations p ! a) = length progress_steps"
  shows "currentJob (audio_step (audio_step p AE_Reset) (AE_Fire i g now rnd)) = None \<and>
         transcription (audio_step (audio_step p AE_Reset) (AE_Fire i g now rnd)) = Some audio_mock_transcription \<and>
         analysis (audio_step (audio_step p AE_Reset) (AE_Fire i g now rnd)) = Some mock_analysis"
proof -
  have pend: "i < length (a_pending (resetAudio p)) \<and> a_pending (resetAudio p) ! i = AK_Step a \<and>
              activations (resetAudio p) = activations p \<and> currentJob (resetAudio p) = None"
    using assms(1,2) by (auto simp: resetAudio_def Let_def recorder_stop_def release_stream_def
        audio_schedule_def nth_append split: option.split)
  then show ?thesis using assms(3)
    by (simp add: processAudio_step_def processAudio_finish_def Let_def)
qed

theorem reset_resurrects_transcription_witness:
  "currentJob (audio_step (audio_step (audio_run audio_init (take 6 overlap_events)) AE_Reset) (AE_Fire 0 False 9 [])) = None \<and>
   transcription (audio_step (audio_step (audio_run audio_init (take 6 overlap_events)) AE_Reset) (AE_Fire 0 False 9 [])) =
     Some audio_mock_transcription"
proof -
  let ?p = "audio_run audio_init (take 6 overlap_events)"
  have h: "a_pending ?p = [AK_Step 0] \<and> activations ?p = [5]"
    by (simp add: overlap_events_def audio_init_def uploadFile_def processAudio_def processAudio_step_def
      audio_schedule_def progress_steps_def Let_def)
  then have "0 < length (a_pending ?p)" "a_pending ?p ! 0 = AK_Step 0" "Suc (activations ?p ! 0) = length progress_steps"
    by (simp_all add: progress_steps_def)
  from reset_resurrects_transcription [OF this, of False 9 "[]"] show ?thesis by simp
qed

text \<open>A second upload while the first is at its last step: the first activation
  completes the second job and clears \<open>isProcessing\<close>, and the second activation's
  next timer sets that completed job's progress back to 10.\<close>

theorem overlapping_uploads_completed_at_10:
  "aj_status (the (currentJob (audio_run audio_init overlap_events))) = Audio_Completed \<and>
   aj_progress (the (currentJob (audio_run audio_init overlap_events))) = 10 \<and>
   aj_id (the (currentJob (audio_run audio_init overlap_events))) = vercel_job_id 7 ''a8b7c6d5e'' \<and>
   \<not> isProcessing (audio_run audio_init overlap_events) \<and>
   a_pending (audio_run audio_init overlap_events) = [AK_Step 1]"
  by (simp add: overlap_events_def audio_init_def uploadFile_def processAudio_def processAudio_step_def
      processAudio_finish_def audio_schedule_def progress_steps_def Let_def)

section \<open>Properties of the MCP, auth and theme providers\<close>

text \<open>C14: \<open>connectionStatus\<close>, computed by counting, is the status its definition
  promises: connected when there are servers and all are connected, partial when some
  but not all are, disconnected otherwise (also for no servers).\<close>

theorem connectionStatus_spec: "connectionStatus ss = connection_status_spec ss"
proof -
  let ?P = "\<lambda>s. us_status s = SC_Connected"
  have z: "(length (filter ?P ss) = 0) = (\<not> list_ex ?P ss)"
    by (simp add: filter_empty_conv list_ex_iff)
  have a: "(length (filter ?P ss) = length ss) = list_all ?P ss"
    by (metis filter_True length_filter_less list_all_iff nat_less_le)
  show ?thesis
    using z a by (auto simp: connectionStatus_def connectedServers_def connection_status_spec_def list_all_iff list_ex_iff)
qed

text \<open>C27: \<open>connectToServer\<close> resolves \<open>true\<close> for every config and changes nothing
  for a name no server has; a missing config is never a rejection: with no servers it
  is not read, otherwise the \<open>TypeError\<close> is thrown by the state updater when React
  applies it.\<close>

theorem connectToServer_unknown:
  assumes "json_get (JObj kvs) ''name'' = Some (JStr nm)" "nm \<notin> us_name ` set ss"
  shows "connectToServer_ui (Some (JObj kvs)) now ss = (True, Returns ss) \<and>
         fst (connectToServer_ui cfg now ss) = True \<and>
         connectToServer_ui None now [] = (True, Returns []) \<and>
         connectToServer_ui None now (s # ss) = (True, Throws (type_error_msg ''name''))"
proof -
  have "map (\<lambda>s. if Some (JStr (us_name s)) = Some (JStr nm)
                  then s\<lparr>us_status := SC_Connected, us_lastPing := Some now\<rparr> else s) ss = ss"
    using assms(2) by (induction ss) auto
  with assms(1) show ?thesis by (simp add: connectToServer_ui_def connect_updater_def)
qed

theorem connectToServer_unknown_witness:
  "connectToServer_ui (Some (JObj [(''name'', JStr ''pubmed'')])) 5 (mcp_initial_servers 0) = (True, Returns (mcp_initial_servers 0))"
  using connectToServer_unknown [of "[(''name'', JStr ''pubmed'')]" "''pubmed''" "mcp_initial_servers 0" 5]
  by (simp add: mcp_initial_servers_def)

text \<open>C23: a user restored from \<open>localStorage\<close> is not checked against the \<open>User\<close>
  interface: any value that parses, \<open>null\<close> included, signs the user in.\<close>

theorem stored_user_unchecked:
  assumes "map_of st ''zeo_user'' = Some raw" "raw \<noteq> []" "parse raw = Some v" "\<not> user_shaped v"
  shows "au_isAuthenticated (auth_mount parse (auth_init st)) \<and> \<not> user_shaped (au_user (auth_mount parse (auth_init st)))"
  using assms by (simp add: auth_mount_def auth_init_def)

theorem stored_user_unchecked_witness:
  "au_isAuthenticated (auth_mount (\<lambda>s. if s = ''null'' then Some JNull else None) (auth_init [(''zeo_user'', ''null'')])) \<and>
   au_user (auth_mount (\<lambda>s. if s = ''null'' then Some JNull else None) (auth_init [(''zeo_user'', ''null'')])) = JNull"
proof -
  have "\<not> user_shaped JNull" by (simp add: user_shaped_def)
  from stored_user_unchecked [of "[(''zeo_user'', ''null'')]" "''null''" "\<lambda>s. if s = ''null'' then Some JNull else None" JNull, OF _ _ _ this]
  show ?thesis by (simp add: auth_mount_def auth_init_def)
qed

text \<open>C24: after \<open>login(user)\<close>, a reload restores the same user signed in, provided
  \<open>JSON.parse\<close> inverts \<open>JSON.stringify\<close> on it.\<close>

theorem login_reload_restores:
  assumes "parse (json_stringify u) = Some u"
  shows "au_user (auth_mount parse (auth_init (au_storage (auth_login u a)))) = u \<and>
         au_isAuthenticated (auth_mount parse (auth_init (au_storage (auth_login u a))))"
  using assms by (simp add: auth_mount_def auth_init_def auth_login_def json_stringify_nonempty)

theorem login_reload_restores_witness:
  "au_user (auth_mount (\<lambda>s. if s = json_stringify sample_user then Some sample_user else None)
     (auth_init (au_storage (auth_login sample_user (auth_init []))))) = sample_user"
  using login_reload_restores [of "\<lambda>s. if s = json_stringify sample_user then Some sample_user else None" sample_user]
  by simp

end
