(* ===== verification/Frontend_App.thy ===== *)
theory Frontend_App
  imports React_Providers
begin

text \<open>
  The Next.js page (\<open>src/app/page.tsx\<close>), the sign-in modals
  (\<open>src/components/auth\<close>) and the view switch of \<open>src/components/main-application.tsx\<close>,
  composed with the \<open>AuthProvider\<close> of \<open>React_Providers\<close>. The page's state cell, its
  splash timer and the modal's state are fields of one record; each effect runs after
  the change of the state it depends on, each timer is an event, and \<open>logout\<close>
  calls \<open>reload()\<close>: React renders the signed-out state, and the page's unload,
  a later event, mounts everything again on the storage left. The theory also
  holds \<open>EnhancedAuthModal\<close> and \<open>MainApplication\<close> as step functions over their
  controls, \<open>Header\<close>'s view, and the invariants: the application only for an
  authenticated user or between a logout and its unload, one pending sign-in at a time.
\<close>

section \<open>HomePage\<close>

datatype page_view = View_Splash | View_Auth | View_App

datatype page_output = Render_Splash | Render_Auth | Render_Main

text \<open>What \<open>HomePage\<close> renders for its view and \<open>isAuthenticated\<close>.\<close>

definition page_render :: "page_view \<Rightarrow> bool \<Rightarrow> page_output" where
  "page_render v authd =
     (if v = View_Splash then Render_Splash
      else if v = View_Auth \<and> \<not> authd then Render_Auth
      else Render_Main)"

section \<open>AuthModal\<close>

datatype auth_step = Step_Select | Step_Enterprise | Step_Demo

datatype auth_kind = Kind_Enterprise | Kind_Demo

definition enterprise_user :: json where
  "enterprise_user = JObj [(''id'', JStr ''enterprise-user''), (''name'', JStr ''Dr. Maria Silva''),
     (''email'', JStr ''maria.silva@hospital.com''), (''role'', JStr ''physician''),
     (''organization'', JStr (''Hospital S'' @ [CHR 0xC3, CHR 0xA3] @ ''o Paulo'')), (''avatar'', JStr ''MS'')]"

definition demo_user :: json where
  "demo_user = JObj [(''id'', JStr ''demo-user''), (''name'', JStr ''Demo User''), (''email'', JStr ''demo@zeo.app''),
     (''role'', JStr ''demo''), (''organization'', JStr ''ZEO Demo''), (''avatar'', JStr ''DU'')]"

fun user_of_kind :: "auth_kind \<Rightarrow> json" where
  "user_of_kind Kind_Enterprise = enterprise_user"
| "user_of_kind Kind_Demo = demo_user"

text \<open>
  The page with its providers: the auth state, the view, whether the splash timer is
  pending, the modal's step and \<open>loading\<close>, and the \<open>handleAuth\<close> calls waiting for
  their timer.
\<close>

record frontend =
  fe_auth :: auth_state
  fe_view :: page_view
  fe_splash_timer :: bool
  fe_step :: auth_step
  fe_loading :: bool
  fe_waits :: "auth_kind list"
  fe_reloading :: bool \<comment> \<open>\<open>window.location.reload()\<close> called, the page not yet unloaded\<close>

text \<open>
  The effects that depend on \<open>isAuthenticated\<close>, after it changed: the splash timer is
  cleared and set again, and an authenticated user is sent to the application.
\<close>

definition page_auth_effects :: "frontend \<Rightarrow> frontend" where
  "page_auth_effects s =
     s\<lparr>fe_splash_timer := True,
       fe_view := (if au_isAuthenticated (fe_auth s) \<and> fe_view s \<noteq> View_App then View_App else fe_view s)\<rparr>"

text \<open>A page load: the providers mount on the stored data, then the page's effects run.\<close>

definition frontend_mount :: "json_parser \<Rightarrow> (string \<times> string) list \<Rightarrow> frontend" where
  "frontend_mount parse st =
     (let s = \<lparr>fe_auth = auth_init st, fe_view = View_Splash, fe_splash_timer = True, fe_step = Step_Select,
               fe_loading = False, fe_waits = [], fe_reloading = False\<rparr>;
          a = auth_mount parse (fe_auth s)
      in if au_isAuthenticated a then page_auth_effects (s\<lparr>fe_auth := a\<rparr>) else s\<lparr>fe_auth := a\<rparr>)"

text \<open>The splash timer: after three seconds, the application or the sign-in modal.\<close>

definition splash_timer :: "frontend \<Rightarrow> frontend" where
  "splash_timer s =
     (if fe_splash_timer s
      then s\<lparr>fe_view := (if au_isAuthenticated (fe_auth s) then View_App else View_Auth), fe_splash_timer := False\<rparr>
      else s)"

definition modal_shown :: "frontend \<Rightarrow> bool" where
  "modal_shown s \<longleftrightarrow> page_render (fe_view s) (au_isAuthenticated (fe_auth s)) = Render_Auth"

text \<open>\<open>handleAuth(step)\<close> up to its \<open>await\<close>; the button is disabled while \<open>loading\<close>.\<close>

definition handleAuth :: "frontend \<Rightarrow> frontend" where
  "handleAuth s =
     (if modal_shown s \<and> \<not> fe_loading s \<and> fe_step s \<noteq> Step_Select
      then s\<lparr>fe_loading := True,
             fe_waits := fe_waits s @ [if fe_step s = Step_Enterprise then Kind_Enterprise else Kind_Demo]\<rparr>
      else s)"

text \<open>After the timer: \<open>await login(user)\<close>, \<open>setLoading(false)\<close>, \<open>onComplete()\<close>.\<close>

definition handleAuth_done :: "auth_kind \<Rightarrow> frontend \<Rightarrow> frontend" where
  "handleAuth_done k s =
     (let s1 = s\<lparr>fe_auth := auth_login (user_of_kind k) (fe_auth s)\<rparr>;
          s2 = (if au_isAuthenticated (fe_auth s) then s1 else page_auth_effects s1)
      in s2\<lparr>fe_loading := False, fe_view := View_App\<rparr>)"

text \<open>
  The modal's controls: on \<open>select\<close> the two choice buttons (\<open>setStep("enterprise")\<close>,
  \<open>setStep("demo")\<close>); on a choice the sign-in button and \<open>Voltar\<close>
  (\<open>setStep("select")\<close>), which is not disabled while loading.
\<close>

definition step_button_shown :: "auth_step \<Rightarrow> auth_step \<Rightarrow> bool" where
  "step_button_shown cur st = (if cur = Step_Select then st \<noteq> Step_Select else st = Step_Select)"

record auth_modal_view =
  amv_heading :: "string option"
  amv_button :: "string option"
  amv_button_disabled :: bool

text \<open>The choice panel: its heading, the sign-in button's text and its \<open>disabled={loading}\<close>.\<close>

definition auth_modal_render :: "auth_step \<Rightarrow> bool \<Rightarrow> auth_modal_view" where
  "auth_modal_render st loading =
     (case st of
        Step_Select \<Rightarrow> \<lparr>amv_heading = None, amv_button = None, amv_button_disabled = False\<rparr>
      | Step_Enterprise \<Rightarrow> \<lparr>amv_heading = Some ''Microsoft Entra ID'',
           amv_button = Some (if loading then ''Autenticando...'' else ''Entrar com Microsoft''),
           amv_button_disabled = loading\<rparr>
      | Step_Demo \<Rightarrow> \<lparr>amv_heading = Some ''Modo Demo'',
           amv_button = Some (if loading then ''Iniciando...'' else ''Entrar no Demo''),
           amv_button_disabled = loading\<rparr>)"

datatype frontend_event =
    FE_SplashTimer
  | FE_SelectStep auth_step
  | FE_AuthClick
  | FE_AuthTimer nat
  | FE_Logout
  | FE_Reload

fun frontend_step :: "json_parser \<Rightarrow> frontend \<Rightarrow> frontend_event \<Rightarrow> frontend" where
  "frontend_step parse s FE_SplashTimer = splash_timer s"
| "frontend_step parse s (FE_SelectStep st) =
     (if modal_shown s \<and> step_button_shown (fe_step s) st then s\<lparr>fe_step := st\<rparr> else s)"
| "frontend_step parse s FE_AuthClick = handleAuth s"
| "frontend_step parse s (FE_AuthTimer i) =
     (if i < length (fe_waits s)
      then handleAuth_done (fe_waits s ! i) (s\<lparr>fe_waits := take i (fe_waits s) @ drop (Suc i) (fe_waits s)\<rparr>)
      else s)"
| "frontend_step parse s FE_Logout =
     (if page_render (fe_view s) (au_isAuthenticated (fe_auth s)) = Render_Main
      then page_auth_effects (s\<lparr>fe_auth := auth_logout (fe_auth s), fe_reloading := True\<rparr>)
      else s)"
| "frontend_step parse s FE_Reload =
     (if fe_reloading s then frontend_mount parse (au_storage (fe_auth s)) else s)"

inductive freach :: "json_parser \<Rightarrow> frontend \<Rightarrow> bool" for parse where
  freach_mount: "freach parse (frontend_mount parse st)"
| freach_step: "freach parse s \<Longrightarrow> freach parse (frontend_step parse s e)"

text \<open>
  The light that follows the pointer: the \<open>mousemove\<close> listener of the mount effect
  stores \<open>clientX\<close>/\<open>clientY\<close>, and the \<open>w-96 h-96\<close> orb (384 px) is placed at the
  position minus 192 px on both axes.
\<close>

definition auth_mouse_light :: "int \<times> int \<Rightarrow> int \<times> int" where
  "auth_mouse_light pos = (fst pos - 192, snd pos - 192)"

section \<open>EnhancedAuthModal\<close>

text \<open>Its two handlers: \<open>isLoading\<close>, a timer of two or one seconds, \<open>login\<close>, then \<open>onAuthComplete\<close>.\<close>

definition enhanced_auth_delay :: "auth_kind \<Rightarrow> nat" where
  "enhanced_auth_delay k = (case k of Kind_Enterprise \<Rightarrow> 2000 | Kind_Demo \<Rightarrow> 1000)"

definition enhanced_auth_done :: "auth_kind \<Rightarrow> auth_state \<Rightarrow> auth_state \<times> bool" where
  "enhanced_auth_done k a = (auth_login (user_of_kind k) a, False)"

text \<open>
  The modal as its page would drive it: \<open>authStep\<close>, \<open>isLoading\<close>, the pending
  timers of the handlers (each for the panel it was clicked on), and the number of
  \<open>onAuthComplete\<close> calls. The panels show the same controls as \<open>AuthModal\<close>'s:
  choice buttons on \<open>select\<close>, a sign-in button \<open>disabled={isLoading}\<close> and
  \<open>Voltar\<close> on a choice.
\<close>

record enhanced_modal =
  em_step :: auth_step
  em_loading :: bool
  em_waits :: "auth_kind list"
  em_completed :: nat

definition enhanced_modal_init :: enhanced_modal where
  "enhanced_modal_init = \<lparr>em_step = Step_Select, em_loading = False, em_waits = [], em_completed = 0\<rparr>"

datatype enhanced_event = EE_Select auth_step | EE_Click | EE_Timer nat

fun enhanced_modal_step :: "enhanced_modal \<times> auth_state \<Rightarrow> enhanced_event \<Rightarrow> enhanced_modal \<times> auth_state" where
  "enhanced_modal_step (m, a) (EE_Select st) =
     (if step_button_shown (em_step m) st then (m\<lparr>em_step := st\<rparr>, a) else (m, a))"
| "enhanced_modal_step (m, a) EE_Click =
     (if em_step m \<noteq> Step_Select \<and> \<not> em_loading m
      then (m\<lparr>em_loading := True,
              em_waits := em_waits m @ [if em_step m = Step_Enterprise then Kind_Enterprise else Kind_Demo]\<rparr>, a)
      else (m, a))"
| "enhanced_modal_step (m, a) (EE_Timer i) =
     (if i < length (em_waits m)
      then (let (a', loading) = enhanced_auth_done (em_waits m ! i) a
            in (m\<lparr>em_loading := loading, em_waits := take i (em_waits m) @ drop (Suc i) (em_waits m),
                  em_completed := Suc (em_completed m)\<rparr>, a'))
      else (m, a))"

text \<open>The panels of \<open>EnhancedAuthModal\<close>: heading, sign-in button text and disabled state.\<close>

definition enhanced_modal_render :: "auth_step \<Rightarrow> bool \<Rightarrow> auth_modal_view" where
  "enhanced_modal_render st isLoading =
     (if st = Step_Enterprise
      then \<lparr>amv_heading = Some ''Microsoft Entra ID'',
            amv_button = Some (if isLoading then ''Autenticando...'' else ''Entrar com Microsoft''),
            amv_button_disabled = isLoading\<rparr>
      else if st = Step_Demo
      then \<lparr>amv_heading = Some ''Modo Demo'',
            amv_button = Some (if isLoading then ''Iniciando...'' else ''Entrar no Demo''),
            amv_button_disabled = isLoading\<rparr>
      else \<lparr>amv_heading = None, amv_button = None, amv_button_disabled = False\<rparr>)"

text \<open>\<open>EnhancedAuthModal\<close>'s light: the position minus 200 px (its size is set by the \<open>auth-light-orb\<close> class).\<close>

definition enhanced_mouse_light :: "int \<times> int \<Rightarrow> int \<times> int" where
  "enhanced_mouse_light pos = (fst pos - 200, snd pos - 200)"

section \<open>MainApplication\<close>

datatype app_state = App_Upload | App_Processing | App_Results

text \<open>The effect on \<open>[currentJob, transcription]\<close>.\<close>

definition main_sync :: "audio_job option \<Rightarrow> string option \<Rightarrow> app_state \<Rightarrow> app_state" where
  "main_sync job tr st =
     (case job of
        None \<Rightarrow> st
      | Some j \<Rightarrow> if aj_status j = Audio_Processing then App_Processing
                 else if aj_status j = Audio_Completed \<and> tr \<noteq> None \<and> tr \<noteq> Some [] then App_Results
                 else st)"

definition handleReset :: "app_state \<Rightarrow> app_state" where
  "handleReset st = App_Upload"

text \<open>
  The page's own state: the panel, whether the chat modal is open, and the
  dependencies the effect last ran with (React runs it again only when they change).
  Events: the provider's \<open>currentJob\<close>/\<open>transcription\<close> as rendered, the results
  card's \<open>onReset\<close> (rendered on \<open>results\<close> only), the floating chat button and the
  modal's \<open>onClose\<close>.
\<close>

record main_app =
  ma_state :: app_state
  ma_chatOpen :: bool
  ma_deps :: "audio_job option \<times> string option"

definition main_app_mount :: "audio_job option \<Rightarrow> string option \<Rightarrow> main_app" where
  "main_app_mount job tr = \<lparr>ma_state = main_sync job tr App_Upload, ma_chatOpen = False, ma_deps = (job, tr)\<rparr>"

datatype main_event =
    ME_Provider "audio_job option" "string option"
  | ME_Reset
  | ME_ChatButton
  | ME_ChatClose

fun main_app_step :: "main_app \<Rightarrow> main_event \<Rightarrow> main_app" where
  "main_app_step m (ME_Provider job tr) =
     (if (job, tr) = ma_deps m then m else m\<lparr>ma_state := main_sync job tr (ma_state m), ma_deps := (job, tr)\<rparr>)"
| "main_app_step m ME_Reset = (if ma_state m = App_Results then m\<lparr>ma_state := handleReset (ma_state m)\<rparr> else m)"
| "main_app_step m ME_ChatButton = m\<lparr>ma_chatOpen := True\<rparr>"
| "main_app_step m ME_ChatClose = m\<lparr>ma_chatOpen := False\<rparr>"

section \<open>Header\<close>

text \<open>
  What \<open>Header\<close> shows: the status dot (green only when \<open>connectionStatus\<close> is
  \<open>connected\<close>), \<open>MCP: n servers\<close>, the theme button's icon, and the user's avatar,
  name and organisation read with \<open>user?.\<close>, \<open>undefined\<close> for a user that is not an object.
\<close>

datatype theme_icon = Icon_Sun | Icon_Moon

record header_view =
  hv_dot_green :: bool
  hv_servers :: string
  hv_icon :: theme_icon
  hv_avatar :: "json option"
  hv_name :: "json option"
  hv_organization :: "json option"

definition header_render :: "string \<Rightarrow> auth_state \<Rightarrow> ui_server list \<Rightarrow> header_view" where
  "header_render theme a ss =
     \<lparr>hv_dot_green = (connectionStatus ss = Overall_Connected),
      hv_servers = ''MCP: '' @ string_of_nat (connectedServers ss) @ '' servers'',
      hv_icon = (if theme = ''dark'' then Icon_Sun else Icon_Moon),
      hv_avatar = json_get (au_user a) ''avatar'', hv_name = json_get (au_user a) ''name'',
      hv_organization = json_get (au_user a) ''organization''\<rparr>"


section \<open>Properties of the page\<close>

text \<open>The page's invariant: the view is the application only for an authenticated user.\<close>

definition fe_ok :: "frontend \<Rightarrow> bool" where
  "fe_ok s \<longleftrightarrow> (fe_view s = View_App \<longrightarrow> au_isAuthenticated (fe_auth s) \<or> fe_reloading s)"

text \<open>A sign-in through the demo path: splash, the modal's demo step, the click and its timer.\<close>

definition demo_signin :: frontend where
  "demo_signin = fold (\<lambda>e s. frontend_step (\<lambda>_. None) s e)
     [FE_SplashTimer, FE_SelectStep Step_Demo, FE_AuthClick, FE_AuthTimer 0] (frontend_mount (\<lambda>_. None) [])"

lemma auth_login_authenticated [simp]: "au_isAuthenticated (auth_login u a)"
  by (simp add: auth_login_def)

lemma frontend_mount_ok: "fe_ok (frontend_mount parse st)"
  by (simp add: fe_ok_def frontend_mount_def page_auth_effects_def Let_def)

lemma frontend_step_ok: "fe_ok s \<Longrightarrow> fe_ok (frontend_step parse s e)"
  by (cases e) (auto simp: fe_ok_def frontend_mount_ok [unfolded fe_ok_def] splash_timer_def handleAuth_def
      handleAuth_done_def page_auth_effects_def Let_def)

lemma freach_ok: "freach parse s \<Longrightarrow> fe_ok s"
  by (induction rule: freach.induct) (simp_all add: frontend_mount_ok frontend_step_ok)

text \<open>
  One sign-in at a time: the modal has a pending login exactly while it shows loading,
  and never two, since the sign-in button is disabled while loading.
\<close>

definition fe_single :: "frontend \<Rightarrow> bool" where
  "fe_single s = (length (fe_waits s) = (if fe_loading s then 1 else 0))"

lemma frontend_mount_idle [simp]:
  "fe_loading (frontend_mount parse st) = False" "fe_waits (frontend_mount parse st) = []"
  by (simp_all add: frontend_mount_def Let_def page_auth_effects_def)

lemma frontend_mount_single: "fe_single (frontend_mount parse st)"
  by (simp add: fe_single_def)

lemma frontend_step_single: "fe_single s \<Longrightarrow> fe_single (frontend_step parse s e)"
proof (cases e)
  case (FE_AuthTimer i)
  then show ?thesis if "fe_single s"
    using that by (auto simp: fe_single_def handleAuth_done_def Let_def page_auth_effects_def)
qed (auto simp: fe_single_def splash_timer_def handleAuth_def page_auth_effects_def)

lemma freach_single_login: "freach parse s \<Longrightarrow> fe_single s"
  by (induction rule: freach.induct) (simp_all add: frontend_mount_single frontend_step_single)

text \<open>
  \<open>EnhancedAuthModal\<close> keeps the same discipline: one pending sign-in exactly while
  loading, and every completed sign-in leaves the user authenticated. Its panels render
  as \<open>AuthModal\<close>'s.
\<close>

definition em_single :: "enhanced_modal \<Rightarrow> bool" where
  "em_single m = (length (em_waits m) = (if em_loading m then 1 else 0))"

definition em_ok :: "enhanced_modal \<times> auth_state \<Rightarrow> bool" where
  "em_ok ma = (em_single (fst ma) \<and> (0 < em_completed (fst ma) \<longrightarrow> au_isAuthenticated (snd ma)))"

lemma enhanced_modal_step_ok: "em_ok (m, a) \<Longrightarrow> em_ok (enhanced_modal_step (m, a) e)"
  by (cases e) (auto simp: em_ok_def em_single_def enhanced_auth_done_def)

lemma enhanced_modal_run: "em_ok (foldl enhanced_modal_step (enhanced_modal_init, a) evs)"
proof (induction evs rule: rev_induct)
  case (snoc e evs)
  then show ?case by (cases "foldl enhanced_modal_step (enhanced_modal_init, a) evs") (simp add: enhanced_modal_step_ok)
qed (simp add: em_ok_def em_single_def enhanced_modal_init_def)

lemma enhanced_modal_render_eq: "enhanced_modal_render = auth_modal_render"
proof (intro ext)
  show "enhanced_modal_render st l = auth_modal_render st l" for st l
    by (cases st) (simp_all add: enhanced_modal_render_def auth_modal_render_def)
qed

text \<open>C15: under any interleaving of the splash timer, the modal's clicks and timers,
  logouts and reloads, and whatever the storage holds at load, \<open>HomePage\<close> renders the
  main application only while the auth provider says the user is authenticated, or
  between a logout and the page's unload (\<open>logout\<close> clears the state, React renders,
  then \<open>reload()\<close> takes effect).\<close>

theorem main_app_requires_auth:
  assumes "freach parse s" "page_render (fe_view s) (au_isAuthenticated (fe_auth s)) = Render_Main"
  shows "au_isAuthenticated (fe_auth s) \<or> fe_reloading s"
  using freach_ok [OF assms(1)] assms(2) by (cases "fe_view s") (auto simp: fe_ok_def page_render_def split: if_splits)

theorem main_app_requires_auth_witness:
  "page_render (fe_view demo_signin) (au_isAuthenticated (fe_auth demo_signin)) = Render_Main \<and>
   au_isAuthenticated (fe_auth demo_signin) \<and> au_user (fe_auth demo_signin) = demo_user"
proof -
  have r: "freach (\<lambda>_. None) (fold (\<lambda>e s. frontend_step (\<lambda>_. None) s e) es s)" if "freach (\<lambda>_. None) s" for es s
    using that by (induction es arbitrary: s) (simp_all add: freach_step)
  have f: "freach (\<lambda>_. None) demo_signin" unfolding demo_signin_def by (rule r [OF freach_mount])
  have m: "page_render (fe_view demo_signin) (au_isAuthenticated (fe_auth demo_signin)) = Render_Main \<and>
           au_user (fe_auth demo_signin) = demo_user \<and> \<not> fe_reloading demo_signin"
    by (simp add: demo_signin_def frontend_mount_def auth_mount_def auth_init_def splash_timer_def modal_shown_def
        page_render_def handleAuth_def handleAuth_done_def auth_login_def page_auth_effects_def Let_def
        step_button_shown_def)
  from main_app_requires_auth [OF f] m show ?thesis by simp
qed

text \<open>
  The results panel outlives the data it shows: once on \<open>results\<close>, a provider change
  to no job and no transcription (what \<open>resetAudio\<close> sets) leaves the panel in place,
  and after \<open>onReset\<close> the page stays on \<open>upload\<close> while the provider is unchanged.
\<close>

lemma main_app_results_stale:
  "ma_state m = App_Results \<Longrightarrow> ma_deps m \<noteq> (None, None) \<Longrightarrow>
     ma_state (main_app_step m (ME_Provider None None)) = App_Results"
  by (simp add: main_sync_def)

lemma main_app_reset_sticks:
  "ma_state m = App_Results \<Longrightarrow>
     ma_state (main_app_step (main_app_step m ME_Reset) (ME_Provider job tr)) =
       (if (job, tr) = ma_deps m then App_Upload else main_sync job tr App_Upload)"
  by (simp add: handleReset_def)

text \<open>
  With \<open>MCPProvider\<close>'s initial servers, two of three connected, the header reads
  \<open>MCP: 2 servers\<close> next to a red dot: \<open>partial\<close> is shown as disconnected.
\<close>

lemma header_initial_servers:
  "hv_dot_green (header_render th a (mcp_initial_servers now)) = False \<and>
   hv_servers (header_render th a (mcp_initial_servers now)) = ''MCP: 2 servers''"
proof -
  have "string_of_nat 2 = ''2''" by code_simp
  then have "string_of_nat (Suc (Suc 0)) = ''2''" by (simp add: numeral_2_eq_2)
  then show ?thesis
    by (simp add: header_render_def connectionStatus_def connectedServers_def mcp_initial_servers_def)
qed

text \<open>The sign-in modal's orb is centred on the pointer.\<close>

lemma auth_mouse_light_centred:
  "fst (auth_mouse_light p) + 384 div 2 = fst p \<and> snd (auth_mouse_light p) + 384 div 2 = snd p"
  by (simp add: auth_mouse_light_def)

text \<open>
  Between \<open>logout\<close> and the unload, \<open>HomePage\<close> still renders \<open>MainApplication\<close>,
  now for a signed-out user: the view stays \<open>app\<close>.
\<close>

lemma logout_renders_main_signed_out:
  "let s = frontend_step (\<lambda>_. None) demo_signin FE_Logout
   in page_render (fe_view s) (au_isAuthenticated (fe_auth s)) = Render_Main \<and> \<not> au_isAuthenticated (fe_auth s) \<and>
      fe_reloading s"
  by (simp add: demo_signin_def frontend_mount_def auth_mount_def auth_init_def splash_timer_def modal_shown_def
      page_render_def handleAuth_def handleAuth_done_def auth_login_def page_auth_effects_def Let_def
      step_button_shown_def auth_logout_def)

end
