(* ===== verification/Frontend_Widgets.thy ===== *)
theory Frontend_Widgets
  imports React_Providers
begin

text \<open>
  The stateful widgets of the Next.js front end: the audio upload cards
  (\<open>src/components/audio/audio-upload.tsx\<close>, \<open>enhanced-audio-upload.tsx\<close>), the
  processing cards (\<open>audio-processing.tsx\<close>, \<open>enhanced-audio-processing.tsx\<close>), the
  results card (\<open>transcription-results.tsx\<close>) and the three chat widgets
  (\<open>src/components/chat\<close>). Each widget's \<open>useState\<close> cells are a record; a promise
  it awaits is a pending continuation settled by an event with its outcome; the chat
  widgets' \<open>fetch('/api/chat')\<close> is answered by the JSON body of an HTTP response,
  so that they compose with the handlers of \<open>Http_Api\<close>. The chat widgets' controls
  are step functions over typing, Enter, clicks, settled requests and timers, with the
  input's and the button's disabled states; the modals keep one request in flight.
\<close>

section \<open>Upload cards\<close>

text \<open>\<open>formatTime(seconds)\<close>: minutes, a colon, and the seconds padded to two digits.\<close>

definition pad_start2 :: "string \<Rightarrow> string" where
  "pad_start2 s = (if length s < 2 then replicate (2 - length s) CHR ''0'' @ s else s)"

definition format_time :: "nat \<Rightarrow> string" where
  "format_time seconds = string_of_nat (seconds div 60) @ '':'' @ pad_start2 (string_of_nat (seconds mod 60))"

definition mic_error_alert :: string where
  "mic_error_alert = ''Erro ao acessar o microfone. Verifique as permiss'' @ [CHR 0xC3, CHR 0xB5] @ ''es.''"

text \<open>What a handler of the card awaits: \<open>startRecording()\<close> or \<open>stopRecording()\<close> of the provider.\<close>

datatype upload_wait = UW_Start | UW_Stop

text \<open>
  The card: \<open>isRecording\<close>, \<open>recordingTime\<close>, the interval handles with the one
  \<open>intervalRef\<close> names, the pending awaits, the alerts shown and the files handed to
  \<open>uploadFile\<close>. The enhanced card also keeps the preview URL of the last recording.
\<close>

record upload_card =
  uc_isRecording :: bool
  uc_recordingTime :: nat
  uc_intervals :: pool
  uc_pending :: "upload_wait list"
  uc_alerts :: "string list"
  uc_uploads :: "string list"
  uc_audioPreview :: "nat option"

definition upload_card_init :: upload_card where
  "upload_card_init = \<lparr>uc_isRecording = False, uc_recordingTime = 0, uc_intervals = ([], None, 0),
     uc_pending = [], uc_alerts = [], uc_uploads = [], uc_audioPreview = None\<rparr>"

text \<open>The start button is shown while not recording and disabled while the provider processes.\<close>

definition handleStartRecording :: "bool \<Rightarrow> upload_card \<Rightarrow> upload_card" where
  "handleStartRecording processing c =
     (if \<not> uc_isRecording c \<and> \<not> processing then c\<lparr>uc_pending := uc_pending c @ [UW_Start]\<rparr> else c)"

definition handleStopRecording :: "upload_card \<Rightarrow> upload_card" where
  "handleStopRecording c = (if uc_isRecording c then c\<lparr>uc_pending := uc_pending c @ [UW_Stop]\<rparr> else c)"

text \<open>
  The continuations: after \<open>startRecording()\<close> resolves, recording starts with a new
  one-second interval in \<open>intervalRef\<close>; if it rejects, the alert. After
  \<open>stopRecording()\<close> resolves (with the blob, whose handle the enhanced card keeps as
  preview), recording stops and the interval \<open>intervalRef\<close> names is cleared.
\<close>

fun upload_settle :: "upload_wait \<Rightarrow> nat option outcome \<Rightarrow> upload_card \<Rightarrow> upload_card" where
  "upload_settle UW_Start (Returns _) c =
     c\<lparr>uc_isRecording := True, uc_recordingTime := 0, uc_intervals := pool_alloc (uc_intervals c)\<rparr>"
| "upload_settle UW_Start (Throws _) c = c\<lparr>uc_alerts := uc_alerts c @ [mic_error_alert]\<rparr>"
| "upload_settle UW_Stop (Returns blob) c =
     c\<lparr>uc_isRecording := False, uc_intervals := pool_release (uc_intervals c),
       uc_audioPreview := (case blob of None \<Rightarrow> uc_audioPreview c | Some b \<Rightarrow> Some b)\<rparr>"
| "upload_settle UW_Stop (Throws _) c = c"

text \<open>A tick of a live interval: \<open>setRecordingTime(prev => prev + 1)\<close>.\<close>

definition recording_tick :: "nat \<Rightarrow> upload_card \<Rightarrow> upload_card" where
  "recording_tick k c =
     (if k \<in> set (fst (uc_intervals c)) then c\<lparr>uc_recordingTime := Suc (uc_recordingTime c)\<rparr> else c)"

text \<open>\<open>handleFileUpload\<close>: the first chosen file, if any, goes to \<open>uploadFile\<close>.\<close>

definition handleFileUpload_card :: "string option \<Rightarrow> upload_card \<Rightarrow> upload_card" where
  "handleFileUpload_card file c = (case file of None \<Rightarrow> c | Some f \<Rightarrow> c\<lparr>uc_uploads := uc_uploads c @ [f]\<rparr>)"

datatype upload_event =
    UE_ClickStart bool \<comment> \<open>with the provider's \<open>isProcessing\<close>\<close>
  | UE_ClickStop
  | UE_Settle nat "nat option outcome"
  | UE_Tick nat
  | UE_File "string option"

fun upload_step :: "upload_card \<Rightarrow> upload_event \<Rightarrow> upload_card" where
  "upload_step c (UE_ClickStart processing) = handleStartRecording processing c"
| "upload_step c UE_ClickStop = handleStopRecording c"
| "upload_step c (UE_Settle i out) =
     (if i < length (uc_pending c)
      then upload_settle (uc_pending c ! i) out (c\<lparr>uc_pending := take i (uc_pending c) @ drop (Suc i) (uc_pending c)\<rparr>)
      else c)"
| "upload_step c (UE_Tick k) = recording_tick k c"
| "upload_step c (UE_File f) = handleFileUpload_card f c"

section \<open>Processing cards\<close>

text \<open>\<open>currentJob?.progress || 0\<close> and the status line and icon of the two cards.\<close>

definition shown_progress :: "audio_job option \<Rightarrow> nat" where
  "shown_progress job = (case job of None \<Rightarrow> 0 | Some j \<Rightarrow> aj_progress j)"

datatype status_icon = Icon_Waveform | Icon_Brain | Icon_FileText

definition getStatusIcon :: "nat \<Rightarrow> status_icon" where
  "getStatusIcon progress =
     (if progress < 30 then Icon_Waveform else if progress < 70 then Icon_Brain else Icon_FileText)"

definition getStatusText :: "nat \<Rightarrow> string" where
  "getStatusText progress =
     (if progress < 30 then ''Analisando '' @ [CHR 0xC3, CHR 0xA1] @ ''udio...''
      else if progress < 70 then ''Transcrevendo com IA...''
      else if progress < 90 then ''Processando contexto...''
      else ''Finalizando...'')"

definition getStatusText_enhanced :: "nat \<Rightarrow> string" where
  "getStatusText_enhanced progress =
     (if progress < 30 then ''Analisando '' @ [CHR 0xC3, CHR 0xA1] @ ''udio...''
      else if progress < 70 then ''Transcrevendo com IA...''
      else if progress < 90 then ''Processando contexto m'' @ [CHR 0xC3, CHR 0xA9] @ ''dico...''
      else ''Finalizando transcri'' @ [CHR 0xC3, CHR 0xA7, CHR 0xC3, CHR 0xA3] @ ''o...'')"

text \<open>The three steps under the bar, each completed once the progress is past its threshold.\<close>

definition processing_steps :: "nat \<Rightarrow> (string \<times> bool) list" where
  "processing_steps progress =
     [(''An'' @ [CHR 0xC3, CHR 0xA1] @ ''lise'', 30 < progress),
      (''Transcri'' @ [CHR 0xC3, CHR 0xA7, CHR 0xC3, CHR 0xA3] @ ''o'', 70 < progress),
      (''Contexto'', 90 < progress)]"

definition processing_steps_enhanced :: "nat \<Rightarrow> (string \<times> bool) list" where
  "processing_steps_enhanced progress =
     [(''An'' @ [CHR 0xC3, CHR 0xA1] @ ''lise de '' @ [CHR 0xC3, CHR 0x81] @ ''udio'', 30 < progress),
      (''Transcri'' @ [CHR 0xC3, CHR 0xA7, CHR 0xC3, CHR 0xA3] @ ''o IA'', 70 < progress),
      (''Contexto M'' @ [CHR 0xC3, CHR 0xA9] @ ''dico'', 90 < progress)]"

section \<open>Results card\<close>

datatype results_wait = RW_Clipboard | RW_CopiedTimer

record results_card =
  rc_copied :: bool
  rc_pending :: "results_wait list"

text \<open>\<open>handleCopy\<close>: with a transcription, \<open>await navigator.clipboard.writeText\<close>.\<close>

definition handleCopy :: "string option \<Rightarrow> results_card \<Rightarrow> results_card" where
  "handleCopy tr c = (if tr \<noteq> None \<and> tr \<noteq> Some [] then c\<lparr>rc_pending := rc_pending c @ [RW_Clipboard]\<rparr> else c)"

text \<open>The clipboard write resolves: \<open>copied\<close>, and a two-second timer that clears it; a rejection leaves the rest of the handler unrun.\<close>

fun results_settle :: "results_wait \<Rightarrow> bool \<Rightarrow> results_card \<Rightarrow> results_card" where
  "results_settle RW_Clipboard ok c = (if ok then c\<lparr>rc_copied := True, rc_pending := rc_pending c @ [RW_CopiedTimer]\<rparr> else c)"
| "results_settle RW_CopiedTimer ok c = c\<lparr>rc_copied := False\<rparr>"

text \<open>\<open>handleExport\<close>: the file name and the text downloaded, from the ISO clock string.\<close>

definition handleExport :: "string option \<Rightarrow> string \<Rightarrow> (string \<times> string) option" where
  "handleExport tr iso_now =
     (case tr of
        None \<Rightarrow> None
      | Some t \<Rightarrow> if t = [] then None else Some (''transcricao-'' @ take 10 iso_now @ ''.txt'', t))"

section \<open>Chat widgets\<close>

datatype chat_sender = Chat_User | Chat_Bot

record chat_msg =
  cm_id :: string
  cm_content :: "json option" \<comment> \<open>\<open>undefined\<close> when the answer has no \<open>response\<close>\<close>
  cm_sender :: chat_sender
  cm_timestamp :: timestamp

text \<open>A chat widget: its messages, input, typing flag, the bodies it posted, and the
  replies it awaits (for the simulated panel, the input and context each reply uses).\<close>

record chat_box =
  cb_messages :: "chat_msg list"
  cb_input :: string
  cb_isTyping :: bool
  cb_requests :: "json list"
  cb_waiting :: "(string \<times> string option) list"

definition chat_box_init :: "string \<Rightarrow> timestamp \<Rightarrow> chat_box" where
  "chat_box_init greeting now =
     \<lparr>cb_messages = [\<lparr>cm_id = ''1'', cm_content = Some (JStr greeting), cm_sender = Chat_Bot, cm_timestamp = now\<rparr>],
      cb_input = [], cb_isTyping = False, cb_requests = [], cb_waiting = []\<rparr>"

definition chat_modal_greeting :: string where
  "chat_modal_greeting = ''Ol'' @ [CHR 0xC3, CHR 0xA1] @ ''! Sou o ZEO, seu assistente inteligente. Posso ajudar com qualquer assunto - tecnologia, ci'' @ [CHR 0xC3, CHR 0xAA] @ ''ncia, medicina, ou apenas conversar. Como posso ajud'' @ [CHR 0xC3, CHR 0xA1] @ ''-lo?''"

definition acrylic_greeting :: string where
  "acrylic_greeting = ''Ol'' @ [CHR 0xC3, CHR 0xA1] @ ''! Sou o ZEO, seu assistente inteligente. Posso ajudar com quest'' @ [CHR 0xC3, CHR 0xB5] @ ''es cl'' @ [CHR 0xC3, CHR 0xAD] @ ''nicas, tecnologia, ci'' @ [CHR 0xC3, CHR 0xAA] @ ''ncia, ou qualquer outro t'' @ [CHR 0xC3, CHR 0xB3] @ ''pico. Como posso ajud'' @ [CHR 0xC3, CHR 0xA1] @ ''-lo hoje?''"

definition panel_greeting :: string where
  "panel_greeting = ''Ol'' @ [CHR 0xC3, CHR 0xA1] @ ''! Sou o ZEO, seu assistente cl'' @ [CHR 0xC3, CHR 0xAD] @ ''nico. Como posso ajud'' @ [CHR 0xC3, CHR 0xA1] @ ''-lo hoje?''"

definition chat_error_sorry :: string where
  "chat_error_sorry = ''Desculpe, ocorreu um erro. Tente novamente.''"

definition modal_conn_error :: string where
  "modal_conn_error = ''Erro de conex'' @ [CHR 0xC3, CHR 0xA3] @ ''o. Verifique sua internet.''"

definition acrylic_conn_error :: string where
  "acrylic_conn_error = ''Erro de conex'' @ [CHR 0xC3, CHR 0xA3] @ ''o. Verifique sua internet e tente novamente.''"

text \<open>
  The common start of \<open>sendMessage\<close>/\<open>handleSendMessage\<close>: a blank input does nothing;
  otherwise the user's message (id \<open>Date.now()\<close>), an empty input, the typing flag.
\<close>

definition chat_post :: "timestamp \<Rightarrow> chat_box \<Rightarrow> chat_box" where
  "chat_post now c =
     c\<lparr>cb_messages := cb_messages c @ [\<lparr>cm_id = string_of_nat now, cm_content = Some (JStr (cb_input c)),
                                         cm_sender = Chat_User, cm_timestamp = now\<rparr>],
       cb_input := [], cb_isTyping := True\<rparr>"

text \<open>\<open>ChatModal.sendMessage\<close>: posts \<open>{message}\<close>.\<close>

definition chat_modal_send :: "timestamp \<Rightarrow> chat_box \<Rightarrow> chat_box" where
  "chat_modal_send now c =
     (if js_trim (cb_input c) = [] then c
      else (chat_post now c)\<lparr>cb_requests := cb_requests c @ [JObj [(''message'', JStr (cb_input c))]],
                              cb_waiting := cb_waiting c @ [(cb_input c, None)]\<rparr>)"

text \<open>\<open>AcrylicChatModal.handleSendMessage\<close>: posts \<open>{message, context}\<close> with the provider's transcription.\<close>

definition acrylic_send :: "string option \<Rightarrow> timestamp \<Rightarrow> chat_box \<Rightarrow> chat_box" where
  "acrylic_send tr now c =
     (if js_trim (cb_input c) = [] then c
      else (chat_post now c)\<lparr>cb_requests := cb_requests c @
              [JObj [(''message'', JStr (cb_input c)),
                     (''context'', (case tr of Some t \<Rightarrow> if t \<noteq> [] then JObj [(''transcription'', JStr t)] else JNull
                                              | None \<Rightarrow> JNull))]],
              cb_waiting := cb_waiting c @ [(cb_input c, tr)]\<rparr>)"

text \<open>\<open>await response.json()\<close>: the body, or the \<open>SyntaxError\<close> of an empty one.\<close>

definition response_json :: "http_response \<Rightarrow> json outcome" where
  "response_json r = (case res_body r of Some b \<Rightarrow> Returns b | None \<Rightarrow> Throws ''SyntaxError: Unexpected end of JSON input'')"

text \<open>
  After the request settles: the typing flag goes off and the bot's message (id
  \<open>Date.now() + 1\<close>) is \<open>result.response\<close> when \<open>result.success\<close>, the widget's
  error text otherwise, and its connection text when the fetch, the parse or the
  read of \<open>result.success\<close> throws.
\<close>

definition chat_settle :: "string \<Rightarrow> json outcome \<Rightarrow> timestamp \<Rightarrow> chat_box \<Rightarrow> chat_box" where
  "chat_settle conn out now c =
     (let content = (case out of
                       Throws _ \<Rightarrow> Some (JStr conn)
                     | Returns r \<Rightarrow> (case js_access (Some r) ''success'' of
                                      Throws _ \<Rightarrow> Some (JStr conn)
                                    | Returns ok \<Rightarrow> if js_truthy ok then json_get r ''response''
                                                   else Some (JStr chat_error_sorry)))
      in c\<lparr>cb_isTyping := False, cb_waiting := drop 1 (cb_waiting c),
           cb_messages := cb_messages c @ [\<lparr>cm_id = string_of_nat (now + 1), cm_content = content,
                                             cm_sender = Chat_Bot, cm_timestamp = now\<rparr>]\<rparr>)"

text \<open>\<open>ChatPanel\<close>: no request; a timer answers after 1.5 s with \<open>generateBotResponse\<close>.\<close>

definition panel_responses :: "string list" where
  "panel_responses =
     [''Baseado na transcri'' @ [CHR 0xC3, CHR 0xA7, CHR 0xC3, CHR 0xA3] @ ''o, posso ajudar com an'' @ [CHR 0xC3, CHR 0xA1] @ ''lises espec'' @ [CHR 0xC3, CHR 0xAD] @ ''ficas. O que gostaria de saber?'',
      ''Posso fornecer insights sobre os dados cl'' @ [CHR 0xC3, CHR 0xAD] @ ''nicos mencionados. Tem alguma d'' @ [CHR 0xC3, CHR 0xBA] @ ''vida espec'' @ [CHR 0xC3, CHR 0xAD] @ ''fica?'',
      ''Estou aqui para auxiliar na interpreta'' @ [CHR 0xC3, CHR 0xA7, CHR 0xC3, CHR 0xA3] @ ''o dos dados m'' @ [CHR 0xC3, CHR 0xA9] @ ''dicos. Como posso ser '' @ [CHR 0xC3, CHR 0xBA] @ ''til?'',
      ''Com base no contexto da consulta, posso oferecer sugest'' @ [CHR 0xC3, CHR 0xB5] @ ''es. O que precisa?'']"

definition panel_default_response :: string where
  "panel_default_response = ''Entendo sua pergunta. Como posso ajud'' @ [CHR 0xC3, CHR 0xA1] @ ''-lo com informa'' @ [CHR 0xC3, CHR 0xA7, CHR 0xC3, CHR 0xB5] @ ''es cl'' @ [CHR 0xC3, CHR 0xAD] @ ''nicas?''"

text \<open>\<open>generateBotResponse(input, context)\<close>; \<open>r\<close> is \<open>Math.floor(Math.random() * 4)\<close>, taken modulo 4.\<close>

definition generateBotResponse :: "string \<Rightarrow> string option \<Rightarrow> nat \<Rightarrow> string" where
  "generateBotResponse input context r =
     (case context of
        Some t \<Rightarrow> if t \<noteq> [] then panel_responses ! (r mod length panel_responses) else panel_default_response
      | None \<Rightarrow> panel_default_response)"

definition panel_send :: "string option \<Rightarrow> timestamp \<Rightarrow> chat_box \<Rightarrow> chat_box" where
  "panel_send tr now c =
     (if js_trim (cb_input c) = [] then c
      else (chat_post now c)\<lparr>cb_waiting := cb_waiting c @ [(cb_input c, tr)]\<rparr>)"

definition panel_reply :: "nat \<Rightarrow> nat \<Rightarrow> timestamp \<Rightarrow> chat_box \<Rightarrow> chat_box" where
  "panel_reply i r now c =
     (if i < length (cb_waiting c)
      then (let (input, tr) = cb_waiting c ! i in
            c\<lparr>cb_waiting := take i (cb_waiting c) @ drop (Suc i) (cb_waiting c), cb_isTyping := False,
              cb_messages := cb_messages c @ [\<lparr>cm_id = string_of_nat (now + 1),
                 cm_content = Some (JStr (generateBotResponse input tr r)), cm_sender = Chat_Bot, cm_timestamp = now\<rparr>]\<rparr>)
      else c)"

subsection \<open>The chat widgets as the page drives them\<close>

text \<open>
  What the user and the page can do to a chat widget: type in the input, press Enter
  in it, click the send button, the pending request settle, the panel's 1.5 s timer
  fire (\<open>r\<close> the random index). A disabled input gets no change or key events; a
  disabled button no clicks (React re-renders after each discrete event, so a
  disabled state holds for the next event).
\<close>

datatype chat_ui_event =
    CU_Type string
  | CU_Enter timestamp
  | CU_Click timestamp
  | CU_Settle "json outcome" timestamp
  | CU_Timer nat timestamp

text \<open>
  \<open>ChatModal\<close> and \<open>AcrylicChatModal\<close> render the same controls: the input
  \<open>disabled={isTyping}\<close>, Enter calling the send handler, the button
  \<open>disabled={!input.trim() || isTyping}\<close>. \<open>send\<close> is the widget's handler, \<open>conn\<close>
  its connection-error text.
\<close>

fun guarded_chat_ui :: "(timestamp \<Rightarrow> chat_box \<Rightarrow> chat_box) \<Rightarrow> string \<Rightarrow> chat_box \<Rightarrow> chat_ui_event \<Rightarrow> chat_box" where
  "guarded_chat_ui send conn c (CU_Type s) = (if cb_isTyping c then c else c\<lparr>cb_input := s\<rparr>)"
| "guarded_chat_ui send conn c (CU_Enter now) = (if cb_isTyping c then c else send now c)"
| "guarded_chat_ui send conn c (CU_Click now) =
     (if js_trim (cb_input c) = [] \<or> cb_isTyping c then c else send now c)"
| "guarded_chat_ui send conn c (CU_Settle out now) =
     (if cb_waiting c = [] then c else chat_settle conn out now c)"
| "guarded_chat_ui send conn c (CU_Timer r now) = c"

definition chat_modal_ui :: "chat_box \<Rightarrow> chat_ui_event \<Rightarrow> chat_box" where
  "chat_modal_ui = guarded_chat_ui chat_modal_send modal_conn_error"

definition acrylic_ui :: "string option \<Rightarrow> chat_box \<Rightarrow> chat_ui_event \<Rightarrow> chat_box" where
  "acrylic_ui tr = guarded_chat_ui (acrylic_send tr) acrylic_conn_error"

text \<open>
  \<open>ChatPanel\<close>: the input is never disabled, so Enter sends while a reply is awaited;
  only the button checks \<open>isTyping\<close>. Its timers, all of 1.5 s, fire in the order they
  were set.
\<close>

fun panel_ui :: "string option \<Rightarrow> chat_box \<Rightarrow> chat_ui_event \<Rightarrow> chat_box" where
  "panel_ui tr c (CU_Type s) = c\<lparr>cb_input := s\<rparr>"
| "panel_ui tr c (CU_Enter now) = panel_send tr now c"
| "panel_ui tr c (CU_Click now) = (if js_trim (cb_input c) = [] \<or> cb_isTyping c then c else panel_send tr now c)"
| "panel_ui tr c (CU_Settle out now) = c"
| "panel_ui tr c (CU_Timer r now) = panel_reply 0 r now c"

text \<open>At most one request in flight, and the typing indicator shows exactly while one is.\<close>

definition chat_single :: "chat_box \<Rightarrow> bool" where
  "chat_single c = (length (cb_waiting c) = (if cb_isTyping c then 1 else 0))"

text \<open>What the guarded controls need of a send handler: a blank input is ignored, anything else awaits one more reply with the indicator on.\<close>

definition chat_send_ok :: "(timestamp \<Rightarrow> chat_box \<Rightarrow> chat_box) \<Rightarrow> bool" where
  "chat_send_ok send =
     ((\<forall>now c. js_trim (cb_input c) = [] \<longrightarrow> send now c = c) \<and>
      (\<forall>now c. js_trim (cb_input c) \<noteq> [] \<longrightarrow>
         cb_isTyping (send now c) \<and> length (cb_waiting (send now c)) = Suc (length (cb_waiting c))))"


section \<open>Properties of the widgets\<close>

lemma colon_not_digit: "CHR '':'' \<notin> set (string_of_nat n)"
  using string_of_nat_digits [of n] by (auto simp: is_digit_def)

lemma nat_of_digits_zeros: "nat_of_digits (replicate k CHR ''0'' @ ds) = nat_of_digits ds"
proof -
  have "foldl (\<lambda>acc c. 10 * acc + digit_val c) 0 (replicate k CHR ''0'') = 0"
    by (induction k) (simp_all add: digit_val_def)
  then show ?thesis by (simp add: nat_of_digits_def)
qed

lemma nat_of_digits_pad: "nat_of_digits (pad_start2 ds) = nat_of_digits ds"
  by (simp add: pad_start2_def nat_of_digits_zeros)

lemma js_trim_nonempty: "js_trim s \<noteq> [] \<Longrightarrow> s \<noteq> []"
  by (auto simp: js_trim_def)

text \<open>The card's interval field refines the handle pool: a resolved start allocates, a
  resolved stop releases the interval \<open>intervalRef\<close> names, and an orphan stays one.\<close>

lemma upload_step_pool: "pool_step (uc_intervals c) (uc_intervals (upload_step c e))"
proof (cases e)
  case (UE_Settle i out)
  show ?thesis
  proof (cases "i < length (uc_pending c)")
    case True
    then show ?thesis using UE_Settle
      by (cases "uc_pending c ! i"; cases out) simp_all
  qed (simp add: UE_Settle)
qed (simp_all add: handleStartRecording_def handleStopRecording_def recording_tick_def handleFileUpload_card_def
      split: option.split)


lemma chat_send_ok_modal: "chat_send_ok chat_modal_send"
  by (simp add: chat_send_ok_def chat_modal_send_def chat_post_def)

lemma chat_send_ok_acrylic: "chat_send_ok (acrylic_send tr)"
  by (simp add: chat_send_ok_def acrylic_send_def chat_post_def)

lemma chat_single_init: "chat_single (chat_box_init g now)"
  by (simp add: chat_single_def chat_box_init_def)

lemma chat_send_single:
  assumes "chat_send_ok send" and "chat_single c" and "\<not> cb_isTyping c"
  shows "chat_single (send now c)"
proof (cases "js_trim (cb_input c) = []")
  case True
  then show ?thesis using assms by (simp add: chat_send_ok_def)
next
  case False
  then have "cb_isTyping (send now c)" "length (cb_waiting (send now c)) = Suc (length (cb_waiting c))"
    using assms(1) by (simp_all add: chat_send_ok_def)
  then show ?thesis using assms(2,3) by (simp add: chat_single_def)
qed

lemma guarded_chat_ui_single:
  assumes "chat_send_ok send" and "chat_single c"
  shows "chat_single (guarded_chat_ui send conn c e)"
proof (cases e)
  case (CU_Settle out now)
  then show ?thesis using assms(2) by (auto simp: chat_single_def chat_settle_def Let_def)
next
  case (CU_Type x)
  then show ?thesis using assms(2) by (auto simp: chat_single_def)
next
  case (CU_Enter now)
  then show ?thesis using chat_send_single[OF assms] assms(2) by simp
next
  case (CU_Click now)
  then show ?thesis using chat_send_single[OF assms] assms(2) by simp
qed (use assms(2) in simp)

lemma guarded_chat_ui_run:
  "chat_send_ok send \<Longrightarrow> chat_single c \<Longrightarrow> chat_single (foldl (guarded_chat_ui send conn) c evs)"
  by (induction evs arbitrary: c) (simp_all add: guarded_chat_ui_single)

text \<open>The recording timer \<open>formatTime\<close> shows is injective: \<open>mm:ss\<close> with the
  seconds padded to two digits determines the elapsed seconds.\<close>

theorem format_time_inj: "format_time s = format_time t \<longleftrightarrow> s = t"
proof
  assume h: "format_time s = format_time t"
  then have "string_of_nat (s div 60) @ CHR '':'' # pad_start2 (string_of_nat (s mod 60)) =
             string_of_nat (t div 60) @ CHR '':'' # pad_start2 (string_of_nat (t mod 60))"
    by (simp add: format_time_def)
  from split_at_sep [OF colon_not_digit colon_not_digit this]
  have d: "s div 60 = t div 60" and p: "pad_start2 (string_of_nat (s mod 60)) = pad_start2 (string_of_nat (t mod 60))"
    by simp_all
  from arg_cong [OF p, of nat_of_digits] have "s mod 60 = t mod 60" by (simp add: nat_of_digits_pad)
  with d show "s = t" by (metis div_mult_mod_eq)
qed simp

text \<open>C16: composed with either chat backend (the Next.js route or the Vercel
  function), a non-blank message whose xAI call answers a non-ok status is posted as
  \<open>{message}\<close> and answered in the chat modal with its error text, not its
  connection text, although the two backends answer different HTTP statuses.\<close>

theorem chat_modal_upstream_error:
  assumes "js_trim (cb_input c) \<noteq> []" "env_get penv ''XAI_API_KEY'' = Some key" "key \<noteq> []" "\<not> xr_ok rep"
  shows "last (cb_requests (chat_modal_send now c)) = JObj [(''message'', JStr (cb_input c))] \<and>
    cm_content (last (cb_messages (chat_settle modal_conn_error
      (response_json (next_chat penv (Returns (JObj [(''message'', JStr (cb_input c))])) t (\<lambda>h r. Returns rep)))
      now' (chat_modal_send now c)))) = Some (JStr chat_error_sorry) \<and>
    cm_content (last (cb_messages (chat_settle modal_conn_error
      (response_json (vercel_chat ''POST'' penv (Some (JObj [(''message'', JStr (cb_input c))])) t (\<lambda>h r. Returns rep)))
      now' (chat_modal_send now c)))) = Some (JStr chat_error_sorry)"
  using assms js_trim_nonempty [OF assms(1)]
  by (simp add: chat_modal_send_def chat_post_def chat_settle_def response_json_def next_chat_def vercel_chat_def
      method_guard_def chat_call_def error_body_def respond_def Let_def)

theorem chat_modal_upstream_error_witness:
  "cm_content (last (cb_messages (chat_settle modal_conn_error
      (response_json (next_chat [(''XAI_API_KEY'', ''k'')] (Returns (JObj [(''message'', JStr ''oi'')])) ''t''
         (\<lambda>h r. Returns \<lparr>xr_ok = False, xr_status = 429, xr_json = Throws ''x''\<rparr>)))
      2 (chat_modal_send 1 ((chat_box_init chat_modal_greeting 0)\<lparr>cb_input := ''oi''\<rparr>))))) = Some (JStr chat_error_sorry)"
proof -
  have "js_trim (cb_input ((chat_box_init chat_modal_greeting 0)\<lparr>cb_input := ''oi''\<rparr>)) \<noteq> []"
    by (simp add: js_trim_def is_js_space_def)
  from chat_modal_upstream_error [OF this, of "[(''XAI_API_KEY'', ''k'')]" "''k''"
      "\<lparr>xr_ok = False, xr_status = 429, xr_json = Throws ''x''\<rparr>" 1 "''t''" 2]
  show ?thesis by (simp add: env_get_def)
qed


text \<open>C17: whatever the user does, \<open>ChatModal\<close> and \<open>AcrylicChatModal\<close> never have two
  requests to \<open>/api/chat\<close> in flight, and show the typing indicator exactly while one
  is: the input and the button are disabled while it shows.
\<close>

theorem chat_single_inflight:
  "chat_single (foldl chat_modal_ui (chat_box_init chat_modal_greeting now) evs) \<and>
   chat_single (foldl (acrylic_ui tr) (chat_box_init acrylic_greeting now) evs)"
  by (simp add: chat_modal_ui_def acrylic_ui_def guarded_chat_ui_run chat_send_ok_modal
      chat_send_ok_acrylic chat_single_init)


text \<open>
  \<open>ChatPanel\<close> does not keep it: a second message sent with Enter while the first
  reply is awaited, and the first reply hides the indicator with the second pending.
\<close>

lemma panel_enter_while_typing:
  "let c = foldl (panel_ui None) (chat_box_init panel_greeting 0)
             [CU_Type ''a'', CU_Enter 1, CU_Type ''b'', CU_Enter 2, CU_Timer 0 1501]
   in \<not> cb_isTyping c \<and> length (cb_waiting c) = 1 \<and> \<not> chat_single c"
proof -
  have t: "js_trim ''a'' = ''a''" "js_trim ''b'' = ''b''" by (simp_all add: js_trim_def is_js_space_def)
  show ?thesis
    by (simp add: chat_box_init_def panel_send_def chat_post_def panel_reply_def chat_single_def t)
qed

text \<open>
  The steps lag the status line: over the provider's progress values the cards show
  0, 0, 1, 1, 2, 3 completed steps, so at 30, 70 and 90 the status text has moved on
  (\<open>Transcrevendo\<close> at 30) while the step it left is not yet marked completed.
\<close>

lemma processing_steps_lag:
  "map (\<lambda>p. length (filter snd (processing_steps p))) progress_steps = [0, 0, 1, 1, 2, 3] \<and>
   map (\<lambda>p. map snd (processing_steps_enhanced p)) progress_steps = map (\<lambda>p. map snd (processing_steps p)) progress_steps \<and>
   getStatusText 30 = ''Transcrevendo com IA...'' \<and> \<not> snd (processing_steps 30 ! 0)"
  by (simp add: processing_steps_def processing_steps_enhanced_def progress_steps_def getStatusText_def)

end
