(* ===== verification/Animations.thy ===== *)
theory Animations
  imports Prelude
begin

text \<open>
  The GSAP animation code: the class \<open>ZeoAnimations\<close> of \<open>src/lib/gsap.ts\<close> and the
  animation methods of the legacy client \<open>src/public/script.js\<close>. The GSAP library is
  an interface given its documented meaning: a tween moves properties of a target to
  their values over a duration; \<open>fromTo\<close> first renders its start values; a timeline
  places each child at a position (by default the end of the timeline, or
  \<open>"-=x"\<close> before it); tweens of the same property run side by side (GSAP's default
  \<open>overwrite: false\<close>), so when all have finished the property holds the value of
  the tween that ended last, the later-created one on a tie. Times are milliseconds;
  style values are JSON numbers and strings (\<open>JDec 105 2\<close> is 1.05). The code's
  side of each animation is what it asks GSAP for and when its promise resolves. The
  theory also holds the components that call \<open>ZeoAnimations\<close> and the step timers
  of \<open>SplashScreen\<close>, and the properties: overlapping tweens settle at the one ending
  last, a hovered button returns to scale 1, the splash resolves when it ends.
\<close>

section \<open>GSAP\<close>

record tween =
  tw_target :: string
  tw_from :: "(string \<times> json) list" \<comment> \<open>the start values of \<open>fromTo\<close>, empty for \<open>to\<close>\<close>
  tw_to :: "(string \<times> json) list"
  tw_duration :: nat
  tw_delay :: nat
  tw_ease :: string

definition tween_end :: "nat \<Rightarrow> tween \<Rightarrow> nat" where
  "tween_end start tw = start + tw_delay tw + tw_duration tw"

text \<open>What an animation does to the page: a tween started at a time, or a property written directly at a time.\<close>

datatype anim_op = Op_Tween nat tween | Op_Set nat string string json

fun op_end :: "anim_op \<Rightarrow> nat" where
  "op_end (Op_Tween s tw) = tween_end s tw"
| "op_end (Op_Set t _ _ _) = t"

fun op_value :: "anim_op \<Rightarrow> string \<Rightarrow> string \<Rightarrow> json option" where
  "op_value (Op_Tween s tw) target prop = (if tw_target tw = target then map_of (tw_to tw) prop else None)"
| "op_value (Op_Set t tg p v) target prop = (if tg = target \<and> p = prop then Some v else None)"

text \<open>
  The value a property holds once every operation has finished: that of the operation
  on it that ends last, the later one in the list on a tie; \<open>None\<close> if none touches it.
\<close>

fun settle_pick :: "anim_op list \<Rightarrow> string \<Rightarrow> string \<Rightarrow> (nat \<times> json) option \<Rightarrow> (nat \<times> json) option" where
  "settle_pick [] target prop acc = acc"
| "settle_pick (op # ops) target prop acc =
     settle_pick ops target prop
       (case op_value op target prop of
          None \<Rightarrow> acc
        | Some v \<Rightarrow> (case acc of
                      None \<Rightarrow> Some (op_end op, v)
                    | Some (e, w) \<Rightarrow> if e \<le> op_end op then Some (op_end op, v) else Some (e, w)))"

definition settled_value :: "anim_op list \<Rightarrow> string \<Rightarrow> string \<Rightarrow> json option" where
  "settled_value ops target prop = map_option snd (settle_pick ops target prop None)"

definition anim_end :: "anim_op list \<Rightarrow> nat" where
  "anim_end ops = fold (\<lambda>op m. max m (op_end op)) ops 0"

text \<open>A timeline's children and their positions.\<close>

datatype position = At_End | End_Minus nat

datatype tl_item = TL_To tween position | TL_Call position

fun pos_time :: "nat \<Rightarrow> position \<Rightarrow> nat" where
  "pos_time d At_End = d"
| "pos_time d (End_Minus x) = d - x"

text \<open>
  Placing a timeline's children from time \<open>t0\<close>: each child starts at its position
  relative to the timeline's duration so far; the result lists the tweens with their
  start times and the times of the \<open>call\<close>s.
\<close>

fun tl_place :: "nat \<Rightarrow> nat \<Rightarrow> tl_item list \<Rightarrow> anim_op list \<times> nat list" where
  "tl_place t0 d [] = ([], [])"
| "tl_place t0 d (TL_To tw p # xs) =
     (let s = pos_time d p; (ops, calls) = tl_place t0 (max d (s + tw_delay tw + tw_duration tw)) xs
      in (Op_Tween (t0 + s) tw # ops, calls))"
| "tl_place t0 d (TL_Call p # xs) =
     (let s = pos_time d p; (ops, calls) = tl_place t0 (max d s) xs
      in (ops, (t0 + s) # calls))"


text \<open>A tween as it starts: \<open>fromTo\<close> renders its start values at once.\<close>

definition start_tween :: "nat \<Rightarrow> tween \<Rightarrow> anim_op list" where
  "start_tween t tw = map (\<lambda>(p, v). Op_Set t (tw_target tw) p v) (tw_from tw) @ [Op_Tween t tw]"

text \<open>An animation of the code: what it asks GSAP for, and when its promise resolves (\<open>None\<close>: no promise, or one that never resolves).\<close>

record anim_run =
  ar_ops :: "anim_op list"
  ar_resolve :: "nat option"

definition tween_to :: "string \<Rightarrow> (string \<times> json) list \<Rightarrow> nat \<Rightarrow> string \<Rightarrow> tween" where
  "tween_to target vars dur ease = \<lparr>tw_target = target, tw_from = [], tw_to = vars, tw_duration = dur, tw_delay = 0, tw_ease = ease\<rparr>"

definition tween_fromTo :: "string \<Rightarrow> (string \<times> json) list \<Rightarrow> (string \<times> json) list \<Rightarrow> nat \<Rightarrow> string \<Rightarrow> tween" where
  "tween_fromTo target from vars dur ease =
     \<lparr>tw_target = target, tw_from = from, tw_to = vars, tw_duration = dur, tw_delay = 0, tw_ease = ease\<rparr>"

section \<open>ZeoAnimations (src/lib/gsap.ts)\<close>

definition splash_timeline :: "tl_item list" where
  "splash_timeline =
     [TL_To (tween_to ''.splash-title'' [(''opacity'', JNum 1), (''y'', JNum 0)] 1000 ''power3.out'') At_End,
      TL_To (tween_to ''.splash-underline'' [(''width'', JStr ''120px'')] 800 ''power2.out'') (End_Minus 500),
      TL_To (tween_to ''.splash-tagline'' [(''opacity'', JNum 1), (''y'', JNum 0)] 600 ''power2.out'') (End_Minus 400),
      TL_To (tween_to ''.splash-loader'' [(''opacity'', JNum 1)] 400 ''power2.out'') (End_Minus 200),
      TL_To (tween_to ''{}'' [] 2000 ''none'') At_End,
      TL_Call At_End]"

text \<open>\<open>animateSplashScreen()\<close> started at \<open>t0\<close>: the timeline; the promise resolves at the \<open>call\<close>.\<close>

definition animateSplashScreen_zeo :: "nat \<Rightarrow> anim_run" where
  "animateSplashScreen_zeo t0 =
     (let (ops, calls) = tl_place t0 0 splash_timeline
      in \<lparr>ar_ops = ops, ar_resolve = (case calls of [] \<Rightarrow> None | c # _ \<Rightarrow> Some c)\<rparr>)"

definition transitionOut :: "string \<Rightarrow> nat \<Rightarrow> anim_run" where
  "transitionOut el t0 =
     \<lparr>ar_ops = start_tween t0 (tween_to el [(''opacity'', JNum 0), (''y'', JNum (-30))] 500 ''power2.in''),
      ar_resolve = Some (t0 + 500)\<rparr>"

definition transitionIn :: "string \<Rightarrow> nat \<Rightarrow> anim_run" where
  "transitionIn el t0 =
     \<lparr>ar_ops = start_tween t0 (tween_fromTo el [(''opacity'', JNum 0), (''y'', JNum 30)]
                                [(''opacity'', JNum 1), (''y'', JNum 0)] 600 ''power3.out''),
      ar_resolve = Some (t0 + 600)\<rparr>"

datatype hover_event = Mouse_Enter | Mouse_Leave | Mouse_Down | Mouse_Up

text \<open>The tween each listener of \<open>setupButtonAnimations\<close> starts.\<close>

fun hover_tween :: "string \<Rightarrow> hover_event \<Rightarrow> tween" where
  "hover_tween el Mouse_Enter = tween_to el [(''scale'', JDec 105 2)] 300 ''power2.out''"
| "hover_tween el Mouse_Leave = tween_to el [(''scale'', JNum 1)] 300 ''power2.out''"
| "hover_tween el Mouse_Down = tween_to el [(''scale'', JDec 95 2)] 100 ''power2.out''"
| "hover_tween el Mouse_Up = tween_to el [(''scale'', JDec 105 2)] 100 ''power2.out''"

text \<open>A button's pointer events with their times, and the tweens they start.\<close>

definition button_ops :: "string \<Rightarrow> (nat \<times> hover_event) list \<Rightarrow> anim_op list" where
  "button_ops el evs = concat (map (\<lambda>(t, e). start_tween t (hover_tween el e)) evs)"

definition animateProgress :: "string \<Rightarrow> nat \<Rightarrow> nat \<Rightarrow> anim_op list" where
  "animateProgress el progress t0 =
     start_tween t0 (tween_to el [(''width'', JStr (string_of_nat progress @ ''%''))] 800 ''power2.out'')"

definition animateTextContent :: "string \<Rightarrow> nat \<Rightarrow> nat \<Rightarrow> anim_op list" where
  "animateTextContent el delay t0 =
     start_tween t0 ((tween_fromTo el [(''opacity'', JNum 0)] [(''opacity'', JNum 1)] 800 ''power2.out'')\<lparr>tw_delay := delay\<rparr>)"

definition initializeMainAppAnimations :: "nat \<Rightarrow> anim_op list" where
  "initializeMainAppAnimations t0 =
     [Op_Set t0 ''.zeo-header'' ''opacity'' (JNum 0), Op_Set t0 ''.zeo-header'' ''y'' (JNum 30),
      Op_Set t0 ''.zeo-upload-card'' ''opacity'' (JNum 0), Op_Set t0 ''.zeo-upload-card'' ''y'' (JNum 30)] @
     fst (tl_place t0 0
       [TL_To (tween_to ''.zeo-header'' [(''opacity'', JNum 1), (''y'', JNum 0)] 800 ''power3.out'') At_End,
        TL_To (tween_to ''.zeo-upload-card'' [(''opacity'', JNum 1), (''y'', JNum 0)] 800 ''power3.out'') (End_Minus 400)])"

text \<open>
  \<open>transitionSplashToMain\<close>: the splash fades out; its \<open>onComplete\<close> hides it, shows the
  main element and starts its entrance, whose \<open>onComplete\<close> resolves the promise.
\<close>

definition transitionSplashToMain :: "string \<Rightarrow> string \<Rightarrow> nat \<Rightarrow> anim_run" where
  "transitionSplashToMain splash main t0 =
     (let t1 = t0 + 800
      in \<lparr>ar_ops = start_tween t0 (tween_to splash [(''opacity'', JNum 0), (''scale'', JDec 95 2)] 800 ''power2.in'') @
                   [Op_Set t1 splash ''display'' (JStr ''none''), Op_Set t1 main ''opacity'' (JStr ''1''),
                    Op_Set t1 main ''visibility'' (JStr ''visible'')] @
                   start_tween t1 (tween_fromTo main [(''opacity'', JNum 0), (''scale'', JDec 105 2)]
                                     [(''opacity'', JNum 1), (''scale'', JNum 1)] 800 ''power3.out''),
          ar_resolve = Some (t1 + 800)\<rparr>)"

section \<open>The legacy client's animations (src/public/script.js)\<close>

text \<open>\<open>setupButtonAnimations()\<close> of \<open>ZeoClient\<close>.\<close>

fun hover_tween_legacy :: "string \<Rightarrow> hover_event \<Rightarrow> tween" where
  "hover_tween_legacy el Mouse_Enter = tween_to el [(''scale'', JDec 105 2)] 300 ''power2.out''"
| "hover_tween_legacy el Mouse_Leave = tween_to el [(''scale'', JNum 1)] 300 ''power2.out''"
| "hover_tween_legacy el Mouse_Down = tween_to el [(''scale'', JDec 95 2)] 100 ''power2.out''"
| "hover_tween_legacy el Mouse_Up = tween_to el [(''scale'', JDec 105 2)] 100 ''power2.out''"

text \<open>\<open>initializeAnimations()\<close>: the entrance of the header and the upload card.\<close>

definition initializeAnimations :: "nat \<Rightarrow> anim_op list" where
  "initializeAnimations t0 =
     [Op_Set t0 ''.header'' ''opacity'' (JNum 0), Op_Set t0 ''.header'' ''y'' (JNum 30),
      Op_Set t0 ''.upload-card'' ''opacity'' (JNum 0), Op_Set t0 ''.upload-card'' ''y'' (JNum 30)] @
     fst (tl_place t0 0
       [TL_To (tween_to ''.header'' [(''opacity'', JNum 1), (''y'', JNum 0)] 800 ''power3.out'') At_End,
        TL_To (tween_to ''.upload-card'' [(''opacity'', JNum 1), (''y'', JNum 0)] 800 ''power3.out'') (End_Minus 400)])"

definition splash_timeline_legacy :: "tl_item list" where
  "splash_timeline_legacy =
     [TL_To (tween_to ''.splash-title'' [(''opacity'', JNum 1), (''y'', JNum 0)] 1000 ''power3.out'') At_End,
      TL_To (tween_to ''.splash-underline'' [(''width'', JStr ''120px'')] 800 ''power2.out'') (End_Minus 500),
      TL_To (tween_to ''.splash-tagline'' [(''opacity'', JNum 1), (''y'', JNum 0)] 600 ''power2.out'') (End_Minus 400),
      TL_To (tween_to ''.splash-loader'' [(''opacity'', JNum 1)] 400 ''power2.out'') (End_Minus 200),
      TL_To (tween_to ''{}'' [] 2000 ''none'') At_End,
      TL_Call At_End]"

text \<open>\<open>animateSplashScreen()\<close> of \<open>ZeoClient\<close>: without GSAP, a three-second timer.\<close>

definition animateSplashScreen_legacy :: "bool \<Rightarrow> nat \<Rightarrow> anim_run" where
  "animateSplashScreen_legacy gsap_loaded t0 =
     (if \<not> gsap_loaded then \<lparr>ar_ops = [], ar_resolve = Some (t0 + 3000)\<rparr>
      else (let (ops, calls) = tl_place t0 0 splash_timeline_legacy
            in \<lparr>ar_ops = ops, ar_resolve = (case calls of [] \<Rightarrow> None | c # _ \<Rightarrow> Some c)\<rparr>))"

text \<open>
  The first \<open>transitionToMainApp()\<close> of \<open>ZeoClient\<close> (the class's second definition
  replaces it): with both elements and GSAP it fades the splash out and the main
  application in; without GSAP it switches at once; without the elements it does nothing.
\<close>

definition transitionToMainApp_first :: "bool \<Rightarrow> bool \<Rightarrow> nat \<Rightarrow> anim_op list" where
  "transitionToMainApp_first elements gsap_loaded t0 =
     (if \<not> elements then []
      else if \<not> gsap_loaded
      then [Op_Set t0 ''splashScreen'' ''display'' (JStr ''none''), Op_Set t0 ''mainApp'' ''opacity'' (JStr ''1''),
            Op_Set t0 ''mainApp'' ''visibility'' (JStr ''visible'')]
      else (let t1 = t0 + 800
            in start_tween t0 (tween_to ''splashScreen'' [(''opacity'', JNum 0), (''scale'', JDec 95 2)] 800 ''power2.in'') @
               [Op_Set t1 ''splashScreen'' ''class:hidden'' (JBool True), Op_Set t1 ''mainApp'' ''opacity'' (JStr ''1''),
                Op_Set t1 ''mainApp'' ''visibility'' (JStr ''visible'')] @
               start_tween t1 (tween_fromTo ''mainApp'' [(''opacity'', JNum 0), (''scale'', JDec 105 2)]
                                 [(''opacity'', JNum 1), (''scale'', JNum 1)] 800 ''power3.out'')))"

text \<open>The second \<open>transitionToMainApp()\<close>, the one the class keeps: the main application's entrance only.\<close>

definition transitionToMainApp_ops :: "nat \<Rightarrow> anim_op list" where
  "transitionToMainApp_ops t0 =
     [Op_Set t0 ''mainApp'' ''opacity'' (JStr ''1''), Op_Set t0 ''mainApp'' ''visibility'' (JStr ''visible'')] @
     start_tween t0 (tween_fromTo ''mainApp'' [(''opacity'', JNum 0), (''scale'', JDec 105 2)]
                       [(''opacity'', JNum 1), (''scale'', JNum 1)] 800 ''power3.out'')"


section \<open>The components that run ZeoAnimations\<close>

text \<open>
  \<open>SplashScreen\<close> (\<open>splash-screen.tsx\<close>), the splash \<open>HomePage\<close> renders: three timers
  set the step to 1, 2 and 3 after 0.5, 1.2 and 2 s, and the cleanup clears those still
  pending when it unmounts at \<open>u\<close>. The step shown at \<open>t\<close> (both from the mount), and
  what each step shows.
\<close>

definition splash_timers :: "(nat \<times> nat) list" where
  "splash_timers = [(500, 1), (1200, 2), (2000, 3)]"

definition splash_step :: "nat \<Rightarrow> nat \<Rightarrow> nat" where
  "splash_step u t = foldl (\<lambda>st (d, v). if d \<le> t \<and> d < u then v else st) 0 splash_timers"

record splash_view =
  sv_title :: bool
  sv_underline :: nat
  sv_tagline :: bool
  sv_loader :: bool

definition splash_screen_view :: "nat \<Rightarrow> splash_view" where
  "splash_screen_view step =
     \<lparr>sv_title = (1 \<le> step), sv_underline = (if 2 \<le> step then 120 else 0),
      sv_tagline = (2 \<le> step), sv_loader = (3 \<le> step)\<rparr>"

text \<open>
  \<open>EnhancedSplashScreen\<close> (\<open>enhanced-splash-screen.tsx\<close>): on mount it waits 100 ms,
  runs \<open>animateSplashScreen\<close> and sets \<open>isComplete\<close> when it resolves; the time at
  which the splash is hidden.
\<close>

definition enhancedSplash_complete :: "nat \<Rightarrow> nat option" where
  "enhancedSplash_complete t0 = ar_resolve (animateSplashScreen_zeo (t0 + 100))"

text \<open>Its render: the splash carries the class \<open>hidden\<close> from the time \<open>isComplete\<close> is set.\<close>

definition enhancedSplash_hidden :: "nat \<Rightarrow> nat \<Rightarrow> bool" where
  "enhancedSplash_hidden t0 t = (case enhancedSplash_complete t0 of None \<Rightarrow> False | Some c \<Rightarrow> c \<le> t)"

text \<open>
  \<open>EnhancedAudioUpload\<close>'s mount effect: with the record button mounted it installs the
  hover listeners on the card buttons, and it always starts the main entrance.
  The result is whether listeners are installed and the entrance's operations.
\<close>

definition enhancedUpload_mount :: "bool \<Rightarrow> nat \<Rightarrow> bool \<times> anim_op list" where
  "enhancedUpload_mount has_button t0 = (has_button, initializeMainAppAnimations t0)"

text \<open>
  \<open>EnhancedAudioProcessing\<close>'s effect on \<open>[progress]\<close>: it animates the bar to the new
  width and runs \<open>transitionIn\<close> on the card again, with both refs mounted.
\<close>

definition processing_effect :: "nat \<Rightarrow> nat \<Rightarrow> anim_op list" where
  "processing_effect progress t =
     animateProgress ''progressRef'' progress t @ ar_ops (transitionIn ''cardRef'' t)"

text \<open>The effect's runs for the progress values the card renders, each with its time.\<close>

definition processing_ops :: "(nat \<times> nat) list \<Rightarrow> anim_op list" where
  "processing_ops runs = concat (map (\<lambda>(t, p). processing_effect p t) runs)"

section \<open>Properties of the GSAP semantics\<close>

lemma settle_pick_append:
  "settle_pick (xs @ ys) target prop acc = settle_pick ys target prop (settle_pick xs target prop acc)"
  by (induction xs arbitrary: acc) simp_all

text \<open>The end time a settled value carries is bounded by the ends of the operations.\<close>

lemma settle_pick_bound:
  assumes "\<forall>op\<in>set xs. op_end op \<le> B" and "\<forall>e w. acc = Some (e, w) \<longrightarrow> e \<le> B"
    and "settle_pick xs target prop acc = Some (e, w)"
  shows "e \<le> B"
  using assms
proof (induction xs arbitrary: acc)
  case (Cons op xs)
  let ?acc = "case op_value op target prop of
                None \<Rightarrow> acc
              | Some v \<Rightarrow> (case acc of
                            None \<Rightarrow> Some (op_end op, v)
                          | Some (e, w) \<Rightarrow> if e \<le> op_end op then Some (op_end op, v) else Some (e, w))"
  have "\<forall>e w. ?acc = Some (e, w) \<longrightarrow> e \<le> B"
    using Cons.prems(1,2) by (auto split: option.splits)
  then show ?case using Cons.IH[of ?acc] Cons.prems(1,3) by simp
qed simp

text \<open>An operation that ends no earlier than every operation before it decides the settled value.\<close>

lemma settle_pick_last:
  assumes "op_value x target prop = Some v" and "\<forall>op\<in>set xs. op_end op \<le> op_end x"
  shows "settle_pick (xs @ [x]) target prop None = Some (op_end x, v)"
proof (cases "settle_pick xs target prop None")
  case (Some a)
  obtain e w where a: "a = (e, w)" by fastforce
  have "e \<le> op_end x"
    using settle_pick_bound[of xs "op_end x" None "target" "prop" e w] assms(2) Some a by simp
  then show ?thesis using Some a assms(1) by (simp add: settle_pick_append)
qed (use assms in \<open>simp add: settle_pick_append\<close>)

lemma start_tween_to [simp]: "tw_from tw = [] \<Longrightarrow> start_tween t tw = [Op_Tween t tw]"
  by (simp add: start_tween_def)

lemma hover_tween_fields [simp]:
  "tw_from (hover_tween el e) = []" "tw_target (hover_tween el e) = el" "tw_delay (hover_tween el e) = 0"
  by (cases e; simp add: tween_to_def)+

lemma hover_tween_duration: "tw_duration (hover_tween el e) \<le> 300"
  by (cases e) (simp_all add: tween_to_def)

lemma button_ops_snoc [simp]:
  "button_ops el (evs @ [(t, e)]) = button_ops el evs @ [Op_Tween t (hover_tween el e)]"
  by (simp add: button_ops_def)

lemma button_ops_end:
  "\<forall>(s, e)\<in>set evs. s + 300 \<le> B \<Longrightarrow> \<forall>op\<in>set (button_ops el evs). op_end op \<le> B"
proof (induction evs rule: rev_induct)
  case (snoc ev evs)
  obtain s e where "ev = (s, e)" by fastforce
  then show ?case using snoc hover_tween_duration[of el e] by (auto simp: tween_end_def)
qed (simp add: button_ops_def)

text \<open>The hover tweens of the legacy client are those of \<open>ZeoAnimations\<close>.\<close>

lemma hover_tween_legacy_eq: "hover_tween_legacy = hover_tween"
proof (intro ext)
  show "hover_tween_legacy el e = hover_tween el e" for el e by (cases e) simp_all
qed


text \<open>Operations on other properties leave a settled value alone.\<close>

lemma settle_pick_other:
  "\<forall>op\<in>set ys. op_value op target prop = None \<Longrightarrow> settle_pick ys target prop acc = acc"
  by (induction ys arbitrary: acc) simp_all

lemma processing_ops_snoc:
  "processing_ops (runs @ [(t, p)]) = processing_ops runs @ Op_Tween t (tween_to ''progressRef''
     [(''width'', JStr (string_of_nat p @ ''%''))] 800 ''power2.out'') # ar_ops (transitionIn ''cardRef'' t)"
  by (simp add: processing_ops_def processing_effect_def animateProgress_def tween_to_def)

lemma processing_ops_end:
  "\<forall>(s, q)\<in>set runs. s \<le> t \<Longrightarrow> \<forall>op\<in>set (processing_ops runs). op_end op \<le> t + 800"
proof (induction runs rule: rev_induct)
  case (snoc r runs)
  obtain s q where "r = (s, q)" by fastforce
  then show ?case using snoc
    by (auto simp: processing_ops_snoc transitionIn_def start_tween_def tween_fromTo_def tween_end_def tween_to_def)
qed (simp add: processing_ops_def)

text \<open>
  After any progress updates, the bar of \<open>EnhancedAudioProcessing\<close> settles at the
  width of the latest, whatever the earlier bar tweens still running; each update also
  sets the card back to opacity 0 before it fades in again.
\<close>

lemma processing_bar_settles:
  assumes "\<forall>(s, q)\<in>set runs. s \<le> t"
  shows "settled_value (processing_ops (runs @ [(t, p)])) ''progressRef'' ''width'' = Some (JStr (string_of_nat p @ ''%'')) \<and>
         Op_Set t ''cardRef'' ''opacity'' (JNum 0) \<in> set (processing_ops (runs @ [(t, p)]))"
proof -
  let ?bar = "Op_Tween t (tween_to ''progressRef'' [(''width'', JStr (string_of_nat p @ ''%''))] 800 ''power2.out'')"
  have "\<forall>op\<in>set (processing_ops runs). op_end op \<le> op_end ?bar"
    using processing_ops_end[OF assms] by (simp add: tween_to_def tween_end_def)
  then have "settle_pick (processing_ops runs @ [?bar]) ''progressRef'' ''width'' None =
             Some (op_end ?bar, JStr (string_of_nat p @ ''%''))"
    by (intro settle_pick_last) (simp_all add: tween_to_def)
  moreover have "\<forall>op\<in>set (ar_ops (transitionIn ''cardRef'' t)). op_value op ''progressRef'' ''width'' = None"
    by (simp add: transitionIn_def start_tween_def tween_fromTo_def)
  ultimately show ?thesis
    by (simp add: processing_ops_snoc settled_value_def settle_pick_append settle_pick_other
        transitionIn_def start_tween_def tween_fromTo_def)
qed

section \<open>Properties of the animations\<close>

text \<open>C18: whatever the pointer did on a button of \<open>setupButtonAnimations\<close> before, once
  it leaves (the latest of the time-ordered events) and the tweens have finished, the
  button's scale is back at 1: the leave tween ends last.
\<close>

theorem hover_leave_settles:
  assumes "\<forall>(s, e)\<in>set evs. s \<le> t"
  shows "settled_value (button_ops el (evs @ [(t, Mouse_Leave)])) el ''scale'' = Some (JNum 1)"
proof -
  have "\<forall>op\<in>set (button_ops el evs). op_end op \<le> op_end (Op_Tween t (hover_tween el Mouse_Leave))"
    using assms by (intro button_ops_end) (auto simp: tween_to_def tween_end_def)
  then show ?thesis
    by (simp add: settled_value_def settle_pick_last tween_to_def)
qed

theorem hover_leave_settles_witness:
  "settled_value (button_ops ''btn'' [(0, Mouse_Enter), (120, Mouse_Down), (180, Mouse_Up), (250, Mouse_Leave)])
     ''btn'' ''scale'' = Some (JNum 1)"
  using hover_leave_settles[of "[(0, Mouse_Enter), (120, Mouse_Down), (180, Mouse_Up)]" 250 "''btn''"] by simp

lemma splash_place:
  "tl_place t0 0 splash_timeline =
     ([Op_Tween t0 (tween_to ''.splash-title'' [(''opacity'', JNum 1), (''y'', JNum 0)] 1000 ''power3.out''),
       Op_Tween (t0 + 500) (tween_to ''.splash-underline'' [(''width'', JStr ''120px'')] 800 ''power2.out''),
       Op_Tween (t0 + 900) (tween_to ''.splash-tagline'' [(''opacity'', JNum 1), (''y'', JNum 0)] 600 ''power2.out''),
       Op_Tween (t0 + 1300) (tween_to ''.splash-loader'' [(''opacity'', JNum 1)] 400 ''power2.out''),
       Op_Tween (t0 + 1700) (tween_to ''{}'' [] 2000 ''none'')], [t0 + 3700])"
  by (simp add: splash_timeline_def tween_to_def)

text \<open>The splash animation of \<open>ZeoAnimations\<close> started at \<open>t0\<close> resolves its promise
  3.7 s later, exactly when its last tween ends, with the underline 120px wide and the
  title, tagline and loader shown; the legacy client's runs the same timeline when
  GSAP is loaded, and resolves after 3 s without it.
\<close>

theorem splash_resolves:
  "ar_resolve (animateSplashScreen_zeo t0) = Some (t0 + 3700) \<and>
   anim_end (ar_ops (animateSplashScreen_zeo t0)) = t0 + 3700 \<and>
   settled_value (ar_ops (animateSplashScreen_zeo t0)) ''.splash-underline'' ''width'' = Some (JStr ''120px'') \<and>
   settled_value (ar_ops (animateSplashScreen_zeo t0)) ''.splash-title'' ''opacity'' = Some (JNum 1) \<and>
   settled_value (ar_ops (animateSplashScreen_zeo t0)) ''.splash-tagline'' ''opacity'' = Some (JNum 1) \<and>
   settled_value (ar_ops (animateSplashScreen_zeo t0)) ''.splash-loader'' ''opacity'' = Some (JNum 1) \<and>
   animateSplashScreen_legacy True t0 = animateSplashScreen_zeo t0 \<and>
   animateSplashScreen_legacy False t0 = \<lparr>ar_ops = [], ar_resolve = Some (t0 + 3000)\<rparr>"
proof -
  have "splash_timeline_legacy = splash_timeline"
    by (simp add: splash_timeline_def splash_timeline_legacy_def)
  then show ?thesis
    by (simp add: animateSplashScreen_zeo_def animateSplashScreen_legacy_def splash_place
        settled_value_def anim_end_def tween_end_def tween_to_def)
qed


text \<open>
  \<open>transitionSplashToMain\<close> resolves 1.6 s after it starts, when its last tween ends,
  with the splash hidden and faded out and the main element at full opacity and scale
  (the entrance tween's number 1, not the string written by \<open>onComplete\<close>).
\<close>

lemma transitionSplashToMain_result:
  assumes "splash \<noteq> main"
  shows "ar_resolve (transitionSplashToMain splash main t0) = Some (t0 + 1600) \<and>
    anim_end (ar_ops (transitionSplashToMain splash main t0)) = t0 + 1600 \<and>
    settled_value (ar_ops (transitionSplashToMain splash main t0)) main ''opacity'' = Some (JNum 1) \<and>
    settled_value (ar_ops (transitionSplashToMain splash main t0)) main ''scale'' = Some (JNum 1) \<and>
    settled_value (ar_ops (transitionSplashToMain splash main t0)) main ''visibility'' = Some (JStr ''visible'') \<and>
    settled_value (ar_ops (transitionSplashToMain splash main t0)) splash ''display'' = Some (JStr ''none'') \<and>
    settled_value (ar_ops (transitionSplashToMain splash main t0)) splash ''opacity'' = Some (JNum 0)"
  using assms not_sym[OF assms]
  by (simp add: transitionSplashToMain_def Let_def start_tween_def tween_to_def tween_fromTo_def
      settled_value_def anim_end_def tween_end_def)

text \<open>\<open>EnhancedSplashScreen\<close> hides the splash 3.8 s after it mounts.\<close>

lemma enhancedSplash_complete_at: "enhancedSplash_complete t0 = Some (t0 + 3800)"
  by (simp add: enhancedSplash_complete_def animateSplashScreen_zeo_def splash_place)

text \<open>
  The step of \<open>SplashScreen\<close> never goes back while it is mounted, and when
  \<open>HomePage\<close> keeps it for its 3 s timer every element shows from 2 s on.
\<close>

lemma splash_step_mono: "t \<le> t' \<Longrightarrow> splash_step u t \<le> splash_step u t'"
  by (simp add: splash_step_def splash_timers_def)

lemma splash_screen_complete:
  "2000 \<le> t \<Longrightarrow> splash_screen_view (splash_step 3000 t) =
     \<lparr>sv_title = True, sv_underline = 120, sv_tagline = True, sv_loader = True\<rparr>"
  by (simp add: splash_step_def splash_timers_def splash_screen_view_def)

lemma enhancedSplash_hidden_at: "enhancedSplash_hidden t0 t \<longleftrightarrow> t0 + 3800 \<le> t"
  by (simp add: enhancedSplash_hidden_def enhancedSplash_complete_at)

end
