(* ===== verification/Widget_Views.thy ===== *)
theory Widget_Views
  imports Frontend_App Frontend_Widgets
begin

text \<open>
  What the widgets render, and the widgets inside the page that hosts them. Each
  view is a record of what the JSX shows and which of its controls are disabled; the
  lemmas tie the views to the step functions of \<open>Frontend_Widgets\<close> (a control shown
  disabled is a no-op of the step function, an enabled one runs its handler). The
  chat modal of \<open>MainApplication\<close> is composed with the page's state: its controls
  exist only while it is open, its request settles whether it is open or not. The
  upload card is composed with \<open>AudioProvider\<close>: its handlers call the provider and
  the provider's promises settle the card's awaits.
\<close>

section \<open>The results card\<close>

text \<open>
  \<open>TranscriptionResults\<close> driven by its page: the copy button, and the settling of a
  pending clipboard write or copied-timer, in any order (\<open>ok\<close> whether the write resolved).
\<close>

datatype results_event = RE_Copy | RE_Fire nat bool

fun results_step :: "string option \<Rightarrow> results_card \<Rightarrow> results_event \<Rightarrow> results_card" where
  "results_step tr c RE_Copy = handleCopy tr c"
| "results_step tr c (RE_Fire i ok) =
     (if i < length (rc_pending c)
      then results_settle (rc_pending c ! i) ok (c\<lparr>rc_pending := take i (rc_pending c) @ drop (Suc i) (rc_pending c)\<rparr>)
      else c)"

record results_view =
  rv_copy_label :: string
  rv_text :: string
  rv_summary :: "string option"
  rv_keywords :: "string list"
  rv_keywords_fallback :: bool
  rv_duration :: string

definition results_render :: "string option \<Rightarrow> audio_analysis option \<Rightarrow> audio_job option \<Rightarrow> bool \<Rightarrow> results_view" where
  "results_render tr an job copied =
     \<lparr>rv_copy_label = (if copied then ''Copiado!'' else ''Copiar''),
      rv_text = js_or_str tr (''Transcri'' @ [CHR 0xC3, CHR 0xA7, CHR 0xC3, CHR 0xA3] @ ''o n'' @ [CHR 0xC3, CHR 0xA3] @ ''o dispon'' @ [CHR 0xC3, CHR 0xAD] @ ''vel''),
      rv_summary = map_option (\<lambda>a. js_or_str (an_summary a) (''Resumo n'' @ [CHR 0xC3, CHR 0xA3] @ ''o dispon'' @ [CHR 0xC3, CHR 0xAD] @ ''vel'')) an,
      rv_keywords = (case an of None \<Rightarrow> [] | Some a \<Rightarrow> (case an_keywords a of None \<Rightarrow> [] | Some ks \<Rightarrow> ks)),
      rv_keywords_fallback = (case an of None \<Rightarrow> False
                              | Some a \<Rightarrow> (case an_keywords a of None \<Rightarrow> True | Some ks \<Rightarrow> \<not> js_truthy_array ks)),
      rv_duration = js_or_str (case job of None \<Rightarrow> None | Some j \<Rightarrow> aj_duration j) ''--:--''\<rparr>"


section \<open>The processing cards\<close>

text \<open>
  \<open>AudioProcessing\<close> and \<open>EnhancedAudioProcessing\<close> from the provider's
  \<open>currentJob\<close>: status line and icon, \<open>Math.round(progress)%\<close>, the three steps, the
  bar's width (animated by framer-motion in the first card, by GSAP from the effect in
  the second, whose inline width stays \<open>0%\<close>), and the second card's status badge
  from \<open>currentJob?.status || "processing"\<close>.
\<close>

record processing_view =
  pv_status_text :: string
  pv_icon :: status_icon
  pv_percent :: string
  pv_steps :: "(string \<times> bool) list"
  pv_bar_width :: string
  pv_badge :: "string option"

definition processing_card_render :: "audio_job option \<Rightarrow> processing_view" where
  "processing_card_render job =
     (let progress = shown_progress job
      in \<lparr>pv_status_text = getStatusText progress, pv_icon = getStatusIcon progress,
          pv_percent = string_of_nat progress @ ''%'', pv_steps = processing_steps progress,
          pv_bar_width = string_of_nat progress @ ''%'', pv_badge = None\<rparr>)"

definition processing_card_render_enhanced :: "audio_job option \<Rightarrow> processing_view" where
  "processing_card_render_enhanced job =
     (let progress = shown_progress job;
          status = (case job of None \<Rightarrow> Audio_Processing | Some j \<Rightarrow> aj_status j)
      in \<lparr>pv_status_text = getStatusText_enhanced progress, pv_icon = getStatusIcon progress,
          pv_percent = string_of_nat progress @ ''%'', pv_steps = processing_steps_enhanced progress,
          pv_bar_width = ''0%'',
          pv_badge = Some (if status = Audio_Processing then ''Processando...'' else ''Conclu'' @ [CHR 0xC3, CHR 0xAD] @ ''do'')\<rparr>)"

section \<open>The upload cards\<close>

text \<open>
  \<open>AudioUpload\<close>: the start button while not recording (\<open>disabled={isProcessing}\<close>),
  otherwise the elapsed time and the stop button; the file input and its button
  \<open>disabled={isProcessing}\<close>. \<open>EnhancedAudioUpload\<close> shows the same and the preview.
\<close>

record upload_view =
  uv_start_shown :: bool
  uv_start_disabled :: bool
  uv_time :: "string option"
  uv_file_disabled :: bool
  uv_preview :: bool

definition upload_card_render :: "bool \<Rightarrow> upload_card \<Rightarrow> upload_view" where
  "upload_card_render processing c =
     \<lparr>uv_start_shown = (\<not> uc_isRecording c), uv_start_disabled = processing,
      uv_time = (if uc_isRecording c then Some (format_time (uc_recordingTime c)) else None),
      uv_file_disabled = processing, uv_preview = False\<rparr>"

definition upload_card_render_enhanced :: "bool \<Rightarrow> upload_card \<Rightarrow> upload_view" where
  "upload_card_render_enhanced processing c =
     \<lparr>uv_start_shown = (\<not> uc_isRecording c), uv_start_disabled = processing,
      uv_time = (if uc_isRecording c then Some (format_time (uc_recordingTime c)) else None),
      uv_file_disabled = processing, uv_preview = (uc_audioPreview c \<noteq> None)\<rparr>"

text \<open>The page's events on a card: the provider's \<open>isProcessing\<close> comes with each click and file choice; a disabled file input delivers no \<open>change\<close>.\<close>

fun upload_ui :: "upload_card \<Rightarrow> bool \<times> upload_event \<Rightarrow> upload_card" where
  "upload_ui c (p, UE_File f) = (if uv_file_disabled (upload_card_render p c) then c else upload_step c (UE_File f))"
| "upload_ui c (p, e) = upload_step c e"

text \<open>
  \<open>AudioUpload\<close> with the \<open>AudioProvider\<close> it calls. Its handlers call the provider
  synchronously (\<open>startRecording()\<close>, \<open>stopRecording()\<close>, \<open>uploadFile(file)\<close>), and the
  card's awaits resolve with the provider's: \<open>getUserMedia\<close> settles \<open>startRecording\<close>,
  the recorder's \<open>onstop\<close> settles \<open>stopRecording\<close> with the blob. A control acts only
  when rendered enabled; the first card await of the matching kind is the one settled.
\<close>

fun card_wait_of :: "audio_cont \<Rightarrow> bool \<Rightarrow> (upload_wait \<times> nat option outcome) option" where
  "card_wait_of AK_UserMedia granted =
     Some (UW_Start, if granted then Returns None else Throws ''NotAllowedError'')"
| "card_wait_of (AK_OnStop r) granted = Some (UW_Stop, Returns (Some r))"
| "card_wait_of (AK_Step _) granted = None"

definition card_settle :: "audio_cont \<Rightarrow> bool \<Rightarrow> upload_card \<Rightarrow> upload_card" where
  "card_settle k granted c =
     (case card_wait_of k granted of
        None \<Rightarrow> c
      | Some (w, out) \<Rightarrow> upload_step c (UE_Settle (length (takeWhile (\<lambda>x. x \<noteq> w) (uc_pending c))) out))"

datatype card_event =
    CE_Start
  | CE_Stop
  | CE_File string timestamp string
  | CE_Fire nat bool timestamp string
  | CE_Tick nat

fun card_page_step :: "audio_provider \<times> upload_card \<Rightarrow> card_event \<Rightarrow> audio_provider \<times> upload_card" where
  "card_page_step (p, c) CE_Start =
     (if uv_start_shown (upload_card_render (isProcessing p) c) \<and> \<not> uv_start_disabled (upload_card_render (isProcessing p) c)
      then (audio_step p AE_StartRecording, upload_step c (UE_ClickStart (isProcessing p))) else (p, c))"
| "card_page_step (p, c) CE_Stop =
     (if uc_isRecording c then (audio_step p AE_StopRecording, upload_step c UE_ClickStop) else (p, c))"
| "card_page_step (p, c) (CE_File f now rnd) =
     (if uv_file_disabled (upload_card_render (isProcessing p) c) then (p, c)
      else (audio_step p (AE_UploadFile now rnd), upload_step c (UE_File (Some f))))"
| "card_page_step (p, c) (CE_Fire i granted now rnd) =
     (if i < length (a_pending p)
      then (audio_step p (AE_Fire i granted now rnd), card_settle (a_pending p ! i) granted c) else (p, c))"
| "card_page_step (p, c) (CE_Tick k) = (p, upload_step c (UE_Tick k))"

section \<open>The chat widgets\<close>

text \<open>
  A chat widget while open: its messages (sender and content), the typing indicator,
  the input's value and disabled state, and the send button's disabled state; nothing
  while closed (\<open>{isOpen && ...}\<close>).
\<close>

record chat_view =
  cv_messages :: "(chat_sender \<times> json option) list"
  cv_typing :: bool
  cv_input :: string
  cv_input_disabled :: bool
  cv_send_disabled :: bool

definition chat_modal_render :: "bool \<Rightarrow> chat_box \<Rightarrow> chat_view option" where
  "chat_modal_render isOpen c =
     (if isOpen
      then Some \<lparr>cv_messages = map (\<lambda>m. (cm_sender m, cm_content m)) (cb_messages c), cv_typing = cb_isTyping c,
                 cv_input = cb_input c, cv_input_disabled = cb_isTyping c,
                 cv_send_disabled = (js_trim (cb_input c) = [] \<or> cb_isTyping c)\<rparr>
      else None)"

definition acrylic_render :: "bool \<Rightarrow> chat_box \<Rightarrow> chat_view option" where
  "acrylic_render isOpen c =
     (if \<not> isOpen then None
      else Some \<lparr>cv_messages = map (\<lambda>m. (cm_sender m, cm_content m)) (cb_messages c), cv_typing = cb_isTyping c,
                 cv_input = cb_input c, cv_input_disabled = cb_isTyping c,
                 cv_send_disabled = (js_trim (cb_input c) = [] \<or> cb_isTyping c)\<rparr>)"

definition panel_render :: "bool \<Rightarrow> chat_box \<Rightarrow> chat_view option" where
  "panel_render isOpen c =
     (if isOpen
      then Some \<lparr>cv_messages = map (\<lambda>m. (cm_sender m, cm_content m)) (cb_messages c), cv_typing = cb_isTyping c,
                 cv_input = cb_input c, cv_input_disabled = False,
                 cv_send_disabled = (js_trim (cb_input c) = [] \<or> cb_isTyping c)\<rparr>
      else None)"

text \<open>The modal's header and backdrop: the backdrop and the close button call \<open>onClose\<close>, the theme button \<open>toggleTheme\<close>; the state is the theme and \<open>isOpen\<close>.\<close>

datatype chat_header_event = CH_Backdrop | CH_Close | CH_Theme

fun chat_header_step :: "string \<times> bool \<Rightarrow> chat_header_event \<Rightarrow> string \<times> bool" where
  "chat_header_step (theme, isOpen) CH_Backdrop = (if isOpen then (theme, False) else (theme, isOpen))"
| "chat_header_step (theme, isOpen) CH_Close = (if isOpen then (theme, False) else (theme, isOpen))"
| "chat_header_step (theme, isOpen) CH_Theme = (if isOpen then (toggleTheme theme, isOpen) else (theme, isOpen))"

text \<open>
  \<open>MainApplication\<close> with its \<open>ChatModal\<close>: the page's events act on the page; the
  modal's typing, Enter and clicks reach it only while it is open, since its controls
  are rendered only then; a pending request settles either way.
\<close>

fun cu_needs_view :: "chat_ui_event \<Rightarrow> bool" where
  "cu_needs_view (CU_Type _) = True"
| "cu_needs_view (CU_Enter _) = True"
| "cu_needs_view (CU_Click _) = True"
| "cu_needs_view (CU_Settle _ _) = False"
| "cu_needs_view (CU_Timer _ _) = False"

fun hosted_chat_step :: "main_app \<times> chat_box \<Rightarrow> main_event + chat_ui_event \<Rightarrow> main_app \<times> chat_box" where
  "hosted_chat_step (m, c) (Inl e) = (main_app_step m e, c)"
| "hosted_chat_step (m, c) (Inr e) =
     (if cu_needs_view e \<and> \<not> ma_chatOpen m then (m, c) else (m, chat_modal_ui c e))"

definition hosted_chat_init :: "audio_job option \<Rightarrow> string option \<Rightarrow> timestamp \<Rightarrow> main_app \<times> chat_box" where
  "hosted_chat_init job tr now = (main_app_mount job tr, chat_box_init chat_modal_greeting now)"


section \<open>Properties of the views\<close>

text \<open>A card's start button acts exactly when it is shown enabled.\<close>

lemma upload_render_honoured:
  "upload_step c (UE_ClickStart p) \<noteq> c \<longleftrightarrow>
     uv_start_shown (upload_card_render p c) \<and> \<not> uv_start_disabled (upload_card_render p c)"
  by (auto simp: handleStartRecording_def upload_card_render_def dest: arg_cong[where f = uc_pending])

lemma upload_render_enhanced_same:
  "upload_card_render_enhanced p c = (upload_card_render p c)\<lparr>uv_preview := uc_audioPreview c \<noteq> None\<rparr>"
  by (simp add: upload_card_render_def upload_card_render_enhanced_def)

text \<open>
  The chat modal's step honours what it renders: a disabled send button or input is a
  no-op, an enabled send button runs \<open>sendMessage\<close>. \<open>AcrylicChatModal\<close> renders the
  same view; \<open>ChatPanel\<close>'s input is never disabled.
\<close>

lemma chat_render_honoured:
  assumes "chat_modal_render True c = Some v"
  shows "(cv_send_disabled v \<longrightarrow> chat_modal_ui c (CU_Click now) = c) \<and>
         (\<not> cv_send_disabled v \<longrightarrow> chat_modal_ui c (CU_Click now) = chat_modal_send now c) \<and>
         (cv_input_disabled v \<longrightarrow> chat_modal_ui c (CU_Enter now) = c \<and> chat_modal_ui c (CU_Type s) = c)"
  using assms by (auto simp: chat_modal_render_def chat_modal_ui_def)

lemma acrylic_render_eq: "acrylic_render = chat_modal_render"
  by (intro ext) (simp add: acrylic_render_def chat_modal_render_def)

lemma panel_render_input_enabled:
  "panel_render True c = Some v \<Longrightarrow> \<not> cv_input_disabled v \<and> panel_ui tr c (CU_Enter now) = panel_send tr now c"
  by (auto simp: panel_render_def)

lemma hosted_chat_step_single: "chat_single c \<Longrightarrow> chat_single (snd (hosted_chat_step (m, c) e))"
  by (cases e) (auto simp: chat_modal_ui_def guarded_chat_ui_single chat_send_ok_modal)

lemma hosted_chat_run_single: "chat_single (snd (foldl hosted_chat_step (hosted_chat_init job tr now) evs))"
proof (induction evs rule: rev_induct)
  case (snoc e evs)
  then show ?case
    by (cases "foldl hosted_chat_step (hosted_chat_init job tr now) evs") (simp add: hosted_chat_step_single)
qed (simp add: hosted_chat_init_def chat_single_init)

text \<open>In \<open>MainApplication\<close>, under any interleaving of the page's events (provider
  changes, reset, opening and closing the chat) and the chat's own (typing, Enter,
  clicks, settled requests), the hosted \<open>ChatModal\<close> has at most one request in
  flight, and while open it shows the typing indicator exactly while one is.
\<close>

theorem hosted_chat_single:
  "chat_single (snd (foldl hosted_chat_step (hosted_chat_init job tr now) evs)) \<and>
   map_option cv_typing (chat_modal_render (ma_chatOpen (fst (foldl hosted_chat_step (hosted_chat_init job tr now) evs)))
                                           (snd (foldl hosted_chat_step (hosted_chat_init job tr now) evs))) =
   (if ma_chatOpen (fst (foldl hosted_chat_step (hosted_chat_init job tr now) evs))
    then Some (cb_waiting (snd (foldl hosted_chat_step (hosted_chat_init job tr now) evs)) \<noteq> []) else None)"
  using hosted_chat_run_single[of job tr now evs]
  by (auto simp: chat_modal_render_def chat_single_def split: if_splits)

text \<open>
  The keyword fallback shows only for an analysis without \<open>keywords\<close>:
  \<open>keywords?.map(...)\<close> is an array whenever \<open>keywords\<close> is, truthy even when empty, so
  an analysis with an empty list shows no keywords and no fallback.
\<close>

lemma keywords_fallback_only_undefined:
  "rv_keywords_fallback (results_render tr (Some a) job cp) = (an_keywords a = None) \<and>
   rv_keywords (results_render tr (Some (a\<lparr>an_keywords := Some []\<rparr>)) job cp) = []"
  by (cases "an_keywords a") (simp_all add: results_render_def js_truthy_array_def)

text \<open>A second copy within the first one's two seconds is cut short: the first
  copy's timer clears \<open>copied\<close> while the second copy's timer is still pending.
\<close>

theorem copied_cleared_early:
  assumes "t \<noteq> []" and "rc_pending c0 = []"
  shows "rc_copied (foldl (results_step (Some t)) c0 [RE_Copy, RE_Fire 0 True, RE_Copy, RE_Fire 1 True, RE_Fire 0 True]) = False \<and>
         rc_pending (foldl (results_step (Some t)) c0 [RE_Copy, RE_Fire 0 True, RE_Copy, RE_Fire 1 True, RE_Fire 0 True]) = [RW_CopiedTimer]"
  using assms by (simp add: handleCopy_def)

theorem copied_cleared_early_witness:
  "rc_copied (foldl (results_step (Some ''x'')) \<lparr>rc_copied = False, rc_pending = []\<rparr>
      [RE_Copy, RE_Fire 0 True, RE_Copy, RE_Fire 1 True, RE_Fire 0 True]) = False \<and>
   rc_pending (foldl (results_step (Some ''x'')) \<lparr>rc_copied = False, rc_pending = []\<rparr>
      [RE_Copy, RE_Fire 0 True, RE_Copy, RE_Fire 1 True, RE_Fire 0 True]) = [RW_CopiedTimer]"
  using copied_cleared_early[of "''x''" "\<lparr>rc_copied = False, rc_pending = []\<rparr>"] by simp

text \<open>A reply that settles while the modal is closed is kept, and shown when it reopens.\<close>

lemma hosted_reply_while_closed:
  "let (m, c) = foldl hosted_chat_step (hosted_chat_init None None 0)
        [Inl ME_ChatButton, Inr (CU_Type ''oi''), Inr (CU_Enter 1), Inl ME_ChatClose,
         Inr (CU_Settle (Returns (JObj [(''success'', JBool True), (''response'', JStr ''ola'')])) 2), Inl ME_ChatButton]
   in map_option (\<lambda>v. (last (cv_messages v), cv_typing v)) (chat_modal_render (ma_chatOpen m) c) =
        Some ((Chat_Bot, Some (JStr ''ola'')), False)"
proof -
  have t: "js_trim ''oi'' = ''oi''" by (simp add: js_trim_def is_js_space_def)
  show ?thesis
    by (simp add: hosted_chat_init_def main_app_mount_def chat_box_init_def chat_modal_ui_def chat_modal_send_def
        chat_post_def chat_settle_def chat_modal_render_def t Let_def)
qed

text \<open>The card's gating on \<open>isProcessing\<close> does not prevent overlapping processing:
  the file button stays enabled while recording, so starting a recording, choosing a
  file and then stopping the recording runs two \<open>processAudio\<close> loops at once, the
  situation in which the first marks the second's job completed.
\<close>

theorem card_overlap_reachable:
  "let (p, c) = foldl card_page_step (audio_init, upload_card_init)
        [CE_Start, CE_Fire 0 True 0 [], CE_File ''a.wav'' 100 ''r1'', CE_Stop, CE_Fire 1 True 200 ''r2'']
   in isProcessing p \<and> activations p = [0, 0] \<and> a_pending p = [AK_Step 0, AK_Step 1] \<and> uc_uploads c = [''a.wav'']"
  by (simp add: audio_init_def upload_card_init_def upload_card_render_def handleStartRecording_def
      audio_schedule_def recording_granted_def card_settle_def uploadFile_def processAudio_def
      handleStopRecording_def stopRecording_audio_def recorder_stop_def recorder_onstop_def
      release_stream_def handleFileUpload_card_def Let_def)

text \<open>
  The enhanced card's badge reads \<open>Concluido\<close> (with an accent) for every status other than
  \<open>processing\<close>, a failed job included; its inline width never follows the progress,
  which only the GSAP tween of its effect shows.
\<close>

lemma processing_badge_error:
  "pv_badge (processing_card_render_enhanced (Some (j\<lparr>aj_status := Audio_Error\<rparr>))) =
     Some (''Conclu'' @ [CHR 0xC3, CHR 0xAD] @ ''do'') \<and>
   pv_bar_width (processing_card_render_enhanced job) = ''0%''"
  by (simp add: processing_card_render_enhanced_def Let_def)

text \<open>Both cards agree on everything but the texts, the bar and the badge.\<close>

lemma processing_cards_agree:
  "pv_icon (processing_card_render_enhanced job) = pv_icon (processing_card_render job) \<and>
   pv_percent (processing_card_render_enhanced job) = pv_percent (processing_card_render job) \<and>
   map snd (pv_steps (processing_card_render_enhanced job)) = map snd (pv_steps (processing_card_render job))"
  by (simp add: processing_card_render_def processing_card_render_enhanced_def Let_def
      processing_steps_def processing_steps_enhanced_def)

end
