(* ===== verification/Spec2Isabelle.thy ===== *)
theory Spec2Isabelle
  imports Prelude Server_Config MCP_Client Job_Server Server_Routes Web_Client Http_Api React_Providers Frontend_App Frontend_Widgets Animations Widget_Views
begin

text \<open>
  \<^bold>\<open>ZEO clinical transcription client: a shallow embedding of its JavaScript and TypeScript.\<close>

  The repository holds four cooperating parts. An Express server (\<open>src/server.js\<close>)
  accepts audio uploads, keeps a registry of transcription jobs, processes each job
  through an MCP client (\<open>src/mcp-config.js\<close>, class \<open>ZeoMCPClient\<close>) configured by a
  server registry (\<open>src/mcp-servers.config.js\<close>), broadcasts progress over WebSockets
  and exposes the MCP client under \<open>/mcp/*\<close>. A legacy browser page
  (\<open>src/public/script.js\<close>) uploads, polls or listens for progress, chats and signs in.
  Serverless functions (\<open>src/api\<close>, Vercel) and Next.js route handlers
  (\<open>src/app/api\<close>) answer the same kind of requests without the server. A Next.js front
  end keeps its state in React providers (\<open>src/components/providers\<close>) configured with
  MSAL (\<open>src/auth-config.js\<close>).

  \<^bold>\<open>Theories.\<close>
  \<^item> \<open>Prelude\<close>: the JavaScript primitives the sources use (JSON values with
    property access that throws on \<open>null\<close>, truthiness, \<open>String(v)\<close>,
    \<open>JSON.stringify\<close>, \<open>parseInt\<close>, \<open>findIndex\<close>, \<open>trim\<close>, \<open>split\<close>), the
    print/parse round trip of naturals, and a pool of handles (allocate, release,
    forget) that timers and recorders refine.
  \<^item> \<open>Server_Config\<close>: the array \<open>MCP_SERVERS\<close> as a list and \<open>getEnabledServers\<close>,
    \<open>getServerConfig\<close>, \<open>addServerConfig\<close>, \<open>toggleServer\<close>, errors as \<open>Inl\<close>.
  \<^item> \<open>MCP_Client\<close>: \<open>ZeoMCPClient\<close> as the record \<open>mcp_client\<close>, every method a function
    of the state and of the \<open>mcp-agent\<close> library, which is the interface record
    \<open>agent_api\<close>; \<open>client_step\<close> runs one method; \<open>client_wf\<close> is its invariant.
  \<^item> \<open>Job_Server\<close>: jobs in a heap addressed by index, \<open>processTranscription\<close> as
    tasks resumed at their \<open>await\<close>, \<open>server_step\<close> over uploads, status queries,
    resumptions, WebSocket events and \<open>initializeMCP\<close>; \<open>reach\<close> the reachable states
    and \<open>server_inv\<close> their invariant.
  \<^item> \<open>Server_Routes\<close>: the production CORS middleware, the route table with Express
    matching (\<open>express_route\<close>), every \<open>/mcp/*\<close> route, \<open>/health\<close> and \<open>SIGINT\<close> as
    \<open>mcp_route\<close>; \<open>reach_full\<close> interleaves them with the core events.
  \<^item> \<open>Web_Client\<close>: \<open>ZeoClient\<close> as a record of fields and page elements, every
    \<open>await\<close>, timer and animation callback a pending continuation; \<open>wreach\<close> the states
    a page reaches; intervals and recorders refine the handle pool.
  \<^item> \<open>Http_Api\<close>: each Vercel function and Next.js route as a map from request,
    environment, clock and randomness to status, headers and JSON body; the xAI endpoint
    is an interface that answers or throws.
  \<^item> \<open>React_Providers\<close>: \<open>AudioProvider\<close> as a record of its state cells and refs with
    pending timers and recorder events (\<open>audio_step\<close>, \<open>areach\<close>), \<open>MCPProvider\<close>,
    \<open>AuthProvider\<close> over \<open>localStorage\<close> with \<open>JSON.parse\<close> as a parameter,
    \<open>ThemeProvider\<close>, and the MSAL configuration and logger.
  \<^item> \<open>Frontend_App\<close>: the page \<open>HomePage\<close> (splash timer, effects on
    \<open>isAuthenticated\<close>) composed with \<open>AuthProvider\<close> and the sign-in modal
    (\<open>frontend_step\<close>, \<open>freach\<close>; \<open>logout\<close> reloads and mounts again), the
    controls each step of the modal renders, \<open>EnhancedAuthModal\<close> as a step machine
    over its panels (\<open>enhanced_modal_step\<close>), \<open>MainApplication\<close> as a state machine
    over its panel, chat toggle and effect dependencies (\<open>main_app_step\<close>), and what
    \<open>Header\<close> shows (\<open>header_render\<close>).
  \<^item> \<open>Frontend_Widgets\<close>: the upload cards (their interval handles refine the pool),
    \<open>formatTime\<close>, the processing cards' status line, the results card's copy and
    export, and the three chat widgets, whose \<open>fetch('/api/chat')\<close> is answered by the
    HTTP responses of \<open>Http_Api\<close>; their controls (\<open>guarded_chat_ui\<close>,
    \<open>panel_ui\<close>) with the disabled states of the input and the send button.
  \<^item> \<open>Widget_Views\<close>: what the widgets render (\<open>results_render\<close>,
    \<open>processing_card_render\<close>,
    \<open>upload_card_render\<close>, \<open>chat_modal_render\<close>, \<open>panel_render\<close>) and the
    results card's events; \<open>AudioUpload\<close> composed with \<open>AudioProvider\<close>
    (\<open>card_page_step\<close>: a handler's call to the provider and the card's await that
    the provider's promise settles), and \<open>ChatModal\<close> hosted by \<open>MainApplication\<close>
    (\<open>hosted_chat_step\<close>).
  \<^item> \<open>Animations\<close>: GSAP given its documented meaning (tweens with start times and
    durations, timelines with positions, and the value a property settles at when
    tweens overlap, \<open>settled_value\<close>); what each method of \<open>ZeoAnimations\<close>
    (\<open>src/lib/gsap.ts\<close>) and each animation method of \<open>ZeoClient\<close> asks of it and
    when its promise resolves (\<open>anim_run\<close>); the components that call them
    (\<open>EnhancedSplashScreen\<close>, \<open>EnhancedAudioUpload\<close>, \<open>EnhancedAudioProcessing\<close>) and the
    step timers of \<open>SplashScreen\<close>.
  \<^item> This theory: properties that span the registry, the server and the routes.

  \<^bold>\<open>What is shown.\<close> Invariants by rule induction over the reachable states of the
  server (\<open>Job_Server.reach_inv\<close>), of the page (\<open>Web_Client.wreach_client_ok\<close>) and
  of the audio provider (\<open>React_Providers.progress_bounded\<close>); monotone job progress;
  the functional behaviour of each client method, route and HTTP handler, error
  branches included; a refinement of the handle pool by the page's timers and recorders;
  the equivalence of \<open>connectionStatus\<close> with its quantified specification; round trips
  of the registry and of the sign-in storage; across components, that the page shows
  the application only to an authenticated user or between a logout and the unload it
  causes (\<open>Frontend_App.main_app_requires_auth\<close>), that the chat modal answers an
  upstream failure of either chat backend with its error text
  (\<open>Frontend_Widgets.chat_modal_upstream_error\<close>), that the two chat modals never have
  two requests in flight (\<open>Frontend_Widgets.chat_single_inflight\<close>) while the chat panel
  can, and that a hovered button settles back at scale 1 once the pointer leaves
  (\<open>Animations.hover_leave_settles\<close>). Several theorems establish defects: with the
  shipped registry no job ever completes and every tool route answers 500; the page
  leaks intervals and recorders; the audio provider resurrects its transcription after
  a reset. Lemmas beside them evaluate concrete runs that exhibit further defects
  (stale status answers, overlapping uploads started from the upload card, the copy
  label cut short, the keyword fallback never shown for an empty list).

  \<^bold>\<open>JavaScript values.\<close> \<open>undefined\<close> is \<open>None\<close> and \<open>null\<close> is \<open>Some JNull\<close>, so
  \<open>===\<close> (\<open>js_strict_eq\<close>) tells them apart; a state cell initialised to \<open>null\<close>,
  such as \<open>currentJobId\<close>, holds \<open>Some JNull\<close>. A React state updater runs when React
  applies it, so an error it throws is not an error of the function that passed it
  (\<open>connect_updater\<close>). \<open>window.location.reload()\<close> takes effect at the page's unload,
  an event after the render of the state it leaves (\<open>FE_Reload\<close>).

  \<^bold>\<open>Time, randomness and fuel.\<close> Clocks are natural-number timestamps and random
  strings are parameters of the events that read them, so every run is a sequence of
  events with its inputs. No definition needs fuel: loops over lists are structural
  recursion, and each asynchronous function is a task or continuation whose number of
  resumptions is bounded by its program (two for \<open>processTranscription\<close>, six for
  \<open>processAudio\<close>). Animation times are milliseconds from the call that starts
  them; a timeline is placed by structural recursion over its children.

  \<^bold>\<open>Not modelled.\<close> The floating chat buttons and \<open>src/app/layout.tsx\<close>:
  markup and styles; the buttons only call their \<open>onClick\<close> prop, modelled as
  \<open>MainApplication\<close>'s chat event, and the layout only nests the providers. Of the animations, easing curves and the frames between
  a tween's start and end, which no code reads, and framer-motion's own transitions;
  the 300 ms focus timer of the legacy chat. Of the sign-in modals' lights, only the
  placement is modelled (\<open>auth_mouse_light\<close>), not the listener's registration.
  Scrolling to the last message, the locale formatting of chat times
  (\<open>toLocaleTimeString\<close>), and the unused \<open>setTheme\<close> of the theme context. Contents of audio blobs
  and files, which no operation inspects; logging; \<open>express.static\<close>, the
  \<open>express.json\<close> body limit and \<open>listen\<close>; the JSON serialisation of client records
  in route replies; the \<open>mcp-agent\<close> library, the xAI API, MSAL and GSAP themselves,
  which are interfaces (GSAP with the semantics stated in \<open>Animations\<close>).
\<close>

section \<open>The shipped configuration and the job server\<close>

text \<open>
  \<open>server.js\<close> builds its MCP client from \<open>getEnabledServers()\<close> of
  \<open>mcp-servers.config.js\<close>. The shipped registry (\<open>MCP_SERVERS_init\<close>) disables every
  server, so \<open>initializeMCP\<close> never calls \<open>connect\<close> and the client stays the
  disconnected \<open>new_client\<close>. \<open>shipped_inv\<close> is what this implies for the job
  server: every task waits for, or has consumed, the \<open>not connected\<close> throw of
  \<open>transcribeAudio\<close>, and every finished task left its job failed at 10.
\<close>

definition shipped_inv :: "server \<Rightarrow> bool" where
  "shipped_inv s \<longleftrightarrow> mcp s = new_client \<and>
     (\<forall>i < length (tasks s).
        (t_pc (tasks s ! i) = Await_Transcribe (Some not_connected_msg) \<or> t_pc (tasks s ! i) = Done) \<and>
        (t_pc (tasks s ! i) = Done \<longrightarrow>
           j_status (heap s ! i) = Error \<and> j_error (heap s ! i) = Some not_connected_msg \<and>
           j_progress (heap s ! i) = 10))"

lemma new_client_guard: "client_guard new_client = Some not_connected_msg"
  by (simp add: client_guard_def new_client_def)

lemma shipped_step:
  assumes inv: "server_inv s" and sh: "shipped_inv s"
  shows "shipped_inv (fst (server_step api penv (MCP_SERVERS_init penv') s e))"
proof (cases e)
  case (Ev_InitMCP now ctor)
  with sh show ?thesis
    by (simp add: initializeMCP_def shipped_none_enabled shipped_inv_def Let_def)
next
  case (Ev_Upload f tf tj)
  let ?l = "upload_limit (map_of penv ''MAX_FILE_SIZE'')"
  show ?thesis
  proof (cases "\<exists>fl. multer_single ?l f = Inr (Some fl)")
    case True
    then obtain fl where m: "multer_single ?l f = Inr (Some fl)" by blast
    from inv have len: "length (tasks s) = length (heap s)" by (simp add: server_inv_def)
    with sh Ev_Upload show ?thesis
      by (auto simp: upload_handler_accepted [OF m] Let_def shipped_inv_def nth_append new_client_guard)
  next
    case False
    with sh Ev_Upload show ?thesis
      by (auto simp: upload_handler_def split: sum.splits option.splits)
  qed
next
  case (Ev_Resume i out)
  show ?thesis
  proof (cases "i < length (tasks s) \<and> t_pc (tasks s ! i) \<noteq> Done")
    case False
    with sh Ev_Resume show ?thesis
      by (auto simp: resume_def split: task_pc.splits)
  next
    case True
    with sh have pc: "t_pc (tasks s ! i) = Await_Transcribe (Some not_connected_msg)"
      unfolding shipped_inv_def by blast
    from True inv pc have ti: "t_addr (tasks s ! i) = i" and p10: "j_progress (heap s ! i) = 10"
      and len: "length (tasks s) = length (heap s)"
      by (auto simp: server_inv_def dest: spec [of _ i])
    show ?thesis
      using sh True Ev_Resume pc ti p10 len
      by (auto simp: resume_def Let_def shipped_inv_def nth_list_update job_fail_def)
  qed
qed (use sh in \<open>simp_all add: shipped_inv_def\<close>)

lemma reach_shipped: "reach api penv (MCP_SERVERS_init penv') s \<Longrightarrow> shipped_inv s"
proof (induction rule: reach.induct)
  case reach_init
  then show ?case by (simp add: shipped_inv_def init_server_def)
next
  case (reach_step s e)
  then show ?case by (simp add: shipped_step reach_server_inv)
qed

text \<open>C1: with the shipped configuration no job ever completes, whatever the agent
  and the environment: every job that leaves \<open>processing\<close> fails at progress 10 with
  \<open>ZEO MCP Client not connected\<close>, although the server logs that it runs with mock
  transcription.\<close>

theorem shipped_config_no_job_completes:
  assumes "reach api penv (MCP_SERVERS_init penv') s" and "j \<in> set (heap s)"
  shows "j_status j \<noteq> Completed \<and>
         (j_status j = Error \<longrightarrow> j_error j = Some not_connected_msg \<and> j_progress j = 10)"
proof -
  from assms(2) obtain i where i: "i < length (heap s)" "j = heap s ! i"
    by (auto simp: in_set_conv_nth)
  from reach_server_inv [OF assms(1)] have inv: "server_inv s" .
  from reach_shipped [OF assms(1)] have sh: "shipped_inv s" .
  from inv i have "i < length (tasks s)" and ok: "task_job_ok (t_pc (tasks s ! i)) (heap s ! i)"
    by (simp_all add: server_inv_def)
  with sh i ok show ?thesis
    by (auto simp: shipped_inv_def)
qed

theorem shipped_config_no_job_completes_witness:
  "j_status (heap (fst (server_step offline_agent [] (MCP_SERVERS_init (\<lambda>_. None)) init_server
      (Ev_Upload (Some sample_audio) 1 5))) ! 0) \<noteq> Completed"
proof -
  let ?s = "fst (server_step offline_agent [] (MCP_SERVERS_init (\<lambda>_. None)) init_server
      (Ev_Upload (Some sample_audio) 1 5))"
  have r: "reach offline_agent [] (MCP_SERVERS_init (\<lambda>_. None)) ?s" by (rule reach_step [OF reach_init])
  have m: "heap ?s ! 0 \<in> set (heap ?s)"
    by (simp add: upload_handler_def multer_single_def sample_audio_def starts_with_def
        process_start_def init_server_def Let_def upload_limit_def)
  from shipped_config_no_job_completes [OF r m] show ?thesis by simp
qed


section \<open>The shipped configuration and the MCP routes\<close>

lemma reach_full_shipped: "reach_full api penv (MCP_SERVERS_init penv') s \<Longrightarrow> \<not> connected (mcp s)"
proof (induction rule: reach_full.induct)
  case full_init
  then show ?case by (simp add: init_server_def new_client_def)
next
  case (full_step s e)
  then show ?case
  proof (cases e)
    case (Core ev)
    with full_step show ?thesis
      by (cases ev) (simp_all add: initializeMCP_def shipped_none_enabled Let_def mcp_resume mcp_upload_handler)
  next
    case (Route r)
    with full_step show ?thesis by (auto dest: mcp_route_connected)
  qed
qed

text \<open>C2: with the shipped configuration the MCP client is never connected, whatever
  interleaving of core events and route requests the server sees, so every
  \<open>POST /mcp/tool/:toolName\<close> answers status 500, with or without a session.\<close>

theorem shipped_config_tools_fail:
  assumes "reach_full api penv (MCP_SERVERS_init penv') s"
  shows "\<not> connected (mcp s) \<and> ra_status (snd (mcp_route api penv s (Post_Tool tool nm sid body now))) = 500"
  using reach_full_shipped [OF assms]
  by (simp add: callTool_disconnected callToolWithSession_disconnected error_reply_def split: sum.split)

theorem shipped_config_tools_fail_witness:
  "\<not> connected (mcp (full_step echo_agent [] (MCP_SERVERS_init Map.empty) init_server (Core (Ev_InitMCP 0 (Returns ()))))) \<and>
   ra_status (snd (mcp_route echo_agent []
     (full_step echo_agent [] (MCP_SERVERS_init Map.empty) init_server (Core (Ev_InitMCP 0 (Returns ()))))
     (Post_Tool ''transcribe_audio'' None (Some ''s1'') (Some (JObj [])) 1))) = 500"
proof -
  have r: "reach_full echo_agent [] (MCP_SERVERS_init Map.empty) (full_step echo_agent [] (MCP_SERVERS_init Map.empty) init_server
      (Core (Ev_InitMCP 0 (Returns ()))))"
    by (rule reach_full.full_step [OF full_init])
  show ?thesis using shipped_config_tools_fail [OF r] by simp
qed

end
